theory Spec2Isabelle
  imports Main "HOL-Library.Char_ord" "HOL-Library.List_Lexorder" "HOL-Library.Multiset"
begin

section \<open>Dates and the day string of a document\<close>

text \<open>
  A JavaScript \<open>Date\<close> that is not \<open>Invalid Date\<close> is its time value: the number of
  milliseconds since 1970-01-01T00:00:00Z. The monitor reads a date in two ways only:
  by subtraction in the sort comparator (\<open>b.date - a.date\<close>) and through
  \<open>date.toISOString().split('T')[0]\<close>, the UTC calendar day as a string.
  \<open>toISODate\<close> is that second reading: the proleptic Gregorian day of the time value,
  printed as \<open>YYYY-MM-DD\<close> (with the signed six-digit year of ECMAScript outside the
  years 0 to 9999). Strings are compared as JavaScript compares them, code unit by code
  unit, which on these ASCII strings is the lexicographic order of \<open>char list\<close>.
\<close>

definition digit :: "int \<Rightarrow> char" where
  "digit n = ''0123456789'' ! nat (n mod 10)"

definition pad2 :: "int \<Rightarrow> string" where
  "pad2 n = [digit (n div 10), digit n]"

definition pad4 :: "int \<Rightarrow> string" where
  "pad4 n = [digit (n div 1000), digit (n div 100), digit (n div 10), digit n]"

definition pad6 :: "int \<Rightarrow> string" where
  "pad6 n = [digit (n div 100000), digit (n div 10000)] @ pad4 n"

definition yearString :: "int \<Rightarrow> string" where
  "yearString y =
     (if 0 \<le> y \<and> y \<le> 9999 then pad4 y
      else if y < 0 then CHR ''-'' # pad6 (- y)
      else CHR ''+'' # pad6 y)"

definition msPerDay :: int where
  "msPerDay = 86400000"

text \<open>Year, month and day of month of a day number (days since 1970-01-01).\<close>

definition civilFromDays :: "int \<Rightarrow> int \<times> int \<times> int" where
  "civilFromDays dayNo =
     (let z = dayNo + 719468;
          era = z div 146097;
          doe = z - era * 146097;
          yoe = (doe - doe div 1460 + doe div 36524 - doe div 146096) div 365;
          doy = doe - (365 * yoe + yoe div 4 - yoe div 100);
          mp = (5 * doy + 2) div 153;
          d = doy - (153 * mp + 2) div 5 + 1;
          m = (if mp < 10 then mp + 3 else mp - 9);
          y = yoe + era * 400 + (if m \<le> 2 then 1 else 0)
      in (y, m, d))"

definition toISODate :: "int \<Rightarrow> string" where
  "toISODate t =
     (case civilFromDays (t div msPerDay) of
        (y, m, d) \<Rightarrow> yearString y @ ''-'' @ pad2 m @ ''-'' @ pad2 d)"

section \<open>Novelty filter\<close>

text \<open>
  \<open>isNewDocument(docDate, lastProcessedDate, todayDate)\<close>. The marker is
  \<open>lastProcessedState[applicationNumber]\<close>: \<open>None\<close> is \<open>undefined\<close> (no entry).
  The test \<open>if (lastProcessedDate)\<close> is JavaScript truthiness: it fails for
  \<open>undefined\<close> and for the empty string.
\<close>

definition truthy :: "string option \<Rightarrow> bool" where
  "truthy v = (case v of None \<Rightarrow> False | Some s \<Rightarrow> s \<noteq> [])"

definition isNewDocument :: "int \<Rightarrow> string option \<Rightarrow> string \<Rightarrow> bool" where
  "isNewDocument docDate lastProcessedDate todayDate =
     (let docDateStr = toISODate docDate
      in if truthy lastProcessedDate then the lastProcessedDate < docDateStr
         else todayDate \<le> docDateStr)"

section \<open>Documents, matters and the outside world\<close>

text \<open>
  A parsed document, as the two fetch functions build it. \<open>documentCode\<close> and
  \<open>category\<close> exist on patent documents only; \<open>driveLink\<close> and \<open>fileType\<close> are added
  by a successful upload. The date is a valid time value: both fetch functions drop the
  documents whose date is \<open>Invalid Date\<close>.
\<close>

record document =
  date :: int
  description :: string
  documentCode :: "string option"
  category :: "string option"
  link :: string
  driveLink :: "string option"
  fileType :: "string option"

text \<open>An entry of \<open>map.json\<close>.\<close>

record matter =
  applicationNumber :: string
  lawmaticsID :: string
  type :: string
  status :: "string option"

text \<open>One \<open>Document\<close> element of the trademark bundle, as \<open>xml2js\<close> returns it.\<close>

record trademark_raw =
  MailRoomDate :: "string list"
  ScanDateTime :: "string list"
  DocumentTypeDescriptionText :: "string list"
  UrlPathList :: "string list list"

text \<open>
  The value of a JSON field that is read as a date: the field is missing
  (\<open>undefined\<close>), \<open>null\<close>, or a string.
\<close>

datatype jsvalue = JUndefined | JNull | JString string

text \<open>One element of the patent \<open>documentBag\<close>.\<close>

record patent_raw =
  officialDate :: jsvalue
  documentCodeDescriptionText :: "string option"
  rawDocumentCode :: "string option"
  directionCategory :: "string option"
  downloadOptionBag :: "string option list"

text \<open>
  What a registry request can do inside the \<open>try\<close> block of a fetch function: the request
  rejects (timeout, network error, a status that is not 2xx), the body cannot be parsed
  or walked (an exception while parsing or mapping), or the payload yields its document
  array (empty when the payload has none).
\<close>

datatype 'raw response =
    RequestFails string
  | PayloadMalformed string
  | Documents "'raw list"

datatype exn = Error string

text \<open>
  The calls the monitor makes to the outside, in the order it makes them. The last two
  are not external: \<open>SetLastProcessed\<close> marks the assignment
  \<open>lastProcessedState[applicationNumber] = ...\<close> and \<open>PipelineStart\<close> the entry of a
  document into the side-effect chain, so that their position among the calls can be
  stated. \<open>StatusWrite\<close> is a write of \<open>map.json\<close> with a new status for a matter,
  \<open>StatusWriteFailed\<close> such a write that threw.
\<close>

datatype event =
    GetTrademark string
  | GetPatent string
  | DriveUpload string document
  | SendMail string document
  | ProspectPut string string document
  | ProspectGet string
  | FormSubmit string string document
  | SummaryMail nat nat nat
  | ConfirmationMail nat nat
  | StatusWrite string string
  | StatusWriteFailed string string
  | SetLastProcessed string string
  | PipelineStart string document

text \<open>
  The outside world answers each call; the answer may depend on everything that happened
  before (the first argument is the history of calls), so the same request can succeed
  once and fail later. \<open>parseDate\<close> is the runtime's \<open>new Date(string)\<close>, with \<open>None\<close> for
  \<open>Invalid Date\<close>; \<open>now\<close> is the time value of \<open>new Date()\<close> at the start of a run.
  \<open>driveUpload\<close> answers with the link of the uploaded file, or \<open>None\<close> when the download
  or the upload throws; \<open>mailError\<close>, \<open>summaryMailError\<close> and \<open>browserCloseError\<close> answer
  \<open>None\<close> when the call resolves and the message of the rejection otherwise.
  \<open>mapWriteFails\<close> tells whether \<open>fs.writeFileSync\<close> throws on \<open>map.json\<close>.
\<close>

record env =
  parseDate :: "string \<Rightarrow> int option"
  now :: int
  trademarkGet :: "event list \<Rightarrow> string \<Rightarrow> trademark_raw response"
  patentGet :: "event list \<Rightarrow> string \<Rightarrow> patent_raw response"
  driveUpload :: "event list \<Rightarrow> string \<Rightarrow> document \<Rightarrow> string option"
  mailError :: "event list \<Rightarrow> string \<Rightarrow> document \<Rightarrow> string option"
  prospectAttributes :: "event list \<Rightarrow> string \<Rightarrow> string option"
  browserLaunches :: "event list \<Rightarrow> string \<Rightarrow> bool"
  browserCloseError :: "event list \<Rightarrow> string \<Rightarrow> string option"
  summaryMailError :: "event list \<Rightarrow> string option"
  mapWriteFails :: "event list \<Rightarrow> bool"

text \<open>
  The state a run reads and writes: the history of calls, the two JSON files
  (\<open>map.json\<close> and \<open>lastProcessedState.json\<close>) and the controller's in-flight set.
  \<open>mapFile\<close> is what \<open>loadMatters\<close> returns (the empty list for a file that is
  missing or cannot be read), \<open>stateFile\<close> what \<open>loadLastProcessedState\<close> returns.
  Writing \<open>map.json\<close> can fail; reading the two files and writing
  \<open>lastProcessedState.json\<close> are taken to succeed. Console output, the fixed delays
  and the controller's periodic status snapshot are left out.
\<close>

record world =
  trace :: "event list"
  mapFile :: "matter list"
  stateFile :: "string \<rightharpoonup> string"
  currentlyProcessing :: "string set"

definition emit :: "event \<Rightarrow> world \<Rightarrow> world" where
  "emit e w = w\<lparr>trace := trace w @ [e]\<rparr>"

section \<open>Document source adapter\<close>

definition first :: "'a list \<Rightarrow> 'a option" where
  "first xs = (case xs of [] \<Rightarrow> None | x # _ \<Rightarrow> Some x)"

text \<open>\<open>v || d\<close> on a string that may be \<open>undefined\<close>.\<close>

definition orElse :: "string option \<Rightarrow> string \<Rightarrow> string" where
  "orElse v d = (if truthy v then the v else d)"

definition isDigit :: "char \<Rightarrow> bool" where
  "isDigit c = (CHR ''0'' \<le> c \<and> c \<le> CHR ''9'')"

text \<open>\<open>rawDate.replace(/-\d{2}:\d{2}$/, "")\<close>: a trailing zone offset is cut off.\<close>

fun isOffset :: "string \<Rightarrow> bool" where
  "isOffset [a, b, c, d, e, f] =
     (a = CHR ''-'' \<and> isDigit b \<and> isDigit c \<and> d = CHR '':'' \<and> isDigit e \<and> isDigit f)"
| "isOffset _ = False"

definition cleanDate :: "string \<Rightarrow> string" where
  "cleanDate rawDate =
     (let n = length rawDate
      in if 6 \<le> n \<and> isOffset (drop (n - 6) rawDate) then take (n - 6) rawDate else rawDate)"

text \<open>
  The \<open>.map(...)\<close> and \<open>.filter(...)\<close> of \<open>fetchAllTrademarkDocs\<close> on one element:
  \<open>None\<close> when the date is \<open>Invalid Date\<close> and the element is filtered out.
\<close>

definition parseTrademarkDoc :: "env \<Rightarrow> trademark_raw \<Rightarrow> document option" where
  "parseTrademarkDoc E doc =
     (let rawDate = orElse (first (MailRoomDate doc)) (orElse (first (ScanDateTime doc)) '''');
          cleanedDate = cleanDate rawDate
      in case parseDate E cleanedDate of
           None \<Rightarrow> None
         | Some dateObj \<Rightarrow>
             Some \<lparr>date = dateObj,
                   description = orElse (first (DocumentTypeDescriptionText doc)) ''Unknown'',
                   documentCode = None,
                   category = None,
                   link = orElse (case UrlPathList doc of [] \<Rightarrow> None | u # _ \<Rightarrow> first u) ''N/A'',
                   driveLink = None,
                   fileType = None\<rparr>)"

text \<open>
  \<open>new Date(v)\<close> on such a value: \<open>Invalid Date\<close> for \<open>undefined\<close>, the time value 0
  (1970-01-01) for \<open>null\<close>, which is converted to the number 0, and the parsed date for
  a string.
\<close>

definition newDate :: "env \<Rightarrow> jsvalue \<Rightarrow> int option" where
  "newDate E v = (case v of JUndefined \<Rightarrow> None | JNull \<Rightarrow> Some 0 | JString s \<Rightarrow> parseDate E s)"

text \<open>
  The \<open>.map(...)\<close> and \<open>.filter(...)\<close> of \<open>fetchAllPatentDocs\<close> on one element:
  \<open>None\<close> when \<open>isNaN(doc.date)\<close> and the element is filtered out.
\<close>

definition parsePatentDoc :: "env \<Rightarrow> patent_raw \<Rightarrow> document option" where
  "parsePatentDoc E doc =
     (case newDate E (officialDate doc) of
        None \<Rightarrow> None
      | Some dateObj \<Rightarrow>
          Some \<lparr>date = dateObj,
                description = orElse (documentCodeDescriptionText doc) ''Unknown'',
                documentCode = Some (orElse (rawDocumentCode doc) ''N/A''),
                category = Some (orElse (directionCategory doc) ''N/A''),
                link = orElse (case downloadOptionBag doc of [] \<Rightarrow> None | u # _ \<Rightarrow> u) ''N/A'',
                driveLink = None,
                fileType = None\<rparr>)"

text \<open>\<open>.sort((a, b) => b.date - a.date)\<close>: a stable sort, latest first.\<close>

definition sortLatestFirst :: "document list \<Rightarrow> document list" where
  "sortLatestFirst docs = sort_key (\<lambda>d. - date d) docs"

text \<open>The \<open>try\<close> block of \<open>fetchAllTrademarkDocs\<close>, then the function with its \<open>catch\<close>.\<close>

definition fetchAllTrademarkDocs_try ::
  "env \<Rightarrow> string \<Rightarrow> world \<Rightarrow> (exn + document list) \<times> world" where
  "fetchAllTrademarkDocs_try E appNo w =
     (let w1 = emit (GetTrademark appNo) w
      in case trademarkGet E (trace w) appNo of
           RequestFails msg \<Rightarrow> (Inl (Error msg), w1)
         | PayloadMalformed msg \<Rightarrow> (Inl (Error msg), w1)
         | Documents docs \<Rightarrow>
             if length docs = 0 then (Inr [], w1)
             else (Inr (sortLatestFirst (List.map_filter (parseTrademarkDoc E) docs)), w1))"

definition fetchAllTrademarkDocs :: "env \<Rightarrow> string \<Rightarrow> world \<Rightarrow> document list \<times> world" where
  "fetchAllTrademarkDocs E appNo w =
     (case fetchAllTrademarkDocs_try E appNo w of
        (Inr parsedDocs, w1) \<Rightarrow> (parsedDocs, w1)
      | (Inl error, w1) \<Rightarrow> ([], w1))"

definition fetchAllPatentDocs_try ::
  "env \<Rightarrow> string \<Rightarrow> world \<Rightarrow> (exn + document list) \<times> world" where
  "fetchAllPatentDocs_try E appNo w =
     (let w1 = emit (GetPatent appNo) w
      in case patentGet E (trace w) appNo of
           RequestFails msg \<Rightarrow> (Inl (Error msg), w1)
         | PayloadMalformed msg \<Rightarrow> (Inl (Error msg), w1)
         | Documents docs \<Rightarrow>
             if length docs = 0 then (Inr [], w1)
             else (Inr (sortLatestFirst (List.map_filter (parsePatentDoc E) docs)), w1))"

definition fetchAllPatentDocs :: "env \<Rightarrow> string \<Rightarrow> world \<Rightarrow> document list \<times> world" where
  "fetchAllPatentDocs E appNo w =
     (case fetchAllPatentDocs_try E appNo w of
        (Inr parsedDocs, w1) \<Rightarrow> (parsedDocs, w1)
      | (Inl error, w1) \<Rightarrow> ([], w1))"

section \<open>Side-effect pipeline of the unified monitor\<close>

text \<open>
  The functions of \<open>lib/unified-uspto-monitor.js\<close>. Each takes the world and returns it
  with the calls it made appended to the history. A function whose body is wrapped in
  \<open>try\<close>/\<open>catch\<close> returns a plain value; one that can let an exception escape returns
  \<open>exn + 'a\<close>.
\<close>

fun startsWith :: "string \<Rightarrow> string \<Rightarrow> bool" where
  "startsWith s [] = True"
| "startsWith [] (p # ps) = False"
| "startsWith (c # cs) (p # ps) = (c = p \<and> startsWith cs ps)"

fun includesStr :: "string \<Rightarrow> string \<Rightarrow> bool" where
  "includesStr [] sub = (sub = [])"
| "includesStr (c # cs) sub = (startsWith (c # cs) sub \<or> includesStr cs sub)"

text \<open>\<open>mimeType.split('/')[1]\<close> for the file the upload stores.\<close>

definition uploadFileType :: "string \<Rightarrow> string \<Rightarrow> string" where
  "uploadFileType ty docLink =
     (if ty = ''Patent'' then ''pdf''
      else if includesStr docLink ''/webcontent'' then ''pdf''
      else if includesStr docLink ''.xml'' then ''xml''
      else ''pdf'')"

text \<open>
  \<open>downloadAndUploadToDrive\<close>: download, temporary file and upload are one \<open>try\<close>
  block; \<open>driveUpload\<close> answers with the \<open>webViewLink\<close>, or \<open>None\<close> when any of them
  throws, and then the original document is returned.
\<close>

definition downloadAndUploadToDrive ::
  "env \<Rightarrow> string \<Rightarrow> document \<Rightarrow> string \<Rightarrow> world \<Rightarrow> document \<times> world" where
  "downloadAndUploadToDrive E appNo latestDoc ty w =
     (if link latestDoc = [] \<or> link latestDoc = ''N/A'' then (latestDoc, w)
      else
        let w1 = emit (DriveUpload appNo latestDoc) w
        in case driveUpload E (trace w) appNo latestDoc of
             Some webViewLink \<Rightarrow>
               (latestDoc\<lparr>driveLink := Some webViewLink,
                           fileType := Some (uploadFileType ty (link latestDoc))\<rparr>, w1)
           | None \<Rightarrow> (latestDoc, w1))"

text \<open>
  \<open>sendEmailNotification\<close> awaits \<open>transporter.sendMail\<close> with no \<open>try\<close> around it: a
  rejection is thrown to the caller.
\<close>

definition sendEmailNotification ::
  "env \<Rightarrow> string \<Rightarrow> document \<Rightarrow> string \<Rightarrow> world \<Rightarrow> (exn + unit) \<times> world" where
  "sendEmailNotification E appNo latestDoc ty w =
     (let w1 = emit (SendMail appNo latestDoc) w
      in case mailError E (trace w) appNo latestDoc of
           Some msg \<Rightarrow> (Inl (Error msg), w1)
         | None \<Rightarrow> (Inr (), w1))"

text \<open>\<open>updateLawmaticsProspect\<close>: the whole body is in a \<open>try\<close>; a failed PUT is logged.\<close>

definition updateLawmaticsProspect ::
  "env \<Rightarrow> string \<Rightarrow> string \<Rightarrow> document \<Rightarrow> string \<Rightarrow> world \<Rightarrow> world" where
  "updateLawmaticsProspect E lawmaticsId appNo latestDoc ty w =
     emit (ProspectPut lawmaticsId appNo latestDoc) w"

text \<open>\<open>getProspect\<close>: the attributes of the prospect, \<open>null\<close> when the request fails.\<close>

definition getProspect :: "env \<Rightarrow> string \<Rightarrow> world \<Rightarrow> string option \<times> world" where
  "getProspect E lawmaticsId w =
     (prospectAttributes E (trace w) lawmaticsId, emit (ProspectGet lawmaticsId) w)"

text \<open>
  \<open>submitFormWithPuppeteer\<close>: everything from the launch to the submission is in the
  \<open>try\<close> block and its failures are caught. The \<open>finally\<close> block closes the browser if one
  was launched; a rejection of \<open>browser.close()\<close> there is not caught.
\<close>

definition submitFormWithPuppeteer ::
  "env \<Rightarrow> string \<Rightarrow> string \<Rightarrow> document \<Rightarrow> string \<Rightarrow> world \<Rightarrow> (exn + unit) \<times> world" where
  "submitFormWithPuppeteer E matterId appNo latestDoc ty w =
     (let w1 = emit (FormSubmit matterId appNo latestDoc) w
      in if browserLaunches E (trace w) matterId then
           (case browserCloseError E (trace w) matterId of
              Some msg \<Rightarrow> (Inl (Error msg), w1)
            | None \<Rightarrow> (Inr (), w1))
         else (Inr (), w1))"

text \<open>\<open>processSingleDocument\<close> returns \<open>{processed: true, docDate}\<close>; the date is kept.\<close>

definition processSingleDocument ::
  "env \<Rightarrow> matter \<Rightarrow> document \<Rightarrow> string \<Rightarrow> world \<Rightarrow> (exn + int) \<times> world" where
  "processSingleDocument E m doc ty w =
     (let w0 = emit (PipelineStart (applicationNumber m) doc) w;
          (processedDoc, w1) = downloadAndUploadToDrive E (applicationNumber m) doc ty w0
      in case sendEmailNotification E (applicationNumber m) processedDoc ty w1 of
           (Inl e, w2) \<Rightarrow> (Inl e, w2)
         | (Inr u, w2) \<Rightarrow>
             let w3 = updateLawmaticsProspect E (lawmaticsID m) (applicationNumber m) processedDoc ty w2;
                 (prospectData, w4) = getProspect E (lawmaticsID m) w3
             in if prospectData \<noteq> None then
                  (case submitFormWithPuppeteer E (lawmaticsID m) (applicationNumber m) processedDoc ty w4 of
                     (Inl e, w5) \<Rightarrow> (Inl e, w5)
                   | (Inr u, w5) \<Rightarrow> (Inr (date processedDoc), w5))
                else (Inr (date processedDoc), w4))"

section \<open>Processing one matter (unified monitor)\<close>

text \<open>
  What \<open>processMatter\<close> returns. The copies of the matter's application number and type
  and of the first document's description are left out.
\<close>

record matter_result =
  processed :: bool
  reason :: "string option"
  docCount :: nat
  latestDocDate :: "string option"
  multiDoc :: bool

text \<open>
  The \<open>for\<close> loop over \<open>latestDateDocs\<close>: an exception of \<open>processSingleDocument\<close> leaves
  the loop and the function.
\<close>

fun processLatestDateDocs ::
  "env \<Rightarrow> matter \<Rightarrow> string \<Rightarrow> document list \<Rightarrow> nat \<Rightarrow> world \<Rightarrow> (exn + nat) \<times> world" where
  "processLatestDateDocs E m ty [] totalProcessed w = (Inr totalProcessed, w)"
| "processLatestDateDocs E m ty (doc # rest) totalProcessed w =
     (case processSingleDocument E m doc ty w of
        (Inl e, w1) \<Rightarrow> (Inl e, w1)
      | (Inr d, w1) \<Rightarrow> processLatestDateDocs E m ty rest (totalProcessed + 1) w1)"

text \<open>
  \<open>processMatter(matter, lastProcessedState, todayDate)\<close>. The state object is mutated in
  place by the source; here it is passed in and returned. When an exception escapes, the
  assignment to the state has not been reached and the state comes back unchanged.
\<close>

definition processMatter ::
  "env \<Rightarrow> matter \<Rightarrow> (string \<rightharpoonup> string) \<Rightarrow> string \<Rightarrow> world
     \<Rightarrow> (exn + matter_result) \<times> (string \<rightharpoonup> string) \<times> world" where
  "processMatter E m lastProcessedState todayDate w =
     (case (if type m = ''Patent'' then Some (fetchAllPatentDocs E (applicationNumber m) w)
            else if type m = ''Trademark'' then Some (fetchAllTrademarkDocs E (applicationNumber m) w)
            else None) of
        None \<Rightarrow>
          (Inr \<lparr>processed = False, reason = Some ''unknown_type'', docCount = 0,
                latestDocDate = None, multiDoc = False\<rparr>, lastProcessedState, w)
      | Some (allDocs, w1) \<Rightarrow>
           if length allDocs = 0 then
             (Inr \<lparr>processed = False, reason = Some ''no_documents'', docCount = 0,
                   latestDocDate = None, multiDoc = False\<rparr>, lastProcessedState, w1)
           else
             let lastProcessedDate = lastProcessedState (applicationNumber m);
                 newDocs = filter (\<lambda>doc. isNewDocument (date doc) lastProcessedDate todayDate) allDocs
             in if length newDocs = 0 then
                  (Inr \<lparr>processed = False, reason = Some ''not_new'', docCount = 0,
                        latestDocDate = Some (toISODate (date (hd allDocs))), multiDoc = False\<rparr>,
                   lastProcessedState, w1)
                else
                  let latestDate = toISODate (date (hd newDocs));
                      latestDateDocs = filter (\<lambda>doc. toISODate (date doc) = latestDate) newDocs
                  in case processLatestDateDocs E m (type m) latestDateDocs 0 w1 of
                       (Inl e, w2) \<Rightarrow> (Inl e, lastProcessedState, w2)
                     | (Inr totalProcessed, w2) \<Rightarrow>
                         (Inr \<lparr>processed = (0 < totalProcessed), reason = None,
                               docCount = totalProcessed, latestDocDate = Some latestDate,
                               multiDoc = (1 < length latestDateDocs)\<rparr>,
                          lastProcessedState(applicationNumber m \<mapsto> latestDate),
                          emit (SetLastProcessed (applicationNumber m) latestDate) w2))"

section \<open>Processing one matter (Googlecron.js)\<close>

text \<open>
  \<open>Googlecron.js\<close> is the module the automation controller imports. Its fetch functions
  parse and sort like the unified ones and return the first document only
  (\<open>parsedDocs[0]\<close>, or \<open>null\<close>).
\<close>

definition fetchTrademarkDoc :: "env \<Rightarrow> string \<Rightarrow> world \<Rightarrow> document option \<times> world" where
  "fetchTrademarkDoc E appNo w =
     (let w1 = emit (GetTrademark appNo) w
      in case trademarkGet E (trace w) appNo of
           RequestFails msg \<Rightarrow> (None, w1)
         | PayloadMalformed msg \<Rightarrow> (None, w1)
         | Documents docs \<Rightarrow>
             if length docs = 0 then (None, w1)
             else (first (sortLatestFirst (List.map_filter (parseTrademarkDoc E) docs)), w1))"

definition fetchPatentDoc :: "env \<Rightarrow> string \<Rightarrow> world \<Rightarrow> document option \<times> world" where
  "fetchPatentDoc E appNo w =
     (let w1 = emit (GetPatent appNo) w
      in case patentGet E (trace w) appNo of
           RequestFails msg \<Rightarrow> (None, w1)
         | PayloadMalformed msg \<Rightarrow> (None, w1)
         | Documents docs \<Rightarrow>
             if length docs = 0 then (None, w1)
             else (first (sortLatestFirst (List.map_filter (parsePatentDoc E) docs)), w1))"

text \<open>The upload of \<open>Googlecron.js\<close> records the drive link only.\<close>

definition Googlecron_downloadAndUploadToDrive ::
  "env \<Rightarrow> string \<Rightarrow> document \<Rightarrow> string \<Rightarrow> world \<Rightarrow> document \<times> world" where
  "Googlecron_downloadAndUploadToDrive E appNo latestDoc ty w =
     (if link latestDoc = [] \<or> link latestDoc = ''N/A'' then (latestDoc, w)
      else
        let w1 = emit (DriveUpload appNo latestDoc) w
        in case driveUpload E (trace w) appNo latestDoc of
             Some webViewLink \<Rightarrow> (latestDoc\<lparr>driveLink := Some webViewLink\<rparr>, w1)
           | None \<Rightarrow> (latestDoc, w1))"

text \<open>Its \<open>sendEmailNotification\<close> catches a failed send and logs it.\<close>

definition Googlecron_sendEmailNotification ::
  "env \<Rightarrow> string \<Rightarrow> document \<Rightarrow> string \<Rightarrow> world \<Rightarrow> world" where
  "Googlecron_sendEmailNotification E appNo latestDoc ty w = emit (SendMail appNo latestDoc) w"

text \<open>
  Its \<open>submitFormWithPuppeteer\<close> starts with \<open>browser = null\<close> and ends with
  \<open>finally { await browser.close(); }\<close>, with no test of \<open>browser\<close>: when the launch
  fails, the \<open>finally\<close> block throws a \<open>TypeError\<close>.
\<close>

definition Googlecron_submitFormWithPuppeteer ::
  "env \<Rightarrow> string \<Rightarrow> string \<Rightarrow> document \<Rightarrow> string \<Rightarrow> world \<Rightarrow> (exn + unit) \<times> world" where
  "Googlecron_submitFormWithPuppeteer E matterId appNo latestDoc ty w =
     (let w1 = emit (FormSubmit matterId appNo latestDoc) w
      in if browserLaunches E (trace w) matterId then
           (case browserCloseError E (trace w) matterId of
              Some msg \<Rightarrow> (Inl (Error msg), w1)
            | None \<Rightarrow> (Inr (), w1))
         else (Inl (Error ''Cannot read properties of null (reading close)''), w1))"

text \<open>
  \<open>processMatter\<close> of \<open>Googlecron.js\<close>: one document, the latest, and the same chain
  written inline. It returns \<open>{processed, reason}\<close>.
\<close>

definition Googlecron_finish ::
  "matter \<Rightarrow> string \<Rightarrow> (string \<rightharpoonup> string) \<Rightarrow> world
     \<Rightarrow> (exn + matter_result) \<times> (string \<rightharpoonup> string) \<times> world" where
  "Googlecron_finish m docDateStr lastProcessedState w =
     (Inr \<lparr>processed = True, reason = None, docCount = 1,
           latestDocDate = Some docDateStr, multiDoc = False\<rparr>,
      lastProcessedState(applicationNumber m \<mapsto> docDateStr),
      emit (SetLastProcessed (applicationNumber m) docDateStr) w)"

definition Googlecron_processMatter ::
  "env \<Rightarrow> matter \<Rightarrow> (string \<rightharpoonup> string) \<Rightarrow> string \<Rightarrow> world
     \<Rightarrow> (exn + matter_result) \<times> (string \<rightharpoonup> string) \<times> world" where
  "Googlecron_processMatter E m lastProcessedState todayDate w =
     (case (if type m = ''Patent'' then Some (fetchPatentDoc E (applicationNumber m) w)
            else if type m = ''Trademark'' then Some (fetchTrademarkDoc E (applicationNumber m) w)
            else None) of
        None \<Rightarrow>
          (Inr \<lparr>processed = False, reason = Some ''unknown_type'', docCount = 0,
                latestDocDate = None, multiDoc = False\<rparr>, lastProcessedState, w)
      | Some (fetched, w1) \<Rightarrow>
           case fetched of
             None \<Rightarrow>
               (Inr \<lparr>processed = False, reason = Some ''no_documents'', docCount = 0,
                     latestDocDate = None, multiDoc = False\<rparr>, lastProcessedState, w1)
           | Some latestDoc \<Rightarrow>
               let lastProcessedDate = lastProcessedState (applicationNumber m);
                   docDateStr = toISODate (date latestDoc);
                   isNew = isNewDocument (date latestDoc) lastProcessedDate todayDate
               in if \<not> isNew then
                    (Inr \<lparr>processed = False, reason = Some ''not_new'', docCount = 0,
                          latestDocDate = Some docDateStr, multiDoc = False\<rparr>,
                     lastProcessedState, w1)
                  else
                    let w2 = emit (PipelineStart (applicationNumber m) latestDoc) w1;
                        (uploadedDoc, w3) =
                          Googlecron_downloadAndUploadToDrive E (applicationNumber m) latestDoc (type m) w2;
                        w4 = Googlecron_sendEmailNotification E (applicationNumber m) uploadedDoc (type m) w3;
                        w5 = updateLawmaticsProspect E (lawmaticsID m) (applicationNumber m) uploadedDoc (type m) w4;
                        (prospectData, w6) = getProspect E (lawmaticsID m) w5
                    in if prospectData \<noteq> None then
                         (case Googlecron_submitFormWithPuppeteer E (lawmaticsID m)
                                 (applicationNumber m) uploadedDoc (type m) w6 of
                            (Inl e, w7) \<Rightarrow> (Inl e, lastProcessedState, w7)
                          | (Inr u, w7) \<Rightarrow> Googlecron_finish m docDateStr lastProcessedState w7)
                       else Googlecron_finish m docDateStr lastProcessedState w6)"

section \<open>Sweeps over all matters\<close>

text \<open>
  \<open>sendSummaryEmail\<close> of the unified monitor awaits \<open>transporter.sendMail\<close> without a
  \<open>try\<close>; \<open>sendConfirmationEmail\<close> of \<open>Googlecron.js\<close> catches a failed send.
\<close>

definition sendSummaryEmail :: "env \<Rightarrow> nat \<Rightarrow> nat \<Rightarrow> nat \<Rightarrow> world \<Rightarrow> (exn + unit) \<times> world" where
  "sendSummaryEmail E updatedCount totalCount totalDocs w =
     (let w1 = emit (SummaryMail updatedCount totalCount totalDocs) w
      in case summaryMailError E (trace w) of
           Some msg \<Rightarrow> (Inl (Error msg), w1)
         | None \<Rightarrow> (Inr (), w1))"

definition sendConfirmationEmail :: "env \<Rightarrow> nat \<Rightarrow> nat \<Rightarrow> world \<Rightarrow> world" where
  "sendConfirmationEmail E processedCount totalCount w =
     emit (ConfirmationMail processedCount totalCount) w"

text \<open>\<open>getTodayDateKey()\<close>.\<close>

definition getTodayDateKey :: "env \<Rightarrow> string" where
  "getTodayDateKey E = toISODate (now E)"

record sweep_result =
  sweepSuccess :: bool
  sweepError :: "string option"
  totalMatters :: nat
  updatedMatters :: nat
  totalDocuments :: nat

text \<open>
  The \<open>for (const matter of matters)\<close> loop of \<open>processAllMatters\<close> in the unified
  monitor. The call of \<open>processMatter\<close> has no \<open>try\<close> of its own inside the loop.
\<close>

fun sweepLoop ::
  "env \<Rightarrow> matter list \<Rightarrow> (string \<rightharpoonup> string) \<Rightarrow> string \<Rightarrow> matter_result list \<Rightarrow> nat \<Rightarrow> world
     \<Rightarrow> (exn + matter_result list \<times> nat) \<times> (string \<rightharpoonup> string) \<times> world" where
  "sweepLoop E [] lastProcessedState todayDate updated totalDocs w =
     (Inr (updated, totalDocs), lastProcessedState, w)"
| "sweepLoop E (m # ms) lastProcessedState todayDate updated totalDocs w =
     (case processMatter E m lastProcessedState todayDate w of
        (Inl e, st1, w1) \<Rightarrow> (Inl e, st1, w1)
      | (Inr result, st1, w1) \<Rightarrow>
          if processed result then
            sweepLoop E ms st1 todayDate (updated @ [result]) (totalDocs + docCount result) w1
          else sweepLoop E ms st1 todayDate updated totalDocs w1)"

definition sweepFailure :: "string \<Rightarrow> sweep_result" where
  "sweepFailure msg =
     \<lparr>sweepSuccess = False, sweepError = Some msg, totalMatters = 0, updatedMatters = 0,
      totalDocuments = 0\<rparr>"

text \<open>
  \<open>processAllMatters\<close> of the unified monitor: one \<open>try\<close> around the whole function, whose
  \<open>catch\<close> returns \<open>{success: false, error}\<close>. The state file is written after the loop.
\<close>

definition processAllMatters :: "env \<Rightarrow> world \<Rightarrow> sweep_result \<times> world" where
  "processAllMatters E w =
     (let matters = mapFile w;
          lastProcessedState = stateFile w;
          todayDate = getTodayDateKey E
      in if length matters = 0 then (sweepFailure ''No matters found'', w)
         else
           case sweepLoop E matters lastProcessedState todayDate [] 0 w of
             (Inl (Error msg), st1, w1) \<Rightarrow> (sweepFailure msg, w1)
           | (Inr (updated, totalDocs), st1, w1) \<Rightarrow>
               let w2 = w1\<lparr>stateFile := st1\<rparr>
               in case sendSummaryEmail E (length updated) (length matters) totalDocs w2 of
                    (Inl (Error msg), w3) \<Rightarrow> (sweepFailure msg, w3)
                  | (Inr u, w3) \<Rightarrow>
                      (\<lparr>sweepSuccess = True, sweepError = None, totalMatters = length matters,
                        updatedMatters = length updated, totalDocuments = totalDocs\<rparr>, w3))"

text \<open>The same loop and function in \<open>Googlecron.js\<close>; the function returns nothing.\<close>

fun Googlecron_sweepLoop ::
  "env \<Rightarrow> matter list \<Rightarrow> (string \<rightharpoonup> string) \<Rightarrow> string \<Rightarrow> nat \<Rightarrow> world
     \<Rightarrow> (exn + nat) \<times> (string \<rightharpoonup> string) \<times> world" where
  "Googlecron_sweepLoop E [] lastProcessedState todayDate processedCount w =
     (Inr processedCount, lastProcessedState, w)"
| "Googlecron_sweepLoop E (m # ms) lastProcessedState todayDate processedCount w =
     (case Googlecron_processMatter E m lastProcessedState todayDate w of
        (Inl e, st1, w1) \<Rightarrow> (Inl e, st1, w1)
      | (Inr result, st1, w1) \<Rightarrow>
          Googlecron_sweepLoop E ms st1 todayDate
            (if processed result then processedCount + 1 else processedCount) w1)"

definition Googlecron_processAllMatters :: "env \<Rightarrow> world \<Rightarrow> world" where
  "Googlecron_processAllMatters E w =
     (let matters = mapFile w;
          lastProcessedState = stateFile w;
          todayDate = getTodayDateKey E
      in if length matters = 0 then w
         else
           case Googlecron_sweepLoop E matters lastProcessedState todayDate 0 w of
             (Inl e, st1, w1) \<Rightarrow> w1
           | (Inr processedCount, st1, w1) \<Rightarrow>
               let w2 = w1\<lparr>stateFile := st1\<rparr>
               in if processedCount = 0 then sendConfirmationEmail E processedCount (length matters) w2
                  else w2)"

section \<open>Automation controller\<close>

text \<open>
  The controller (\<open>automation-controller.js\<close>) works on \<open>map.json\<close> and on its set
  \<open>currentlyProcessing\<close>, and calls the functions of \<open>Googlecron.js\<close>.
\<close>

fun findIndex :: "('a \<Rightarrow> bool) \<Rightarrow> 'a list \<Rightarrow> nat option" where
  "findIndex P [] = None"
| "findIndex P (x # xs) = (if P x then Some 0 else map_option Suc (findIndex P xs))"

text \<open>
  \<open>updateMatterStatus\<close>: the first matter with the identifier gets the status and the
  file is rewritten; \<open>false\<close> when there is none. When the write throws, the \<open>catch\<close>
  block logs and returns \<open>false\<close>, and the file is as it was. The \<open>lastUpdated\<close> stamp
  is left out.
\<close>

definition updateMatterStatus :: "env \<Rightarrow> string \<Rightarrow> string \<Rightarrow> world \<Rightarrow> bool \<times> world" where
  "updateMatterStatus E lawmaticsId newStatus w =
     (let matters = mapFile w
      in case findIndex (\<lambda>m. lawmaticsID m = lawmaticsId) matters of
           Some matterIndex \<Rightarrow>
             if mapWriteFails E (trace w) then (False, emit (StatusWriteFailed lawmaticsId newStatus) w)
             else
               (True,
                emit (StatusWrite lawmaticsId newStatus)
                  (w\<lparr>mapFile := matters[matterIndex := (matters ! matterIndex)\<lparr>status := Some newStatus\<rparr>]\<rparr>))
         | None \<Rightarrow> (False, w))"

definition getMattersByIds :: "string list \<Rightarrow> world \<Rightarrow> matter list" where
  "getMattersByIds lawmaticsIds w = filter (\<lambda>m. lawmaticsID m \<in> set lawmaticsIds) (mapFile w)"

text \<open>
  What \<open>processSingleMatter\<close> returns, and what \<open>processMultipleMatters\<close> pushes for each
  matter: \<open>{success, message}\<close>, with \<open>processed\<close> when the matter was processed.
\<close>

record attempt_result =
  success :: bool
  message :: string
  processedFlag :: "bool option"

text \<open>The \<open>try\<close> block of \<open>processSingleMatter\<close>, after the identifier was added to the set.\<close>

definition processSingleMatter_try :: "env \<Rightarrow> string \<Rightarrow> world \<Rightarrow> (exn + attempt_result) \<times> world" where
  "processSingleMatter_try E lawmaticsId w =
     (let (u, w1) = updateMatterStatus E lawmaticsId ''Processing...'' w;
          matters = getMattersByIds [lawmaticsId] w1
      in if length matters = 0 then
           (let (u, w2) = updateMatterStatus E lawmaticsId ''Failed - Not Found'' w1
            in (Inr \<lparr>success = False, message = ''Matter not found'', processedFlag = None\<rparr>, w2))
         else
           let m = hd matters;
               lastProcessedState = stateFile w1;
               todayDate = getTodayDateKey E
           in case Googlecron_processMatter E m lastProcessedState todayDate w1 of
                (Inl e, st1, w2) \<Rightarrow> (Inl e, w2)
              | (Inr result, st1, w2) \<Rightarrow>
                  let w3 = w2\<lparr>stateFile := st1\<rparr>;
                      finalStatus = (if processed result then ''Automation Completed'' else ''No Updates Found'');
                      (u, w4) = updateMatterStatus E lawmaticsId finalStatus w3
                  in (Inr \<lparr>success = True,
                           message = (if processed result then ''New document processed''
                                      else ''No new documents found''),
                           processedFlag = Some (processed result)\<rparr>, w4))"

text \<open>\<open>processSingleMatter\<close>: the guard, then \<open>try\<close>, \<open>catch\<close> and \<open>finally\<close>.\<close>

definition processSingleMatter :: "env \<Rightarrow> string \<Rightarrow> world \<Rightarrow> attempt_result \<times> world" where
  "processSingleMatter E lawmaticsId w =
     (if lawmaticsId \<in> currentlyProcessing w then
        (\<lparr>success = False, message = ''Matter is already being processed'', processedFlag = None\<rparr>, w)
      else
        let w0 = w\<lparr>currentlyProcessing := insert lawmaticsId (currentlyProcessing w)\<rparr>;
            (r, w2) =
              (case processSingleMatter_try E lawmaticsId w0 of
                 (Inr r, w1) \<Rightarrow> (r, w1)
               | (Inl (Error msg), w1) \<Rightarrow>
                   (let (u, w2) = updateMatterStatus E lawmaticsId ''Failed'' w1
                    in (\<lparr>success = False, message = msg, processedFlag = None\<rparr>, w2)))
        in (r, w2\<lparr>currentlyProcessing := currentlyProcessing w2 - {lawmaticsId}\<rparr>))"

text \<open>The body of the second \<open>for\<close> loop of \<open>processMultipleMatters\<close>, for one matter.\<close>

definition batchStep ::
  "env \<Rightarrow> matter \<Rightarrow> (string \<rightharpoonup> string) \<Rightarrow> string \<Rightarrow> (string \<times> attempt_result) list \<Rightarrow> nat \<Rightarrow> world
     \<Rightarrow> (string \<times> attempt_result) list \<times> nat \<times> (string \<rightharpoonup> string) \<times> world" where
  "batchStep E m lastProcessedState todayDate results processedCount w =
     (if lawmaticsID m \<in> currentlyProcessing w then
        (results @ [(lawmaticsID m,
            \<lparr>success = False, message = ''Already being processed'', processedFlag = None\<rparr>)],
         processedCount, lastProcessedState, w)
      else
        let w0 = w\<lparr>currentlyProcessing := insert (lawmaticsID m) (currentlyProcessing w)\<rparr>;
            (results1, processedCount1, st1, w3) =
              (case Googlecron_processMatter E m lastProcessedState todayDate w0 of
                 (Inr result, st1, w1) \<Rightarrow>
                   let finalStatus = (if processed result then ''Automation Completed'' else ''No Updates Found'');
                       (u, w2) = updateMatterStatus E (lawmaticsID m) finalStatus w1
                   in (results @ [(lawmaticsID m,
                         \<lparr>success = True,
                          message = (if processed result then ''New document processed''
                                     else ''No new documents''),
                          processedFlag = Some (processed result)\<rparr>)],
                       (if processed result then processedCount + 1 else processedCount), st1, w2)
               | (Inl (Error msg), st1, w1) \<Rightarrow>
                   let (u, w2) = updateMatterStatus E (lawmaticsID m) ''Failed'' w1
                   in (results @ [(lawmaticsID m,
                         \<lparr>success = False, message = msg, processedFlag = None\<rparr>)],
                       processedCount, st1, w2))
        in (results1, processedCount1, st1,
            w3\<lparr>currentlyProcessing := currentlyProcessing w3 - {lawmaticsID m}\<rparr>))"

fun batchLoop ::
  "env \<Rightarrow> matter list \<Rightarrow> (string \<rightharpoonup> string) \<Rightarrow> string \<Rightarrow> (string \<times> attempt_result) list \<Rightarrow> nat \<Rightarrow> world
     \<Rightarrow> (string \<times> attempt_result) list \<times> nat \<times> (string \<rightharpoonup> string) \<times> world" where
  "batchLoop E [] lastProcessedState todayDate results processedCount w =
     (results, processedCount, lastProcessedState, w)"
| "batchLoop E (m # ms) lastProcessedState todayDate results processedCount w =
     (case batchStep E m lastProcessedState todayDate results processedCount w of
        (results1, processedCount1, st1, w1) \<Rightarrow> batchLoop E ms st1 todayDate results1 processedCount1 w1)"

text \<open>The first loop: every matter of the batch is set to \<open>Processing...\<close>.\<close>

fun markProcessing :: "env \<Rightarrow> matter list \<Rightarrow> world \<Rightarrow> world" where
  "markProcessing E [] w = w"
| "markProcessing E (m # ms) w =
     markProcessing E ms (snd (updateMatterStatus E (lawmaticsID m) ''Processing...'' w))"

record batch_result =
  batchSuccess :: bool
  batchMessage :: "string option"
  total :: nat
  successful :: nat
  processedTotal :: nat
  results :: "(string \<times> attempt_result) list"

definition processMultipleMatters :: "env \<Rightarrow> string list \<Rightarrow> world \<Rightarrow> batch_result \<times> world" where
  "processMultipleMatters E lawmaticsIds w =
     (let matters = getMattersByIds lawmaticsIds w
      in if length matters = 0 then
           (\<lparr>batchSuccess = False, batchMessage = Some ''No valid matters found'', total = 0,
             successful = 0, processedTotal = 0, results = []\<rparr>, w)
         else
           let lastProcessedState = stateFile w;
               todayDate = getTodayDateKey E;
               w1 = markProcessing E matters w
           in case batchLoop E matters lastProcessedState todayDate [] 0 w1 of
                (rs, processedCount, st1, w2) \<Rightarrow>
                  let w3 = w2\<lparr>stateFile := st1\<rparr>;
                      successCount = length (filter (\<lambda>r. success (snd r)) rs);
                      w4 = (if processedCount = 0
                            then sendConfirmationEmail E processedCount (length matters) w3
                            else w3)
                  in (\<lparr>batchSuccess = True, batchMessage = None, total = length matters,
                       successful = successCount, processedTotal = processedCount, results = rs\<rparr>, w4))"

section \<open>Reading a history\<close>

text \<open>
  Projections of a history of calls, used to state what a run did: the documents that
  entered the side-effect chain, the assignments to the processed-state entry, the
  consolidated confirmation mails, the statuses written to \<open>map.json\<close> and the
  application numbers requested from the two registries.
\<close>

definition pipelineStarts :: "event list \<Rightarrow> (string \<times> document) list" where
  "pipelineStarts es = concat (map (\<lambda>e. case e of PipelineStart a d \<Rightarrow> [(a, d)] | _ \<Rightarrow> []) es)"

definition stateWrites :: "event list \<Rightarrow> (string \<times> string) list" where
  "stateWrites es = concat (map (\<lambda>e. case e of SetLastProcessed a d \<Rightarrow> [(a, d)] | _ \<Rightarrow> []) es)"

definition confirmations :: "event list \<Rightarrow> (nat \<times> nat) list" where
  "confirmations es = concat (map (\<lambda>e. case e of ConfirmationMail p t \<Rightarrow> [(p, t)] | _ \<Rightarrow> []) es)"

definition statusWrites :: "event list \<Rightarrow> (string \<times> string) list" where
  "statusWrites es = concat (map (\<lambda>e. case e of StatusWrite i s \<Rightarrow> [(i, s)] | _ \<Rightarrow> []) es)"

definition registryRequests :: "event list \<Rightarrow> string list" where
  "registryRequests es =
     concat (map (\<lambda>e. case e of GetTrademark a \<Rightarrow> [a] | GetPatent a \<Rightarrow> [a] | _ \<Rightarrow> []) es)"

text \<open>The document array of a response, empty for a response that carries none.\<close>

definition payloadDocs :: "'raw response \<Rightarrow> 'raw list" where
  "payloadDocs r = (case r of Documents docs \<Rightarrow> docs | _ \<Rightarrow> [])"

text \<open>
  The list \<open>allDocs\<close> that \<open>processMatter\<close> of the unified monitor fetches for a matter in
  a world, and its sublist \<open>newDocs\<close>.
\<close>

definition fetchedDocs :: "env \<Rightarrow> matter \<Rightarrow> world \<Rightarrow> document list" where
  "fetchedDocs E m w =
     (if type m = ''Patent'' then fst (fetchAllPatentDocs E (applicationNumber m) w)
      else if type m = ''Trademark'' then fst (fetchAllTrademarkDocs E (applicationNumber m) w)
      else [])"

definition novelDocs :: "env \<Rightarrow> matter \<Rightarrow> (string \<rightharpoonup> string) \<Rightarrow> string \<Rightarrow> world \<Rightarrow> document list" where
  "novelDocs E m lastProcessedState todayDate w =
     filter (\<lambda>doc. isNewDocument (date doc) (lastProcessedState (applicationNumber m)) todayDate)
       (fetchedDocs E m w)"

section \<open>Example data\<close>

text \<open>
  A registry of two matters, and environments for them. The trademark registry holds
  four documents for application 12345: two of 2024-03-01, one of 2024-02-15 and one
  whose date does not parse. The patent registry holds one document of 2024-03-01 for
  application 67890; for application 24680 it holds that document, one whose
  \<open>officialDate\<close> is \<open>null\<close> and one that has no \<open>officialDate\<close>. Both registries have no document for 55555 and a payload that cannot
  be read for 77777. Every other request fails.
\<close>

definition exampleParseDate :: "string \<Rightarrow> int option" where
  "exampleParseDate s =
     (if s = ''2024-03-01'' then Some 1709251200000
      else if s = ''2024-03-01T15:30:00'' then Some 1709307000000
      else if s = ''2024-02-15'' then Some 1707955200000
      else None)"

definition trademarkA :: matter where
  "trademarkA = \<lparr>applicationNumber = ''12345'', lawmaticsID = ''L1'', type = ''Trademark'', status = None\<rparr>"

definition patentB :: matter where
  "patentB = \<lparr>applicationNumber = ''67890'', lawmaticsID = ''L2'', type = ''Patent'', status = None\<rparr>"

definition rawNotice :: trademark_raw where
  "rawNotice = \<lparr>MailRoomDate = [''2024-03-01-05:00''], ScanDateTime = [],
                 DocumentTypeDescriptionText = [''Notice of Allowance''],
                 UrlPathList = [[''https://tsdr.example/notice.pdf'']]\<rparr>"

definition rawLetter :: trademark_raw where
  "rawLetter = \<lparr>MailRoomDate = [], ScanDateTime = [''2024-03-01T15:30:00-05:00''],
                 DocumentTypeDescriptionText = [''Office Action''],
                 UrlPathList = []\<rparr>"

definition rawOld :: trademark_raw where
  "rawOld = \<lparr>MailRoomDate = [''2024-02-15-05:00''], ScanDateTime = [],
              DocumentTypeDescriptionText = [''Application''],
              UrlPathList = []\<rparr>"

definition rawUndated :: trademark_raw where
  "rawUndated = \<lparr>MailRoomDate = [''soon''], ScanDateTime = [],
                  DocumentTypeDescriptionText = [], UrlPathList = []\<rparr>"

definition rawPatent :: patent_raw where
  "rawPatent = \<lparr>officialDate = JString ''2024-03-01'', documentCodeDescriptionText = Some ''Non-Final Rejection'',
                 rawDocumentCode = Some ''CTNF'', directionCategory = Some ''OUTGOING'',
                 downloadOptionBag = []\<rparr>"

definition docNotice :: document where
  "docNotice = \<lparr>date = 1709251200000, description = ''Notice of Allowance'', documentCode = None,
                 category = None, link = ''https://tsdr.example/notice.pdf'', driveLink = None,
                 fileType = None\<rparr>"

definition docLetter :: document where
  "docLetter = \<lparr>date = 1709307000000, description = ''Office Action'', documentCode = None,
                 category = None, link = ''N/A'', driveLink = None, fileType = None\<rparr>"

definition docOld :: document where
  "docOld = \<lparr>date = 1707955200000, description = ''Application'', documentCode = None,
              category = None, link = ''N/A'', driveLink = None, fileType = None\<rparr>"

definition rawPatentNull :: patent_raw where
  "rawPatentNull = \<lparr>officialDate = JNull, documentCodeDescriptionText = Some ''Filing Receipt'',
                     rawDocumentCode = None, directionCategory = None, downloadOptionBag = []\<rparr>"

definition rawPatentMissing :: patent_raw where
  "rawPatentMissing = \<lparr>officialDate = JUndefined, documentCodeDescriptionText = Some ''Drawings'',
                        rawDocumentCode = None, directionCategory = None, downloadOptionBag = []\<rparr>"

definition docPatent :: document where
  "docPatent = \<lparr>date = 1709251200000, description = ''Non-Final Rejection'', documentCode = Some ''CTNF'',
                 category = Some ''OUTGOING'', link = ''N/A'', driveLink = None, fileType = None\<rparr>"

definition docEpoch :: document where
  "docEpoch = \<lparr>date = 0, description = ''Filing Receipt'', documentCode = Some ''N/A'',
                category = Some ''N/A'', link = ''N/A'', driveLink = None, fileType = None\<rparr>"

text \<open>
  In \<open>calmEnv\<close> every call after the fetch succeeds, and it is 2024-03-01. \<open>mailDownEnv\<close>
  is the same with a mail transport that rejects every message, \<open>noBrowserEnv\<close> the
  same with a browser that cannot be launched, \<open>nullDateEnv\<close> the same with a patent
  registry that holds one document, whose \<open>officialDate\<close> is \<open>null\<close>, for every
  application, \<open>readOnlyMapEnv\<close> the same with a \<open>map.json\<close> that cannot be written.
\<close>

definition calmEnv :: env where
  "calmEnv =
     \<lparr>parseDate = exampleParseDate,
      now = 1709290000000,
      trademarkGet = (\<lambda>h a. if a = ''12345'' then Documents [rawOld, rawNotice, rawUndated, rawLetter]
                             else if a = ''55555'' then Documents []
                             else if a = ''77777'' then PayloadMalformed ''Unclosed root tag''
                             else RequestFails ''timeout of 15000ms exceeded''),
      patentGet = (\<lambda>h a. if a = ''67890'' then Documents [rawPatent]
                          else if a = ''24680'' then Documents [rawPatentNull, rawPatentMissing, rawPatent]
                          else if a = ''55555'' then Documents []
                          else if a = ''77777'' then PayloadMalformed ''Cannot read properties of null''
                          else RequestFails ''Request failed with status code 404''),
      driveUpload = (\<lambda>h a d. Some ''https://drive.example/file''),
      mailError = (\<lambda>h a d. None),
      prospectAttributes = (\<lambda>h i. Some ''attributes''),
      browserLaunches = (\<lambda>h i. True),
      browserCloseError = (\<lambda>h i. None),
      summaryMailError = (\<lambda>h. None),
      mapWriteFails = (\<lambda>h. False)\<rparr>"

definition mailDownEnv :: env where
  "mailDownEnv = calmEnv\<lparr>mailError := (\<lambda>h a d. Some ''Invalid login'')\<rparr>"

definition noBrowserEnv :: env where
  "noBrowserEnv = calmEnv\<lparr>browserLaunches := (\<lambda>h i. False)\<rparr>"

definition nullDateEnv :: env where
  "nullDateEnv = calmEnv\<lparr>patentGet := (\<lambda>h a. Documents [rawPatentNull])\<rparr>"

definition readOnlyMapEnv :: env where
  "readOnlyMapEnv = calmEnv\<lparr>mapWriteFails := (\<lambda>h. True)\<rparr>"

definition emptyWorld :: world where
  "emptyWorld = \<lparr>trace = [], mapFile = [], stateFile = Map.empty, currentlyProcessing = {}\<rparr>"

definition twoMatters :: world where
  "twoMatters = emptyWorld\<lparr>mapFile := [trademarkA, patentB]\<rparr>"

section \<open>Vocabulary of the statements\<close>

text \<open>
  \<open>fetchedWorld\<close> is the world after the fetch of \<open>processMatter\<close> (the request joined
  the history), and \<open>latestDateDocs\<close> the batch the unified monitor hands to the chain.
  \<open>fetchedLatest\<close> and \<open>Googlecron_fetchedWorld\<close> are the same for \<open>Googlecron.js\<close>.
\<close>

definition fetchedWorld :: "env \<Rightarrow> matter \<Rightarrow> world \<Rightarrow> world" where
  "fetchedWorld E m w =
     (if type m = ''Patent'' then snd (fetchAllPatentDocs E (applicationNumber m) w)
      else if type m = ''Trademark'' then snd (fetchAllTrademarkDocs E (applicationNumber m) w)
      else w)"

definition latestDateDocs :: "env \<Rightarrow> matter \<Rightarrow> (string \<rightharpoonup> string) \<Rightarrow> string \<Rightarrow> world \<Rightarrow> document list" where
  "latestDateDocs E m lastProcessedState todayDate w =
     filter (\<lambda>doc. toISODate (date doc) = toISODate (date (hd (novelDocs E m lastProcessedState todayDate w))))
       (novelDocs E m lastProcessedState todayDate w)"

definition fetchedLatest :: "env \<Rightarrow> matter \<Rightarrow> world \<Rightarrow> document option" where
  "fetchedLatest E m w =
     (if type m = ''Patent'' then fst (fetchPatentDoc E (applicationNumber m) w)
      else if type m = ''Trademark'' then fst (fetchTrademarkDoc E (applicationNumber m) w)
      else None)"

definition Googlecron_fetchedWorld :: "env \<Rightarrow> matter \<Rightarrow> world \<Rightarrow> world" where
  "Googlecron_fetchedWorld E m w =
     (if type m = ''Patent'' then snd (fetchPatentDoc E (applicationNumber m) w)
      else if type m = ''Trademark'' then snd (fetchTrademarkDoc E (applicationNumber m) w)
      else w)"

text \<open>
  Two ways a step can leave the world alone. A \<open>silent\<close> step extends the history,
  changes neither the files nor the in-flight set and adds only calls that are none of: a document
  entering the chain, an assignment to the processed state, a confirmation mail, a
  status write. A \<open>quiet\<close> step may in addition start documents and assign the state.
\<close>

definition silent :: "world \<Rightarrow> world \<Rightarrow> bool" where
  "silent w w' \<longleftrightarrow>
     (\<exists>es. trace w' = trace w @ es)
     \<and> mapFile w' = mapFile w \<and> stateFile w' = stateFile w
     \<and> currentlyProcessing w' = currentlyProcessing w
     \<and> pipelineStarts (trace w') = pipelineStarts (trace w)
     \<and> stateWrites (trace w') = stateWrites (trace w)
     \<and> confirmations (trace w') = confirmations (trace w)
     \<and> statusWrites (trace w') = statusWrites (trace w)"

definition quiet :: "world \<Rightarrow> world \<Rightarrow> bool" where
  "quiet w w' \<longleftrightarrow>
     (\<exists>es. trace w' = trace w @ es)
     \<and> mapFile w' = mapFile w \<and> stateFile w' = stateFile w
     \<and> currentlyProcessing w' = currentlyProcessing w
     \<and> confirmations (trace w') = confirmations (trace w)
     \<and> statusWrites (trace w') = statusWrites (trace w)"

fun plainCall :: "event \<Rightarrow> bool" where
  "plainCall (ConfirmationMail p t) = False"
| "plainCall (StatusWrite i s) = False"
| "plainCall (SetLastProcessed a d) = False"
| "plainCall (PipelineStart a d) = False"
| "plainCall e = True"

text \<open>
  A processed state in which the trademark was last processed on 2024-02-15 and the
  patent on 2024-03-01.
\<close>

definition exampleState :: "string \<rightharpoonup> string" where
  "exampleState = [''12345'' \<mapsto> ''2024-02-15'', ''67890'' \<mapsto> ''2024-03-01'']"

text \<open>
  The three results with which the controller turns an attempt away or gives it up.
\<close>

definition alreadyProcessing :: attempt_result where
  "alreadyProcessing =
     \<lparr>success = False, message = ''Matter is already being processed'', processedFlag = None\<rparr>"

definition alreadyProcessingInBatch :: attempt_result where
  "alreadyProcessingInBatch =
     \<lparr>success = False, message = ''Already being processed'', processedFlag = None\<rparr>"

definition matterNotFound :: attempt_result where
  "matterNotFound = \<lparr>success = False, message = ''Matter not found'', processedFlag = None\<rparr>"

text \<open>
  The world in which \<open>processSingleMatter\<close> calls \<open>processMatter\<close>, with the identifier
  in the in-flight set and the first status update done, and that call: on the first
  matter that \<open>getMattersByIds\<close> then returns, with the processed state as loaded.
\<close>

definition markedWorld :: "env \<Rightarrow> string \<Rightarrow> world \<Rightarrow> world" where
  "markedWorld E lawmaticsId w =
     snd (updateMatterStatus E lawmaticsId ''Processing...''
            (w\<lparr>currentlyProcessing := insert lawmaticsId (currentlyProcessing w)\<rparr>))"

definition pipelineOutcome ::
  "env \<Rightarrow> string \<Rightarrow> world \<Rightarrow> (exn + matter_result) \<times> (string \<rightharpoonup> string) \<times> world" where
  "pipelineOutcome E lawmaticsId w =
     (let w1 = markedWorld E lawmaticsId w
      in Googlecron_processMatter E (hd (getMattersByIds [lawmaticsId] w1)) (stateFile w1)
           (getTodayDateKey E) w1)"

text \<open>The number of results of a batch that report a processed document.\<close>

definition processedResults :: "(string \<times> attempt_result) list \<Rightarrow> nat" where
  "processedResults rs = length (filter (\<lambda>r. processedFlag (snd r) = Some True) rs)"

text \<open>
  The registry of the two matters with the trademark in flight, and with both matters
  processed up to 2024-03-01.
\<close>

definition busyWorld :: world where
  "busyWorld = twoMatters\<lparr>currentlyProcessing := {''L1''}\<rparr>"

definition upToDateWorld :: world where
  "upToDateWorld =
     twoMatters\<lparr>stateFile := [''12345'' \<mapsto> ''2024-03-01'', ''67890'' \<mapsto> ''2024-03-01'']\<rparr>"

section \<open>Properties of the novelty filter\<close>

text \<open>
  C1. For every document date, marker and today value: with a marker present, the
  document is new exactly when its day string is strictly greater than the marker, in
  the order in which JavaScript compares strings; with no marker, it is new exactly when
  its day string is greater than or equal to today. A marker that is present is an entry
  of the processed state: the day string of a document, which is never the empty string
  (\<open>stored_markers_nonempty\<close> below), so the truthiness test of the code and the
  presence of the marker agree.
\<close>

theorem isNewDocument_cases:
  "(l \<noteq> [] \<longrightarrow> isNewDocument docDate (Some l) todayDate = (l < toISODate docDate))
   \<and> isNewDocument docDate None todayDate = (todayDate \<le> toISODate docDate)"
  by (simp add: isNewDocument_def truthy_def)

theorem isNewDocument_cases_witness:
  "isNewDocument 1709251200000 (Some ''2024-02-15'') ''2024-03-01''
   \<and> \<not> isNewDocument 1709251200000 (Some ''2024-03-01'') ''2024-03-01''
   \<and> isNewDocument 1709251200000 None ''2024-03-01''
   \<and> \<not> isNewDocument 1707955200000 None ''2024-03-01''"
proof -
  have h1: "''2024-02-15'' \<noteq> []" and h2: "''2024-03-01'' \<noteq> []" by simp_all
  have a: "''2024-02-15'' < toISODate 1709251200000" by code_simp
  have b: "\<not> ''2024-03-01'' < toISODate 1709251200000" by code_simp
  have c: "''2024-03-01'' \<le> toISODate 1709251200000" by code_simp
  have d: "\<not> ''2024-03-01'' \<le> toISODate 1707955200000" by code_simp
  from isNewDocument_cases [of "''2024-02-15''" 1709251200000 "''2024-03-01''"] h1 a
       isNewDocument_cases [of "''2024-03-01''" 1709251200000 "''2024-03-01''"] h2 b c
       isNewDocument_cases [of "''2024-03-01''" 1707955200000 "''2024-03-01''"] d
  show ?thesis by blast
qed

text \<open>
  C10. Two calls with the same document date and the same present, non-empty marker
  return the same result whatever the two today values are.
\<close>

theorem isNewDocument_today_irrelevant:
  "l \<noteq> [] \<Longrightarrow> isNewDocument docDate (Some l) t1 = isNewDocument docDate (Some l) t2"
  by (simp add: isNewDocument_def truthy_def)

theorem isNewDocument_today_irrelevant_witness:
  "isNewDocument 1709251200000 (Some ''2024-02-15'') ''1999-01-01''
     = isNewDocument 1709251200000 (Some ''2024-02-15'') ''2999-12-31''"
proof -
  have h: "''2024-02-15'' \<noteq> []" by simp
  show ?thesis by (rule isNewDocument_today_irrelevant [OF h])
qed

section \<open>Histories and steps\<close>

lemma emit_simps [simp]:
  "trace (emit e w) = trace w @ [e]"
  "mapFile (emit e w) = mapFile w"
  "stateFile (emit e w) = stateFile w"
  "currentlyProcessing (emit e w) = currentlyProcessing w"
  by (simp_all add: emit_def)

lemma projections_append [simp]:
  "pipelineStarts (xs @ ys) = pipelineStarts xs @ pipelineStarts ys"
  "stateWrites (xs @ ys) = stateWrites xs @ stateWrites ys"
  "confirmations (xs @ ys) = confirmations xs @ confirmations ys"
  "statusWrites (xs @ ys) = statusWrites xs @ statusWrites ys"
  "registryRequests (xs @ ys) = registryRequests xs @ registryRequests ys"
  by (simp_all add: pipelineStarts_def stateWrites_def confirmations_def statusWrites_def
      registryRequests_def)

lemma projections_Nil [simp]:
  "pipelineStarts [] = []" "stateWrites [] = []" "confirmations [] = []"
  "statusWrites [] = []" "registryRequests [] = []"
  by (simp_all add: pipelineStarts_def stateWrites_def confirmations_def statusWrites_def
      registryRequests_def)

lemma projections_Cons [simp]:
  "pipelineStarts (e # es) = (case e of PipelineStart a d \<Rightarrow> [(a, d)] | _ \<Rightarrow> []) @ pipelineStarts es"
  "stateWrites (e # es) = (case e of SetLastProcessed a d \<Rightarrow> [(a, d)] | _ \<Rightarrow> []) @ stateWrites es"
  "confirmations (e # es) = (case e of ConfirmationMail p t \<Rightarrow> [(p, t)] | _ \<Rightarrow> []) @ confirmations es"
  "statusWrites (e # es) = (case e of StatusWrite i s \<Rightarrow> [(i, s)] | _ \<Rightarrow> []) @ statusWrites es"
  "registryRequests (e # es)
     = (case e of GetTrademark a \<Rightarrow> [a] | GetPatent a \<Rightarrow> [a] | _ \<Rightarrow> []) @ registryRequests es"
  by (simp_all add: pipelineStarts_def stateWrites_def confirmations_def statusWrites_def
      registryRequests_def)

lemma silent_refl [simp]: "silent w w"
  by (simp add: silent_def)

lemma silent_trans: "silent w w1 \<Longrightarrow> silent w1 w2 \<Longrightarrow> silent w w2"
  by (auto simp: silent_def)

lemma silent_emit: "plainCall e \<Longrightarrow> silent w (emit e w)"
  by (cases e) (simp_all add: silent_def)

lemma quiet_refl [simp]: "quiet w w"
  by (simp add: quiet_def)

lemma quiet_trans: "quiet w w1 \<Longrightarrow> quiet w1 w2 \<Longrightarrow> quiet w w2"
  by (auto simp: quiet_def)

lemma silent_quiet: "silent w w' \<Longrightarrow> quiet w w'"
  by (simp add: silent_def quiet_def)

lemma quiet_silent_trans: "quiet w w1 \<Longrightarrow> silent w1 w2 \<Longrightarrow> quiet w w2"
  by (auto simp: silent_def quiet_def)

section \<open>The calls of the chain are silent\<close>

lemma silent_fetchAllTrademarkDocs: "silent w (snd (fetchAllTrademarkDocs E a w))"
  by (simp add: fetchAllTrademarkDocs_def fetchAllTrademarkDocs_try_def Let_def silent_emit
      split: response.splits)

lemma silent_fetchAllPatentDocs: "silent w (snd (fetchAllPatentDocs E a w))"
  by (simp add: fetchAllPatentDocs_def fetchAllPatentDocs_try_def Let_def silent_emit
      split: response.splits)

lemma silent_fetchTrademarkDoc: "silent w (snd (fetchTrademarkDoc E a w))"
  by (simp add: fetchTrademarkDoc_def Let_def silent_emit split: response.splits)

lemma silent_fetchPatentDoc: "silent w (snd (fetchPatentDoc E a w))"
  by (simp add: fetchPatentDoc_def Let_def silent_emit split: response.splits)

lemma silent_downloadAndUploadToDrive: "silent w (snd (downloadAndUploadToDrive E a d ty w))"
  by (simp add: downloadAndUploadToDrive_def Let_def silent_emit split: option.splits)

lemma silent_Googlecron_downloadAndUploadToDrive:
  "silent w (snd (Googlecron_downloadAndUploadToDrive E a d ty w))"
  by (simp add: Googlecron_downloadAndUploadToDrive_def Let_def silent_emit split: option.splits)

lemma silent_sendEmailNotification: "silent w (snd (sendEmailNotification E a d ty w))"
  by (simp add: sendEmailNotification_def Let_def silent_emit split: option.splits)

lemma silent_Googlecron_sendEmailNotification:
  "silent w (Googlecron_sendEmailNotification E a d ty w)"
  by (simp add: Googlecron_sendEmailNotification_def silent_emit)

lemma silent_updateLawmaticsProspect: "silent w (updateLawmaticsProspect E i a d ty w)"
  by (simp add: updateLawmaticsProspect_def silent_emit)

lemma silent_getProspect: "silent w (snd (getProspect E i w))"
  by (simp add: getProspect_def silent_emit)

lemma silent_submitFormWithPuppeteer: "silent w (snd (submitFormWithPuppeteer E i a d ty w))"
  by (simp add: submitFormWithPuppeteer_def Let_def silent_emit split: option.splits)

lemma silent_Googlecron_submitFormWithPuppeteer:
  "silent w (snd (Googlecron_submitFormWithPuppeteer E i a d ty w))"
  by (simp add: Googlecron_submitFormWithPuppeteer_def Let_def silent_emit split: option.splits)

lemma silent_fetchedWorld: "silent w (fetchedWorld E m w)"
  by (simp add: fetchedWorld_def silent_fetchAllPatentDocs silent_fetchAllTrademarkDocs)

lemma silent_Googlecron_fetchedWorld: "silent w (Googlecron_fetchedWorld E m w)"
  by (simp add: Googlecron_fetchedWorld_def silent_fetchPatentDoc silent_fetchTrademarkDoc)

section \<open>One document through the chain\<close>

lemma processSingleDocument_silent:
  assumes "processSingleDocument E m doc ty w = (r, w')"
  shows "silent (emit (PipelineStart (applicationNumber m) doc) w) w'"
proof -
  let ?w0 = "emit (PipelineStart (applicationNumber m) doc) w"
  obtain pd w1 where up: "downloadAndUploadToDrive E (applicationNumber m) doc ty ?w0 = (pd, w1)"
    by (cases "downloadAndUploadToDrive E (applicationNumber m) doc ty ?w0")
  obtain r2 w2 where se: "sendEmailNotification E (applicationNumber m) pd ty w1 = (r2, w2)"
    by (cases "sendEmailNotification E (applicationNumber m) pd ty w1")
  let ?w3 = "updateLawmaticsProspect E (lawmaticsID m) (applicationNumber m) pd ty w2"
  obtain p w4 where gp: "getProspect E (lawmaticsID m) ?w3 = (p, w4)"
    by (cases "getProspect E (lawmaticsID m) ?w3")
  obtain r5 w5 where sf:
    "submitFormWithPuppeteer E (lawmaticsID m) (applicationNumber m) pd ty w4 = (r5, w5)"
    by (cases "submitFormWithPuppeteer E (lawmaticsID m) (applicationNumber m) pd ty w4")
  have q1: "silent ?w0 w1"
    using silent_downloadAndUploadToDrive [of ?w0 E "applicationNumber m" doc ty] up by simp
  have q2: "silent ?w0 w2"
    using silent_sendEmailNotification [of w1 E "applicationNumber m" pd ty] se q1
    by (auto intro: silent_trans)
  have q3: "silent ?w0 ?w3"
    using silent_updateLawmaticsProspect q2 by (blast intro: silent_trans)
  have q4: "silent ?w0 w4"
    using silent_getProspect [of ?w3 E "lawmaticsID m"] gp q3 by (auto intro: silent_trans)
  have q5: "silent ?w0 w5"
    using silent_submitFormWithPuppeteer [of w4 E "lawmaticsID m" "applicationNumber m" pd ty] sf q4
    by (auto intro: silent_trans)
  show ?thesis
    using assms up se gp sf q2 q4 q5
    by (auto simp: processSingleDocument_def Let_def split: sum.splits if_splits)
qed

lemma processSingleDocument_quiet:
  assumes "processSingleDocument E m doc ty w = (r, w')"
  shows "quiet w w'"
  using processSingleDocument_silent [OF assms]
  by (auto simp: silent_def quiet_def)

lemma processSingleDocument_starts:
  assumes "processSingleDocument E m doc ty w = (r, w')"
  shows "pipelineStarts (trace w') = pipelineStarts (trace w) @ [(applicationNumber m, doc)]"
    and "stateWrites (trace w') = stateWrites (trace w)"
  using processSingleDocument_silent [OF assms]
  by (simp_all add: silent_def)

section \<open>The batch of the latest date\<close>

lemma processLatestDateDocs_quiet:
  "processLatestDateDocs E m ty docs n w = (r, w') \<Longrightarrow> quiet w w'"
proof (induction docs arbitrary: n w)
  case Nil
  then show ?case by simp
next
  case (Cons doc rest)
  obtain r1 w1 where step: "processSingleDocument E m doc ty w = (r1, w1)"
    by (cases "processSingleDocument E m doc ty w")
  have q1: "quiet w w1" using step by (rule processSingleDocument_quiet)
  show ?case
  proof (cases r1)
    case (Inl e)
    with step Cons.prems q1 show ?thesis by simp
  next
    case (Inr d)
    with step Cons.prems have "processLatestDateDocs E m ty rest (n + 1) w1 = (r, w')" by simp
    then have "quiet w1 w'" by (rule Cons.IH)
    with q1 show ?thesis by (rule quiet_trans)
  qed
qed

lemma processLatestDateDocs_completed:
  "processLatestDateDocs E m ty docs n w = (Inr k, w') \<Longrightarrow>
     k = n + length docs
     \<and> pipelineStarts (trace w') = pipelineStarts (trace w) @ map (Pair (applicationNumber m)) docs
     \<and> stateWrites (trace w') = stateWrites (trace w)"
proof (induction docs arbitrary: n w)
  case Nil
  then show ?case by simp
next
  case (Cons doc rest)
  obtain r1 w1 where step: "processSingleDocument E m doc ty w = (r1, w1)"
    by (cases "processSingleDocument E m doc ty w")
  show ?case
  proof (cases r1)
    case (Inl e)
    with step Cons.prems show ?thesis by simp
  next
    case (Inr d)
    with step Cons.prems have rest: "processLatestDateDocs E m ty rest (n + 1) w1 = (Inr k, w')"
      by simp
    from Cons.IH [OF rest] processSingleDocument_starts [OF step]
    show ?thesis by simp
  qed
qed


section \<open>Processing one matter, case by case\<close>

lemma fetch_by_type:
  "type m = ''Patent'' \<or> type m = ''Trademark'' \<Longrightarrow>
   (if type m = ''Patent'' then Some (fetchAllPatentDocs E (applicationNumber m) w)
    else if type m = ''Trademark'' then Some (fetchAllTrademarkDocs E (applicationNumber m) w)
    else None) = Some (fetchedDocs E m w, fetchedWorld E m w)"
  by (auto simp: fetchedDocs_def fetchedWorld_def)

lemma processMatter_unknown:
  "type m \<noteq> ''Patent'' \<Longrightarrow> type m \<noteq> ''Trademark'' \<Longrightarrow>
   processMatter E m st today w =
     (Inr \<lparr>processed = False, reason = Some ''unknown_type'', docCount = 0,
           latestDocDate = None, multiDoc = False\<rparr>, st, w)"
  by (simp add: processMatter_def)

lemma processMatter_known:
  assumes "type m = ''Patent'' \<or> type m = ''Trademark''"
  shows "processMatter E m st today w =
     (if fetchedDocs E m w = [] then
        (Inr \<lparr>processed = False, reason = Some ''no_documents'', docCount = 0,
              latestDocDate = None, multiDoc = False\<rparr>, st, fetchedWorld E m w)
      else if novelDocs E m st today w = [] then
        (Inr \<lparr>processed = False, reason = Some ''not_new'', docCount = 0,
              latestDocDate = Some (toISODate (date (hd (fetchedDocs E m w)))), multiDoc = False\<rparr>,
         st, fetchedWorld E m w)
      else
        (case processLatestDateDocs E m (type m) (latestDateDocs E m st today w) 0 (fetchedWorld E m w) of
           (Inl e, w2) \<Rightarrow> (Inl e, st, w2)
         | (Inr totalProcessed, w2) \<Rightarrow>
             (Inr \<lparr>processed = (0 < totalProcessed), reason = None, docCount = totalProcessed,
                   latestDocDate = Some (toISODate (date (hd (novelDocs E m st today w)))),
                   multiDoc = (1 < length (latestDateDocs E m st today w))\<rparr>,
              st(applicationNumber m \<mapsto> toISODate (date (hd (novelDocs E m st today w)))),
              emit (SetLastProcessed (applicationNumber m)
                      (toISODate (date (hd (novelDocs E m st today w))))) w2)))"
  unfolding processMatter_def fetch_by_type [OF assms] novelDocs_def latestDateDocs_def
  by (simp add: Let_def del: filter_filter)

text \<open>
  The five ways \<open>processMatter\<close> of the unified monitor can end: unknown type, no
  document, no new document, an exception out of the batch, the batch completed.
\<close>

lemma processMatter_cases [consumes 1, case_names unknown_type no_documents not_new thrown completed]:
  assumes run: "processMatter E m st today w = (r, st', w')"
  obtains
    "type m \<noteq> ''Patent''" "type m \<noteq> ''Trademark''"
      "r = Inr \<lparr>processed = False, reason = Some ''unknown_type'', docCount = 0,
                 latestDocDate = None, multiDoc = False\<rparr>" "st' = st" "w' = w"
  | "type m = ''Patent'' \<or> type m = ''Trademark''" "fetchedDocs E m w = []"
      "r = Inr \<lparr>processed = False, reason = Some ''no_documents'', docCount = 0,
                 latestDocDate = None, multiDoc = False\<rparr>" "st' = st" "w' = fetchedWorld E m w"
  | "type m = ''Patent'' \<or> type m = ''Trademark''" "fetchedDocs E m w \<noteq> []"
      "novelDocs E m st today w = []"
      "r = Inr \<lparr>processed = False, reason = Some ''not_new'', docCount = 0,
                 latestDocDate = Some (toISODate (date (hd (fetchedDocs E m w)))), multiDoc = False\<rparr>"
      "st' = st" "w' = fetchedWorld E m w"
  | e where "type m = ''Patent'' \<or> type m = ''Trademark''" "novelDocs E m st today w \<noteq> []"
      "processLatestDateDocs E m (type m) (latestDateDocs E m st today w) 0 (fetchedWorld E m w) = (Inl e, w')"
      "r = Inl e" "st' = st"
  | k w2 where "type m = ''Patent'' \<or> type m = ''Trademark''" "novelDocs E m st today w \<noteq> []"
      "processLatestDateDocs E m (type m) (latestDateDocs E m st today w) 0 (fetchedWorld E m w) = (Inr k, w2)"
      "r = Inr \<lparr>processed = (0 < k), reason = None, docCount = k,
                 latestDocDate = Some (toISODate (date (hd (novelDocs E m st today w)))),
                 multiDoc = (1 < length (latestDateDocs E m st today w))\<rparr>"
      "st' = st(applicationNumber m \<mapsto> toISODate (date (hd (novelDocs E m st today w))))"
      "w' = emit (SetLastProcessed (applicationNumber m)
                    (toISODate (date (hd (novelDocs E m st today w))))) w2"
proof (cases "type m = ''Patent'' \<or> type m = ''Trademark''")
  case False
  then have "processMatter E m st today w =
     (Inr \<lparr>processed = False, reason = Some ''unknown_type'', docCount = 0,
           latestDocDate = None, multiDoc = False\<rparr>, st, w)"
    by (simp add: processMatter_unknown)
  with run have "r = Inr \<lparr>processed = False, reason = Some ''unknown_type'', docCount = 0,
                 latestDocDate = None, multiDoc = False\<rparr>" "st' = st" "w' = w"
    by simp_all
  with False that(1) show ?thesis by blast
next
  case known: True
  note eq = processMatter_known [OF known, of E st today w]
  show ?thesis
  proof (cases "fetchedDocs E m w = []")
    case True
    with run eq have "r = Inr \<lparr>processed = False, reason = Some ''no_documents'', docCount = 0,
                 latestDocDate = None, multiDoc = False\<rparr>" "st' = st" "w' = fetchedWorld E m w"
      by simp_all
    with known True that(2) show ?thesis by blast
  next
    case docs: False
    show ?thesis
    proof (cases "novelDocs E m st today w = []")
      case True
      with run eq docs have
        "r = Inr \<lparr>processed = False, reason = Some ''not_new'', docCount = 0,
                 latestDocDate = Some (toISODate (date (hd (fetchedDocs E m w)))), multiDoc = False\<rparr>"
        "st' = st" "w' = fetchedWorld E m w"
        by simp_all
      with known docs True that(3) show ?thesis by blast
    next
      case novel: False
      obtain r2 w2 where batch:
        "processLatestDateDocs E m (type m) (latestDateDocs E m st today w) 0 (fetchedWorld E m w) = (r2, w2)"
        by (cases "processLatestDateDocs E m (type m) (latestDateDocs E m st today w) 0 (fetchedWorld E m w)")
      show ?thesis
      proof (cases r2)
        case (Inl e)
        with run eq docs novel batch have "r = Inl e" "st' = st" "w' = w2"
          by simp_all
        with known novel batch Inl that(4) [of e] show ?thesis by blast
      next
        case (Inr k)
        with run eq docs novel batch have
          "r = Inr \<lparr>processed = (0 < k), reason = None, docCount = k,
                 latestDocDate = Some (toISODate (date (hd (novelDocs E m st today w)))),
                 multiDoc = (1 < length (latestDateDocs E m st today w))\<rparr>"
          "st' = st(applicationNumber m \<mapsto> toISODate (date (hd (novelDocs E m st today w))))"
          "w' = emit (SetLastProcessed (applicationNumber m)
                    (toISODate (date (hd (novelDocs E m st today w))))) w2"
          by simp_all
        with known novel batch Inr that(5) [of k w2] show ?thesis by blast
      qed
    qed
  qed
qed

lemma processMatter_quiet:
  assumes "processMatter E m st today w = (r, st', w')"
  shows "quiet w w'"
  using assms
proof (cases rule: processMatter_cases)
  case unknown_type
  then show ?thesis by simp
next
  case no_documents
  then show ?thesis by (simp add: silent_quiet silent_fetchedWorld)
next
  case not_new
  then show ?thesis by (simp add: silent_quiet silent_fetchedWorld)
next
  case (thrown e)
  from processLatestDateDocs_quiet [OF thrown(3)] silent_quiet [OF silent_fetchedWorld]
  show ?thesis by (blast intro: quiet_trans)
next
  case (completed k w2)
  from processLatestDateDocs_quiet [OF completed(3)] silent_quiet [OF silent_fetchedWorld]
  have "quiet w w2" by (blast intro: quiet_trans)
  with completed(6) show ?thesis by (auto simp: quiet_def)
qed

section \<open>Processing one matter in Googlecron.js, case by case\<close>

lemma Googlecron_fetch_by_type:
  "type m = ''Patent'' \<or> type m = ''Trademark'' \<Longrightarrow>
   (if type m = ''Patent'' then Some (fetchPatentDoc E (applicationNumber m) w)
    else if type m = ''Trademark'' then Some (fetchTrademarkDoc E (applicationNumber m) w)
    else None) = Some (fetchedLatest E m w, Googlecron_fetchedWorld E m w)"
  by (auto simp: fetchedLatest_def Googlecron_fetchedWorld_def)

lemma Googlecron_processMatter_unknown:
  "type m \<noteq> ''Patent'' \<Longrightarrow> type m \<noteq> ''Trademark'' \<Longrightarrow>
   Googlecron_processMatter E m st today w =
     (Inr \<lparr>processed = False, reason = Some ''unknown_type'', docCount = 0,
           latestDocDate = None, multiDoc = False\<rparr>, st, w)"
  by (simp add: Googlecron_processMatter_def)

lemma Googlecron_processMatter_none:
  assumes "type m = ''Patent'' \<or> type m = ''Trademark''" and "fetchedLatest E m w = None"
  shows "Googlecron_processMatter E m st today w =
     (Inr \<lparr>processed = False, reason = Some ''no_documents'', docCount = 0,
           latestDocDate = None, multiDoc = False\<rparr>, st, Googlecron_fetchedWorld E m w)"
  unfolding Googlecron_processMatter_def Googlecron_fetch_by_type [OF assms(1)]
  by (simp add: assms(2))

lemma Googlecron_processMatter_old:
  assumes "type m = ''Patent'' \<or> type m = ''Trademark''" and "fetchedLatest E m w = Some d"
    and "\<not> isNewDocument (date d) (st (applicationNumber m)) today"
  shows "Googlecron_processMatter E m st today w =
     (Inr \<lparr>processed = False, reason = Some ''not_new'', docCount = 0,
           latestDocDate = Some (toISODate (date d)), multiDoc = False\<rparr>, st,
      Googlecron_fetchedWorld E m w)"
  unfolding Googlecron_processMatter_def Googlecron_fetch_by_type [OF assms(1)]
  by (simp add: assms(2,3) Let_def)

text \<open>The chain on a new document: it ends by an exception or by the assignment.\<close>

lemma Googlecron_processMatter_new:
  assumes known: "type m = ''Patent'' \<or> type m = ''Trademark''"
    and latest: "fetchedLatest E m w = Some d"
    and new: "isNewDocument (date d) (st (applicationNumber m)) today"
  shows "\<exists>w6. silent (emit (PipelineStart (applicationNumber m) d) (Googlecron_fetchedWorld E m w)) w6
     \<and> ((\<exists>e. Googlecron_processMatter E m st today w = (Inl e, st, w6))
        \<or> Googlecron_processMatter E m st today w =
             (Inr \<lparr>processed = True, reason = None, docCount = 1,
                   latestDocDate = Some (toISODate (date d)), multiDoc = False\<rparr>,
              st(applicationNumber m \<mapsto> toISODate (date d)),
              emit (SetLastProcessed (applicationNumber m) (toISODate (date d))) w6))"
proof -
  let ?a = "applicationNumber m" and ?i = "lawmaticsID m"
  let ?w2 = "emit (PipelineStart ?a d) (Googlecron_fetchedWorld E m w)"
  obtain ud w3 where up: "Googlecron_downloadAndUploadToDrive E ?a d (type m) ?w2 = (ud, w3)"
    by (cases "Googlecron_downloadAndUploadToDrive E ?a d (type m) ?w2")
  let ?w4 = "Googlecron_sendEmailNotification E ?a ud (type m) w3"
  let ?w5 = "updateLawmaticsProspect E ?i ?a ud (type m) ?w4"
  obtain p w6 where gp: "getProspect E ?i ?w5 = (p, w6)"
    by (cases "getProspect E ?i ?w5")
  obtain r7 w7 where sf: "Googlecron_submitFormWithPuppeteer E ?i ?a ud (type m) w6 = (r7, w7)"
    by (cases "Googlecron_submitFormWithPuppeteer E ?i ?a ud (type m) w6")
  have q3: "silent ?w2 w3"
    using silent_Googlecron_downloadAndUploadToDrive [of ?w2 E ?a d "type m"] up by simp
  have q4: "silent ?w2 ?w4"
    using silent_Googlecron_sendEmailNotification q3 by (blast intro: silent_trans)
  have q5: "silent ?w2 ?w5"
    using silent_updateLawmaticsProspect q4 by (blast intro: silent_trans)
  have q6: "silent ?w2 w6"
    using silent_getProspect [of ?w5 E ?i] gp q5 by (auto intro: silent_trans)
  have q7: "silent ?w2 w7"
    using silent_Googlecron_submitFormWithPuppeteer [of w6 E ?i ?a ud "type m"] sf q6
    by (auto intro: silent_trans)
  have run: "Googlecron_processMatter E m st today w =
      (if p \<noteq> None then
         (case r7 of Inl e \<Rightarrow> (Inl e, st, w7)
          | Inr u \<Rightarrow> Googlecron_finish m (toISODate (date d)) st w7)
       else Googlecron_finish m (toISODate (date d)) st w6)"
    unfolding Googlecron_processMatter_def Googlecron_fetch_by_type [OF known]
    by (simp add: latest new Let_def up gp sf split: sum.splits)
  show ?thesis
  proof (cases "p \<noteq> None")
    case False
    with run q6 show ?thesis by (auto simp: Googlecron_finish_def)
  next
    case True
    show ?thesis
    proof (cases r7)
      case (Inl e)
      with run True q7 show ?thesis by auto
    next
      case (Inr u)
      with run True q7 show ?thesis by (auto simp: Googlecron_finish_def)
    qed
  qed
qed

lemma Googlecron_processMatter_cases
  [consumes 1, case_names unknown_type no_documents not_new thrown completed]:
  assumes run: "Googlecron_processMatter E m st today w = (r, st', w')"
  obtains
    "type m \<noteq> ''Patent''" "type m \<noteq> ''Trademark''"
      "r = Inr \<lparr>processed = False, reason = Some ''unknown_type'', docCount = 0,
                 latestDocDate = None, multiDoc = False\<rparr>" "st' = st" "w' = w"
  | "type m = ''Patent'' \<or> type m = ''Trademark''" "fetchedLatest E m w = None"
      "r = Inr \<lparr>processed = False, reason = Some ''no_documents'', docCount = 0,
                 latestDocDate = None, multiDoc = False\<rparr>" "st' = st"
      "w' = Googlecron_fetchedWorld E m w"
  | d where "type m = ''Patent'' \<or> type m = ''Trademark''" "fetchedLatest E m w = Some d"
      "\<not> isNewDocument (date d) (st (applicationNumber m)) today"
      "r = Inr \<lparr>processed = False, reason = Some ''not_new'', docCount = 0,
                 latestDocDate = Some (toISODate (date d)), multiDoc = False\<rparr>"
      "st' = st" "w' = Googlecron_fetchedWorld E m w"
  | d e where "type m = ''Patent'' \<or> type m = ''Trademark''" "fetchedLatest E m w = Some d"
      "isNewDocument (date d) (st (applicationNumber m)) today"
      "silent (emit (PipelineStart (applicationNumber m) d) (Googlecron_fetchedWorld E m w)) w'"
      "r = Inl e" "st' = st"
  | d w6 where "type m = ''Patent'' \<or> type m = ''Trademark''" "fetchedLatest E m w = Some d"
      "isNewDocument (date d) (st (applicationNumber m)) today"
      "silent (emit (PipelineStart (applicationNumber m) d) (Googlecron_fetchedWorld E m w)) w6"
      "r = Inr \<lparr>processed = True, reason = None, docCount = 1,
                 latestDocDate = Some (toISODate (date d)), multiDoc = False\<rparr>"
      "st' = st(applicationNumber m \<mapsto> toISODate (date d))"
      "w' = emit (SetLastProcessed (applicationNumber m) (toISODate (date d))) w6"
proof (cases "type m = ''Patent'' \<or> type m = ''Trademark''")
  case False
  then have "Googlecron_processMatter E m st today w =
     (Inr \<lparr>processed = False, reason = Some ''unknown_type'', docCount = 0,
           latestDocDate = None, multiDoc = False\<rparr>, st, w)"
    by (simp add: Googlecron_processMatter_unknown)
  with run have "r = Inr \<lparr>processed = False, reason = Some ''unknown_type'', docCount = 0,
                 latestDocDate = None, multiDoc = False\<rparr>" "st' = st" "w' = w"
    by simp_all
  with False that(1) show ?thesis by blast
next
  case known: True
  show ?thesis
  proof (cases "fetchedLatest E m w")
    case None
    from run Googlecron_processMatter_none [OF known None, of st today]
    have "r = Inr \<lparr>processed = False, reason = Some ''no_documents'', docCount = 0,
                 latestDocDate = None, multiDoc = False\<rparr>" "st' = st"
      "w' = Googlecron_fetchedWorld E m w"
      by simp_all
    with known None that(2) show ?thesis by blast
  next
    case (Some d)
    show ?thesis
    proof (cases "isNewDocument (date d) (st (applicationNumber m)) today")
      case False
      from run Googlecron_processMatter_old [where st = st and today = today, OF known Some False]
      have "r = Inr \<lparr>processed = False, reason = Some ''not_new'', docCount = 0,
                 latestDocDate = Some (toISODate (date d)), multiDoc = False\<rparr>"
        "st' = st" "w' = Googlecron_fetchedWorld E m w"
        by simp_all
      with known Some False that(3) [of d] show ?thesis by blast
    next
      case True
      from Googlecron_processMatter_new [where st = st and today = today, OF known Some True]
      obtain w6 where
        q: "silent (emit (PipelineStart (applicationNumber m) d) (Googlecron_fetchedWorld E m w)) w6"
        and alt: "(\<exists>e. Googlecron_processMatter E m st today w = (Inl e, st, w6))
           \<or> Googlecron_processMatter E m st today w =
             (Inr \<lparr>processed = True, reason = None, docCount = 1,
                   latestDocDate = Some (toISODate (date d)), multiDoc = False\<rparr>,
              st(applicationNumber m \<mapsto> toISODate (date d)),
              emit (SetLastProcessed (applicationNumber m) (toISODate (date d))) w6)"
        by blast
      from alt show ?thesis
      proof
        assume "\<exists>e. Googlecron_processMatter E m st today w = (Inl e, st, w6)"
        then obtain e where "Googlecron_processMatter E m st today w = (Inl e, st, w6)" ..
        with run have "r = Inl e" "st' = st" "w' = w6" by simp_all
        with known Some True q that(4) [of d e] show ?thesis by blast
      next
        assume "Googlecron_processMatter E m st today w =
             (Inr \<lparr>processed = True, reason = None, docCount = 1,
                   latestDocDate = Some (toISODate (date d)), multiDoc = False\<rparr>,
              st(applicationNumber m \<mapsto> toISODate (date d)),
              emit (SetLastProcessed (applicationNumber m) (toISODate (date d))) w6)"
        with run have "r = Inr \<lparr>processed = True, reason = None, docCount = 1,
                 latestDocDate = Some (toISODate (date d)), multiDoc = False\<rparr>"
          "st' = st(applicationNumber m \<mapsto> toISODate (date d))"
          "w' = emit (SetLastProcessed (applicationNumber m) (toISODate (date d))) w6"
          by simp_all
        with known Some True q that(5) [of d w6] show ?thesis by blast
      qed
    qed
  qed
qed

lemma Googlecron_processMatter_quiet:
  assumes "Googlecron_processMatter E m st today w = (r, st', w')"
  shows "quiet w w'"
  using assms
proof (cases rule: Googlecron_processMatter_cases)
  case unknown_type
  then show ?thesis by simp
next
  case no_documents
  then show ?thesis by (simp add: silent_quiet silent_Googlecron_fetchedWorld)
next
  case (not_new d)
  then show ?thesis by (simp add: silent_quiet silent_Googlecron_fetchedWorld)
next
  case (thrown d e)
  from thrown(4) silent_Googlecron_fetchedWorld [of w E m]
  show ?thesis by (auto simp: silent_def quiet_def)
next
  case (completed d w6)
  from completed(4,7) silent_Googlecron_fetchedWorld [of w E m]
  show ?thesis by (auto simp: silent_def quiet_def)
qed

section \<open>The example data, evaluated\<close>

lemma example_dates:
  "toISODate 1709251200000 = ''2024-03-01''"
  "toISODate 1709307000000 = ''2024-03-01''"
  "toISODate 1707955200000 = ''2024-02-15''"
  "toISODate 1709290000000 = ''2024-03-01''"
  by code_simp+

lemmas example_defs =
  calmEnv_def mailDownEnv_def noBrowserEnv_def trademarkA_def patentB_def exampleParseDate_def
  rawNotice_def rawLetter_def rawOld_def rawUndated_def rawPatent_def rawPatentNull_def
  rawPatentMissing_def docNotice_def docLetter_def docOld_def docPatent_def docEpoch_def
  exampleState_def emptyWorld_def twoMatters_def

lemmas model_defs =
  fetchAllTrademarkDocs_def fetchAllTrademarkDocs_try_def fetchAllPatentDocs_def
  fetchAllPatentDocs_try_def fetchTrademarkDoc_def fetchPatentDoc_def parseTrademarkDoc_def
  parsePatentDoc_def newDate_def sortLatestFirst_def cleanDate_def orElse_def first_def truthy_def
  isDigit_def List.map_filter_simps downloadAndUploadToDrive_def sendEmailNotification_def
  updateLawmaticsProspect_def getProspect_def submitFormWithPuppeteer_def
  processSingleDocument_def uploadFileType_def Googlecron_downloadAndUploadToDrive_def
  Googlecron_sendEmailNotification_def Googlecron_submitFormWithPuppeteer_def
  Googlecron_finish_def isNewDocument_def emit_def Let_def less_char_def less_eq_char_def

text \<open>
  The trademark, last processed on 2024-02-15, in the calm environment: the unified
  monitor passes both documents of 2024-03-01, \<open>Googlecron.js\<close> the first one.
\<close>

lemma example_fetched:
  "fetchedDocs calmEnv trademarkA emptyWorld = [docLetter, docNotice, docOld]"
  by (simp add: fetchedDocs_def model_defs example_defs)

lemma example_novel:
  "novelDocs calmEnv trademarkA exampleState ''2024-03-01'' emptyWorld = [docLetter, docNotice]"
  by (simp add: novelDocs_def fetchedDocs_def model_defs example_defs example_dates)

lemma example_run:
  "processMatter calmEnv trademarkA exampleState ''2024-03-01'' emptyWorld =
     (Inr \<lparr>processed = True, reason = None, docCount = 2, latestDocDate = Some ''2024-03-01'',
           multiDoc = True\<rparr>,
      exampleState(''12345'' \<mapsto> ''2024-03-01''),
      emptyWorld\<lparr>trace :=
        [GetTrademark ''12345'',
         PipelineStart ''12345'' docLetter,
         SendMail ''12345'' docLetter,
         ProspectPut ''L1'' ''12345'' docLetter,
         ProspectGet ''L1'',
         FormSubmit ''L1'' ''12345'' docLetter,
         PipelineStart ''12345'' docNotice,
         DriveUpload ''12345'' docNotice,
         SendMail ''12345''
           (docNotice\<lparr>driveLink := Some ''https://drive.example/file'', fileType := Some ''pdf''\<rparr>),
         ProspectPut ''L1'' ''12345''
           (docNotice\<lparr>driveLink := Some ''https://drive.example/file'', fileType := Some ''pdf''\<rparr>),
         ProspectGet ''L1'',
         FormSubmit ''L1'' ''12345''
           (docNotice\<lparr>driveLink := Some ''https://drive.example/file'', fileType := Some ''pdf''\<rparr>),
         SetLastProcessed ''12345'' ''2024-03-01'']\<rparr>)"
  by (simp add: processMatter_def model_defs example_defs example_dates)

lemma example_run_Googlecron:
  "Googlecron_processMatter calmEnv trademarkA exampleState ''2024-03-01'' emptyWorld =
     (Inr \<lparr>processed = True, reason = None, docCount = 1, latestDocDate = Some ''2024-03-01'',
           multiDoc = False\<rparr>,
      exampleState(''12345'' \<mapsto> ''2024-03-01''),
      emptyWorld\<lparr>trace :=
        [GetTrademark ''12345'',
         PipelineStart ''12345'' docLetter,
         SendMail ''12345'' docLetter,
         ProspectPut ''L1'' ''12345'' docLetter,
         ProspectGet ''L1'',
         FormSubmit ''L1'' ''12345'' docLetter,
         SetLastProcessed ''12345'' ''2024-03-01'']\<rparr>)"
  by (simp add: Googlecron_processMatter_def model_defs example_defs example_dates)

section \<open>The processed state after one matter\<close>

lemma isNewDocument_marker_le:
  "isNewDocument d (Some old) today \<Longrightarrow> old \<le> toISODate d"
  by (cases "old = []") (simp_all add: isNewDocument_def truthy_def)

lemma hd_novelDocs_new:
  assumes "novelDocs E m st today w \<noteq> []"
  shows "isNewDocument (date (hd (novelDocs E m st today w))) (st (applicationNumber m)) today"
proof -
  from assms have "hd (novelDocs E m st today w) \<in> set (novelDocs E m st today w)"
    by simp
  then show ?thesis by (simp add: novelDocs_def)
qed

text \<open>
  C9. Whatever the matter, the state, today and the world: a key other than the
  matter's application number has the same entry after \<open>processMatter\<close> as before, in
  the unified monitor and in \<open>Googlecron.js\<close>.
\<close>

theorem processMatter_other_entries:
  assumes "k \<noteq> applicationNumber m"
  shows "fst (snd (processMatter E m st today w)) k = st k
       \<and> fst (snd (Googlecron_processMatter E m st today w)) k = st k"
proof
  obtain r st' w' where run: "processMatter E m st today w = (r, st', w')"
    by (cases "processMatter E m st today w")
  from run have "st' k = st k"
    by (cases rule: processMatter_cases) (simp_all add: assms)
  with run show "fst (snd (processMatter E m st today w)) k = st k" by simp
next
  obtain r st' w' where run: "Googlecron_processMatter E m st today w = (r, st', w')"
    by (cases "Googlecron_processMatter E m st today w")
  from run have "st' k = st k"
    by (cases rule: Googlecron_processMatter_cases) (simp_all add: assms)
  with run show "fst (snd (Googlecron_processMatter E m st today w)) k = st k" by simp
qed

theorem processMatter_other_entries_witness:
  "fst (snd (processMatter calmEnv trademarkA exampleState ''2024-03-01'' emptyWorld)) ''67890''
     = exampleState ''67890''
   \<and> fst (snd (Googlecron_processMatter calmEnv trademarkA exampleState ''2024-03-01'' emptyWorld)) ''67890''
     = exampleState ''67890''
   \<and> fst (snd (processMatter calmEnv trademarkA exampleState ''2024-03-01'' emptyWorld)) ''12345''
     = Some ''2024-03-01''
   \<and> exampleState ''12345'' = Some ''2024-02-15''"
proof -
  have h: "''67890'' \<noteq> applicationNumber trademarkA" by (simp add: trademarkA_def)
  have e: "fst (snd (processMatter calmEnv trademarkA exampleState ''2024-03-01'' emptyWorld)) ''12345''
     = Some ''2024-03-01''" by (simp add: example_run)
  have s: "exampleState ''12345'' = Some ''2024-02-15''" by (simp add: exampleState_def)
  from processMatter_other_entries [OF h, of calmEnv exampleState "''2024-03-01''" emptyWorld] e s
  show ?thesis by blast
qed

text \<open>
  C3. When the state has an entry for the matter's application number before
  \<open>processMatter\<close>, it has one after, and the entry after is not earlier (as a string)
  than the entry before; in the unified monitor and in \<open>Googlecron.js\<close>.
\<close>

theorem processMatter_monotone:
  assumes "st (applicationNumber m) = Some old"
  shows "(\<exists>new. fst (snd (processMatter E m st today w)) (applicationNumber m) = Some new \<and> old \<le> new)
       \<and> (\<exists>new. fst (snd (Googlecron_processMatter E m st today w)) (applicationNumber m) = Some new
             \<and> old \<le> new)"
proof
  obtain r st' w' where run: "processMatter E m st today w = (r, st', w')"
    by (cases "processMatter E m st today w")
  from run have "\<exists>new. st' (applicationNumber m) = Some new \<and> old \<le> new"
  proof (cases rule: processMatter_cases)
    case (completed k w2)
    from hd_novelDocs_new [OF completed(2)] assms
    have "old \<le> toISODate (date (hd (novelDocs E m st today w)))"
      by (simp add: isNewDocument_marker_le)
    with completed(5) show ?thesis by simp
  qed (simp_all add: assms)
  with run show "\<exists>new. fst (snd (processMatter E m st today w)) (applicationNumber m) = Some new \<and> old \<le> new"
    by simp
next
  obtain r st' w' where run: "Googlecron_processMatter E m st today w = (r, st', w')"
    by (cases "Googlecron_processMatter E m st today w")
  from run have "\<exists>new. st' (applicationNumber m) = Some new \<and> old \<le> new"
  proof (cases rule: Googlecron_processMatter_cases)
    case (completed d w6)
    from completed(3) assms have "old \<le> toISODate (date d)"
      by (simp add: isNewDocument_marker_le)
    with completed(6) show ?thesis by simp
  qed (simp_all add: assms)
  with run show "\<exists>new. fst (snd (Googlecron_processMatter E m st today w)) (applicationNumber m) = Some new
             \<and> old \<le> new"
    by simp
qed

theorem processMatter_monotone_witness:
  "(\<exists>new. fst (snd (processMatter calmEnv trademarkA exampleState ''2024-03-01'' emptyWorld)) ''12345''
             = Some new \<and> ''2024-02-15'' \<le> new)
   \<and> (\<exists>new. fst (snd (Googlecron_processMatter calmEnv trademarkA exampleState ''2024-03-01'' emptyWorld)) ''12345''
             = Some new \<and> ''2024-02-15'' \<le> new)
   \<and> fst (snd (processMatter calmEnv trademarkA exampleState ''2024-03-01'' emptyWorld)) ''12345''
       = Some ''2024-03-01''"
proof -
  have h: "exampleState (applicationNumber trademarkA) = Some ''2024-02-15''"
    by (simp add: exampleState_def trademarkA_def)
  have a: "applicationNumber trademarkA = ''12345''" by (simp add: trademarkA_def)
  have e: "fst (snd (processMatter calmEnv trademarkA exampleState ''2024-03-01'' emptyWorld)) ''12345''
     = Some ''2024-03-01''" by (simp add: example_run)
  from processMatter_monotone [where st = exampleState and m = trademarkA and E = calmEnv
      and today = "''2024-03-01''" and w = emptyWorld, OF h] e
  show ?thesis unfolding a by blast
qed

section \<open>The document source adapter\<close>

lemma sorted_sortLatestFirst: "sorted_wrt (\<lambda>a b. date b \<le> date a) (sortLatestFirst docs)"
proof -
  have "sorted (map (\<lambda>d. - date d) (sort_key (\<lambda>d. - date d) docs))"
    by (rule sorted_sort_key)
  then show ?thesis
    by (simp add: sortLatestFirst_def sorted_wrt_map)
qed

lemma mset_sortLatestFirst: "mset (sortLatestFirst docs) = mset docs"
  by (simp add: sortLatestFirst_def)

lemma sortLatestFirst_Nil: "sortLatestFirst [] = []"
  by (simp add: sortLatestFirst_def)

lemma fetchAllTrademarkDocs_eq:
  "fst (fetchAllTrademarkDocs E appNo w)
     = sortLatestFirst (List.map_filter (parseTrademarkDoc E) (payloadDocs (trademarkGet E (trace w) appNo)))"
  by (simp add: fetchAllTrademarkDocs_def fetchAllTrademarkDocs_try_def payloadDocs_def Let_def
      sortLatestFirst_Nil List.map_filter_simps split: response.splits)

lemma fetchAllPatentDocs_eq:
  "fst (fetchAllPatentDocs E appNo w)
     = sortLatestFirst (List.map_filter (parsePatentDoc E) (payloadDocs (patentGet E (trace w) appNo)))"
  by (simp add: fetchAllPatentDocs_def fetchAllPatentDocs_try_def payloadDocs_def Let_def
      sortLatestFirst_Nil List.map_filter_simps split: response.splits)

text \<open>
  What holds of the two fetch functions whatever the registry answers: the list is
  latest first; it is empty when the request fails, when the payload cannot be read and
  when the registry has no document; an exception of the \<open>try\<close> block never leaves the
  function, it becomes the empty list. A trademark document is dropped exactly when the
  cleaned date string does not parse, a patent document exactly when
  \<open>new Date(doc.officialDate)\<close> is \<open>Invalid Date\<close>.
\<close>

lemma fetch_sorted_or_empty:
  "sorted_wrt (\<lambda>a b. date b \<le> date a) (fst (fetchAllTrademarkDocs E appNo w))
   \<and> sorted_wrt (\<lambda>a b. date b \<le> date a) (fst (fetchAllPatentDocs E appNo w))
   \<and> (trademarkGet E (trace w) appNo = RequestFails msg \<longrightarrow> fst (fetchAllTrademarkDocs E appNo w) = [])
   \<and> (trademarkGet E (trace w) appNo = PayloadMalformed msg \<longrightarrow> fst (fetchAllTrademarkDocs E appNo w) = [])
   \<and> (trademarkGet E (trace w) appNo = Documents [] \<longrightarrow> fst (fetchAllTrademarkDocs E appNo w) = [])
   \<and> (patentGet E (trace w) appNo = RequestFails msg \<longrightarrow> fst (fetchAllPatentDocs E appNo w) = [])
   \<and> (patentGet E (trace w) appNo = PayloadMalformed msg \<longrightarrow> fst (fetchAllPatentDocs E appNo w) = [])
   \<and> (patentGet E (trace w) appNo = Documents [] \<longrightarrow> fst (fetchAllPatentDocs E appNo w) = [])
   \<and> (fst (fetchAllTrademarkDocs_try E appNo w) = Inl e \<longrightarrow>
        fetchAllTrademarkDocs E appNo w = ([], snd (fetchAllTrademarkDocs_try E appNo w)))
   \<and> (fst (fetchAllPatentDocs_try E appNo w) = Inl e \<longrightarrow>
        fetchAllPatentDocs E appNo w = ([], snd (fetchAllPatentDocs_try E appNo w)))"
proof -
  have s1: "sorted_wrt (\<lambda>a b. date b \<le> date a) (fst (fetchAllTrademarkDocs E appNo w))"
    by (simp add: fetchAllTrademarkDocs_eq sorted_sortLatestFirst)
  have s2: "sorted_wrt (\<lambda>a b. date b \<le> date a) (fst (fetchAllPatentDocs E appNo w))"
    by (simp add: fetchAllPatentDocs_eq sorted_sortLatestFirst)
  have f1: "trademarkGet E (trace w) appNo = RequestFails msg \<longrightarrow> fst (fetchAllTrademarkDocs E appNo w) = []"
    and f2: "trademarkGet E (trace w) appNo = PayloadMalformed msg \<longrightarrow> fst (fetchAllTrademarkDocs E appNo w) = []"
    and f3: "trademarkGet E (trace w) appNo = Documents [] \<longrightarrow> fst (fetchAllTrademarkDocs E appNo w) = []"
    by (simp_all add: fetchAllTrademarkDocs_eq payloadDocs_def sortLatestFirst_Nil List.map_filter_simps)
  have f4: "patentGet E (trace w) appNo = RequestFails msg \<longrightarrow> fst (fetchAllPatentDocs E appNo w) = []"
    and f5: "patentGet E (trace w) appNo = PayloadMalformed msg \<longrightarrow> fst (fetchAllPatentDocs E appNo w) = []"
    and f6: "patentGet E (trace w) appNo = Documents [] \<longrightarrow> fst (fetchAllPatentDocs E appNo w) = []"
    by (simp_all add: fetchAllPatentDocs_eq payloadDocs_def sortLatestFirst_Nil List.map_filter_simps)
  have c1: "fst (fetchAllTrademarkDocs_try E appNo w) = Inl e \<longrightarrow>
        fetchAllTrademarkDocs E appNo w = ([], snd (fetchAllTrademarkDocs_try E appNo w))"
    by (cases "fetchAllTrademarkDocs_try E appNo w") (simp add: fetchAllTrademarkDocs_def)
  have c2: "fst (fetchAllPatentDocs_try E appNo w) = Inl e \<longrightarrow>
        fetchAllPatentDocs E appNo w = ([], snd (fetchAllPatentDocs_try E appNo w))"
    by (cases "fetchAllPatentDocs_try E appNo w") (simp add: fetchAllPatentDocs_def)
  from s1 s2 f1 f2 f3 f4 f5 f6 c1 c2 show ?thesis by blast
qed

lemma dropped_documents:
  "(parseTrademarkDoc E tm = None) =
       (parseDate E (cleanDate (orElse (first (MailRoomDate tm))
                                 (orElse (first (ScanDateTime tm)) ''''))) = None)"
  "(parsePatentDoc E pt = None) = (newDate E (officialDate pt) = None)"
  "newDate E JNull = Some 0"
  "newDate E JUndefined = None"
  by (simp_all add: parseTrademarkDoc_def parsePatentDoc_def newDate_def Let_def split: option.splits)

text \<open>
  C6 on a patent payload of three documents: one whose \<open>officialDate\<close> is \<open>null\<close>, one
  without \<open>officialDate\<close>, one of 2024-03-01. The claim has both undated documents
  discarded. \<open>fetchAllPatentDocs\<close> discards the one without the field and returns the
  one with \<open>null\<close>, last in the list and dated 1970-01-01: \<open>new Date(null)\<close> is the time
  value 0, which \<open>isNaN\<close> lets through. \<open>fetchPatentDoc\<close> of \<open>Googlecron.js\<close> has the same
  filter: on a payload that holds the \<open>null\<close>-dated document only, it returns it. The
  trademark function, whose date is \<open>new Date\<close> of a string, discards its document
  without a readable date.
\<close>

theorem null_dated_patent_document_kept:
  "fst (fetchAllPatentDocs calmEnv ''24680'' emptyWorld) = [docPatent, docEpoch]
   \<and> patentGet calmEnv [] ''24680'' = Documents [rawPatentNull, rawPatentMissing, rawPatent]
   \<and> officialDate rawPatentNull = JNull
   \<and> parsePatentDoc calmEnv rawPatentNull = Some docEpoch
   \<and> parsePatentDoc calmEnv rawPatentMissing = None
   \<and> toISODate (date docEpoch) = ''1970-01-01''
   \<and> fst (fetchPatentDoc nullDateEnv ''24680'' emptyWorld)
       = Some docEpoch
   \<and> fst (fetchAllTrademarkDocs calmEnv ''12345'' emptyWorld) = [docLetter, docNotice, docOld]
   \<and> parseTrademarkDoc calmEnv rawUndated = None"
proof -
  have a: "fst (fetchAllPatentDocs calmEnv ''24680'' emptyWorld) = [docPatent, docEpoch]"
    by (simp add: model_defs example_defs)
  have b: "patentGet calmEnv [] ''24680'' = Documents [rawPatentNull, rawPatentMissing, rawPatent]"
    by (simp add: calmEnv_def)
  have c: "officialDate rawPatentNull = JNull"
    by (simp add: rawPatentNull_def)
  have d: "parsePatentDoc calmEnv rawPatentNull = Some docEpoch"
    "parsePatentDoc calmEnv rawPatentMissing = None"
    by (simp_all add: model_defs example_defs)
  have e: "toISODate (date docEpoch) = ''1970-01-01''"
    unfolding docEpoch_def by code_simp
  have f: "fst (fetchPatentDoc nullDateEnv ''24680'' emptyWorld)
       = Some docEpoch"
    by (simp add: nullDateEnv_def model_defs example_defs)
  have g: "fst (fetchAllTrademarkDocs calmEnv ''12345'' emptyWorld) = [docLetter, docNotice, docOld]"
    "parseTrademarkDoc calmEnv rawUndated = None"
    by (simp_all add: model_defs example_defs)
  from a b c d e f g show ?thesis by blast
qed

section \<open>The batch of the latest date\<close>

lemma fetchedDocs_sorted: "sorted_wrt (\<lambda>a b. date b \<le> date a) (fetchedDocs E m w)"
  by (simp add: fetchedDocs_def fetchAllTrademarkDocs_eq fetchAllPatentDocs_eq sorted_sortLatestFirst)

lemma novelDocs_sorted: "sorted_wrt (\<lambda>a b. date b \<le> date a) (novelDocs E m st today w)"
  unfolding novelDocs_def by (rule sorted_wrt_filter) (rule fetchedDocs_sorted)

lemma hd_latest:
  assumes "sorted_wrt (\<lambda>a b. date b \<le> date a) xs" and "x \<in> set xs"
  shows "date x \<le> date (hd xs)"
proof (cases xs)
  case Nil
  with assms(2) show ?thesis by simp
next
  case (Cons y ys)
  with assms show ?thesis by auto
qed

lemma latest_novel_date:
  assumes "d \<in> set (novelDocs E m st today w)"
    and "\<forall>x\<in>set (novelDocs E m st today w). date x \<le> date d"
  shows "date (hd (novelDocs E m st today w)) = date d"
proof -
  from assms(1) have ne: "novelDocs E m st today w \<noteq> []" by auto
  then have "hd (novelDocs E m st today w) \<in> set (novelDocs E m st today w)" by simp
  with assms(2) have "date (hd (novelDocs E m st today w)) \<le> date d" by blast
  moreover from hd_latest [OF novelDocs_sorted assms(1)]
  have "date d \<le> date (hd (novelDocs E m st today w))" .
  ultimately show ?thesis by simp
qed

lemma fetchedLatest_first: "fetchedLatest E m w = first (fetchedDocs E m w)"
  by (simp add: fetchedLatest_def fetchedDocs_def fetchTrademarkDoc_def fetchPatentDoc_def
      fetchAllTrademarkDocs_eq fetchAllPatentDocs_eq payloadDocs_def Let_def first_def
      sortLatestFirst_Nil List.map_filter_simps split: response.splits)

text \<open>
  C2, as stated, on \<open>processMatter\<close> of \<open>Googlecron.js\<close>. The trademark was last
  processed on 2024-02-15 and the registry holds two documents of 2024-03-01. Both are
  new and share the latest date; one of them enters the chain.
\<close>

theorem Googlecron_single_document_counterexample:
  "novelDocs calmEnv trademarkA exampleState ''2024-03-01'' emptyWorld = [docLetter, docNotice]
   \<and> toISODate (date docLetter) = ''2024-03-01''
   \<and> toISODate (date docNotice) = ''2024-03-01''
   \<and> pipelineStarts (trace (snd (snd
         (Googlecron_processMatter calmEnv trademarkA exampleState ''2024-03-01'' emptyWorld))))
       = [(''12345'', docLetter)]"
proof -
  have a: "toISODate (date docLetter) = ''2024-03-01''"
    and b: "toISODate (date docNotice) = ''2024-03-01''"
    by (simp_all add: docLetter_def docNotice_def example_dates)
  have c: "pipelineStarts (trace (snd (snd
         (Googlecron_processMatter calmEnv trademarkA exampleState ''2024-03-01'' emptyWorld))))
       = [(''12345'', docLetter)]"
    by (simp add: example_run_Googlecron pipelineStarts_def)
  from example_novel a b c show ?thesis by blast
qed

text \<open>
  C2, amended. In the unified monitor, when \<open>processMatter\<close> returns without an
  exception and \<open>d\<close> is a latest new document of the fetched list, the documents that
  enter the chain are the new documents with the day string of \<open>d\<close>, all of them, in the
  fetched order, and the state entry of the matter is assigned once, that day string,
  as the last step. In \<open>Googlecron.js\<close>, when \<open>processMatter\<close> reports a processed
  document, the first document of the fetched list alone entered the chain and the entry
  is assigned once, its day string, as the last step.
\<close>

theorem latest_date_batch:
  "(processMatter E m st today w = (Inr r, st', w')
      \<and> d \<in> set (novelDocs E m st today w)
      \<and> (\<forall>x\<in>set (novelDocs E m st today w). date x \<le> date d)
    \<longrightarrow> pipelineStarts (trace w')
          = pipelineStarts (trace w)
            @ map (Pair (applicationNumber m))
                (filter (\<lambda>x. toISODate (date x) = toISODate (date d)) (novelDocs E m st today w))
        \<and> stateWrites (trace w')
          = stateWrites (trace w) @ [(applicationNumber m, toISODate (date d))]
        \<and> last (trace w') = SetLastProcessed (applicationNumber m) (toISODate (date d))
        \<and> st' = st(applicationNumber m \<mapsto> toISODate (date d))
        \<and> docCount r
          = length (filter (\<lambda>x. toISODate (date x) = toISODate (date d)) (novelDocs E m st today w)))
   \<and> (Googlecron_processMatter E m st today w = (Inr r, st', w') \<and> processed r
    \<longrightarrow> fetchedDocs E m w \<noteq> []
        \<and> pipelineStarts (trace w')
          = pipelineStarts (trace w) @ [(applicationNumber m, hd (fetchedDocs E m w))]
        \<and> stateWrites (trace w')
          = stateWrites (trace w)
            @ [(applicationNumber m, toISODate (date (hd (fetchedDocs E m w))))]
        \<and> last (trace w')
          = SetLastProcessed (applicationNumber m) (toISODate (date (hd (fetchedDocs E m w))))
        \<and> st' = st(applicationNumber m \<mapsto> toISODate (date (hd (fetchedDocs E m w)))))"
proof (intro conjI impI)
  assume a: "processMatter E m st today w = (Inr r, st', w')
      \<and> d \<in> set (novelDocs E m st today w)
      \<and> (\<forall>x\<in>set (novelDocs E m st today w). date x \<le> date d)"
  then have run: "processMatter E m st today w = (Inr r, st', w')"
    and d: "d \<in> set (novelDocs E m st today w)"
    and top: "\<forall>x\<in>set (novelDocs E m st today w). date x \<le> date d"
    by simp_all
  from d have ne: "novelDocs E m st today w \<noteq> []" by auto
  then have fe: "fetchedDocs E m w \<noteq> []" by (auto simp: novelDocs_def)
  have day: "toISODate (date (hd (novelDocs E m st today w))) = toISODate (date d)"
    using latest_novel_date [OF d top] by simp
  have batch: "latestDateDocs E m st today w
      = filter (\<lambda>x. toISODate (date x) = toISODate (date d)) (novelDocs E m st today w)"
    by (simp add: latestDateDocs_def day)
  from run have
    "pipelineStarts (trace w')
          = pipelineStarts (trace w)
            @ map (Pair (applicationNumber m)) (latestDateDocs E m st today w)
     \<and> stateWrites (trace w')
          = stateWrites (trace w) @ [(applicationNumber m, toISODate (date d))]
     \<and> last (trace w') = SetLastProcessed (applicationNumber m) (toISODate (date d))
     \<and> st' = st(applicationNumber m \<mapsto> toISODate (date d))
     \<and> docCount r = length (latestDateDocs E m st today w)"
  proof (cases rule: processMatter_cases)
    case unknown_type
    with fe show ?thesis by (simp add: fetchedDocs_def)
  next
    case no_documents
    with fe show ?thesis by simp
  next
    case not_new
    with ne show ?thesis by simp
  next
    case (thrown e)
    then show ?thesis by simp
  next
    case (completed k w2)
    from processLatestDateDocs_completed [OF completed(3)] silent_fetchedWorld [of w E m]
    have "k = length (latestDateDocs E m st today w)"
      and "pipelineStarts (trace w2)
            = pipelineStarts (trace w) @ map (Pair (applicationNumber m)) (latestDateDocs E m st today w)"
      and "stateWrites (trace w2) = stateWrites (trace w)"
      by (simp_all add: silent_def)
    with completed(4,5,6) day show ?thesis by simp
  qed
  with batch show "pipelineStarts (trace w')
          = pipelineStarts (trace w)
            @ map (Pair (applicationNumber m))
                (filter (\<lambda>x. toISODate (date x) = toISODate (date d)) (novelDocs E m st today w))"
    and "stateWrites (trace w')
          = stateWrites (trace w) @ [(applicationNumber m, toISODate (date d))]"
    and "last (trace w') = SetLastProcessed (applicationNumber m) (toISODate (date d))"
    and "st' = st(applicationNumber m \<mapsto> toISODate (date d))"
    and "docCount r
          = length (filter (\<lambda>x. toISODate (date x) = toISODate (date d)) (novelDocs E m st today w))"
    by simp_all
next
  assume a: "Googlecron_processMatter E m st today w = (Inr r, st', w') \<and> processed r"
  then have run: "Googlecron_processMatter E m st today w = (Inr r, st', w')"
    and pr: "processed r" by simp_all
  from run have
    "fetchedDocs E m w \<noteq> []
     \<and> pipelineStarts (trace w')
          = pipelineStarts (trace w) @ [(applicationNumber m, hd (fetchedDocs E m w))]
     \<and> stateWrites (trace w')
          = stateWrites (trace w)
            @ [(applicationNumber m, toISODate (date (hd (fetchedDocs E m w))))]
     \<and> last (trace w')
          = SetLastProcessed (applicationNumber m) (toISODate (date (hd (fetchedDocs E m w))))
     \<and> st' = st(applicationNumber m \<mapsto> toISODate (date (hd (fetchedDocs E m w))))"
  proof (cases rule: Googlecron_processMatter_cases)
    case unknown_type
    with pr show ?thesis by simp
  next
    case no_documents
    with pr show ?thesis by simp
  next
    case (not_new d0)
    with pr show ?thesis by simp
  next
    case (thrown d0 e)
    then show ?thesis by simp
  next
    case (completed d0 w6)
    from completed(2) have fd: "fetchedDocs E m w \<noteq> []" and hd: "hd (fetchedDocs E m w) = d0"
      by (auto simp: fetchedLatest_first first_def split: list.splits)
    from completed(4) silent_Googlecron_fetchedWorld [of w E m]
    have "pipelineStarts (trace w6) = pipelineStarts (trace w) @ [(applicationNumber m, d0)]"
      and "stateWrites (trace w6) = stateWrites (trace w)"
      by (simp_all add: silent_def)
    with completed(6,7) fd hd show ?thesis by simp
  qed
  then show "fetchedDocs E m w \<noteq> []"
    and "pipelineStarts (trace w')
          = pipelineStarts (trace w) @ [(applicationNumber m, hd (fetchedDocs E m w))]"
    and "stateWrites (trace w')
          = stateWrites (trace w)
            @ [(applicationNumber m, toISODate (date (hd (fetchedDocs E m w))))]"
    and "last (trace w')
          = SetLastProcessed (applicationNumber m) (toISODate (date (hd (fetchedDocs E m w))))"
    and "st' = st(applicationNumber m \<mapsto> toISODate (date (hd (fetchedDocs E m w))))"
    by simp_all
qed

theorem latest_date_batch_witness:
  "pipelineStarts (trace (snd (snd (processMatter calmEnv trademarkA exampleState ''2024-03-01'' emptyWorld))))
     = [(''12345'', docLetter), (''12345'', docNotice)]
   \<and> stateWrites (trace (snd (snd (processMatter calmEnv trademarkA exampleState ''2024-03-01'' emptyWorld))))
     = [(''12345'', ''2024-03-01'')]
   \<and> last (trace (snd (snd (processMatter calmEnv trademarkA exampleState ''2024-03-01'' emptyWorld))))
     = SetLastProcessed ''12345'' ''2024-03-01''
   \<and> fst (snd (processMatter calmEnv trademarkA exampleState ''2024-03-01'' emptyWorld))
     = exampleState(''12345'' \<mapsto> ''2024-03-01'')
   \<and> pipelineStarts (trace (snd (snd
        (Googlecron_processMatter calmEnv trademarkA exampleState ''2024-03-01'' emptyWorld))))
     = [(''12345'', docLetter)]
   \<and> fst (snd (Googlecron_processMatter calmEnv trademarkA exampleState ''2024-03-01'' emptyWorld))
     = exampleState(''12345'' \<mapsto> ''2024-03-01'')"
proof -
  let ?novel = "novelDocs calmEnv trademarkA exampleState ''2024-03-01'' emptyWorld"
  obtain r st' w' where run:
    "processMatter calmEnv trademarkA exampleState ''2024-03-01'' emptyWorld = (Inr r, st', w')"
    by (simp add: example_run)
  obtain r2 st2 w2 where run2:
    "Googlecron_processMatter calmEnv trademarkA exampleState ''2024-03-01'' emptyWorld = (Inr r2, st2, w2)"
    and pr: "processed r2"
    by (simp add: example_run_Googlecron)
  have d: "docLetter \<in> set ?novel" by (simp add: example_novel)
  have top: "\<forall>x\<in>set ?novel. date x \<le> date docLetter"
    by (simp add: example_novel docLetter_def docNotice_def)
  have days: "filter (\<lambda>x. toISODate (date x) = ''2024-03-01'') ?novel = [docLetter, docNotice]"
    by (simp add: example_novel docLetter_def docNotice_def example_dates)
  have day: "toISODate (date docLetter) = ''2024-03-01''"
    by (simp add: docLetter_def example_dates)
  have a: "applicationNumber trademarkA = ''12345''" by (simp add: trademarkA_def)
  have t0: "trace emptyWorld = []" by (simp add: emptyWorld_def)
  have hd: "hd (fetchedDocs calmEnv trademarkA emptyWorld) = docLetter"
    by (simp add: example_fetched)
  from latest_date_batch [where E = calmEnv and m = trademarkA and st = exampleState
      and today = "''2024-03-01''" and w = emptyWorld and r = r and st' = st' and w' = w'
      and d = docLetter] run d top
  have one: "pipelineStarts (trace w') = [(''12345'', docLetter), (''12345'', docNotice)]
      \<and> stateWrites (trace w') = [(''12345'', ''2024-03-01'')]
      \<and> last (trace w') = SetLastProcessed ''12345'' ''2024-03-01''
      \<and> st' = exampleState(''12345'' \<mapsto> ''2024-03-01'')"
    by (simp add: days day a t0)
  from latest_date_batch [where E = calmEnv and m = trademarkA and st = exampleState
      and today = "''2024-03-01''" and w = emptyWorld and r = r2 and st' = st2 and w' = w2] run2 pr
  have two: "pipelineStarts (trace w2) = [(''12345'', docLetter)]
      \<and> st2 = exampleState(''12345'' \<mapsto> ''2024-03-01'')"
    by (simp add: hd day a t0)
  from one two run run2 show ?thesis by simp
qed

section \<open>Sweeps and batches on the example data\<close>

lemmas run_defs =
  processMatter_def Googlecron_processMatter_def processAllMatters_def
  Googlecron_processAllMatters_def sweepFailure_def getTodayDateKey_def sendSummaryEmail_def
  sendConfirmationEmail_def processMultipleMatters_def batchStep_def updateMatterStatus_def
  getMattersByIds_def processSingleMatter_def processSingleMatter_try_def
  pipelineStarts_def stateWrites_def confirmations_def statusWrites_def registryRequests_def

text \<open>
  C4 at a failing input. Two matters are registered, none was processed before, both
  have a document of today, and the mail transport rejects every message. The sweep of
  the unified monitor requests the first matter only and returns a failure: the
  rejection leaves \<open>processMatter\<close>, and the sweep has one \<open>try\<close> around its loop. The sweep
  of \<open>Googlecron.js\<close> does the same when the browser cannot be launched. The targeted
  batch, whose loop body has its own \<open>try\<close>, requests both matters.
\<close>

theorem sweep_stops_at_first_exception:
  "sweepSuccess (fst (processAllMatters mailDownEnv twoMatters)) = False
   \<and> sweepError (fst (processAllMatters mailDownEnv twoMatters)) = Some ''Invalid login''
   \<and> registryRequests (trace (snd (processAllMatters mailDownEnv twoMatters))) = [''12345'']
   \<and> registryRequests (trace (Googlecron_processAllMatters noBrowserEnv twoMatters)) = [''12345'']
   \<and> registryRequests (trace (snd (processMultipleMatters noBrowserEnv [''L1'', ''L2''] twoMatters)))
       = [''12345'', ''67890'']"
proof -
  have a: "processAllMatters mailDownEnv twoMatters =
      (sweepFailure ''Invalid login'',
       twoMatters\<lparr>trace := [GetTrademark ''12345'', PipelineStart ''12345'' docLetter,
                             SendMail ''12345'' docLetter]\<rparr>)"
    by (simp add: run_defs model_defs example_defs example_dates)
  have b: "registryRequests (trace (Googlecron_processAllMatters noBrowserEnv twoMatters)) = [''12345'']"
    by (simp add: run_defs model_defs example_defs example_dates)
  have c: "registryRequests (trace (snd (processMultipleMatters noBrowserEnv [''L1'', ''L2''] twoMatters)))
       = [''12345'', ''67890'']"
    by (simp add: run_defs model_defs example_defs example_dates)
  from a b c show ?thesis by (simp add: sweepFailure_def registryRequests_def)
qed

section \<open>The entries of the processed state\<close>

text \<open>
  A day string is never empty, and every entry that \<open>processMatter\<close> stores is a day
  string: a processed state whose entries are not empty keeps that property, in the
  unified monitor and in \<open>Googlecron.js\<close>.
\<close>

lemma toISODate_nonempty: "toISODate t \<noteq> []"
  by (simp add: toISODate_def split: prod.splits)

lemma stored_markers_nonempty:
  assumes "\<forall>a l. st a = Some l \<longrightarrow> l \<noteq> []"
  shows "(\<forall>a l. fst (snd (processMatter E m st today w)) a = Some l \<longrightarrow> l \<noteq> [])
       \<and> (\<forall>a l. fst (snd (Googlecron_processMatter E m st today w)) a = Some l \<longrightarrow> l \<noteq> [])"
proof
  obtain r st' w' where run: "processMatter E m st today w = (r, st', w')"
    by (cases "processMatter E m st today w")
  from run have "\<forall>a l. st' a = Some l \<longrightarrow> l \<noteq> []"
    by (cases rule: processMatter_cases) (use assms in \<open>auto simp: toISODate_nonempty\<close>)
  with run show "\<forall>a l. fst (snd (processMatter E m st today w)) a = Some l \<longrightarrow> l \<noteq> []"
    by simp
next
  obtain r st' w' where run: "Googlecron_processMatter E m st today w = (r, st', w')"
    by (cases "Googlecron_processMatter E m st today w")
  from run have "\<forall>a l. st' a = Some l \<longrightarrow> l \<noteq> []"
    by (cases rule: Googlecron_processMatter_cases) (use assms in \<open>auto simp: toISODate_nonempty\<close>)
  with run show "\<forall>a l. fst (snd (Googlecron_processMatter E m st today w)) a = Some l \<longrightarrow> l \<noteq> []"
    by simp
qed

section \<open>What one call of the chain adds to the history\<close>

text \<open>
  \<open>processMatter\<close> of \<open>Googlecron.js\<close> extends the history. It starts at most one
  document: exactly one when it throws or reports a processed document, none when it
  reports none. It assigns the processed state exactly when it reports a processed
  document, and then once.
\<close>

lemma Googlecron_processMatter_events:
  assumes run: "Googlecron_processMatter E m st today w = (r, st', w')"
  shows "\<exists>es. trace w' = trace w @ es
     \<and> length (stateWrites es) = (case r of Inl e \<Rightarrow> 0 | Inr res \<Rightarrow> if processed res then 1 else 0)
     \<and> length (pipelineStarts es) = (case r of Inl e \<Rightarrow> 1 | Inr res \<Rightarrow> if processed res then 1 else 0)"
  using run
proof (cases rule: Googlecron_processMatter_cases)
  case unknown_type
  then show ?thesis by simp
next
  case no_documents
  from silent_Googlecron_fetchedWorld [of w E m] no_documents(3,5)
  show ?thesis by (auto simp: silent_def)
next
  case (not_new d)
  from silent_Googlecron_fetchedWorld [of w E m] not_new(4,6)
  show ?thesis by (auto simp: silent_def)
next
  case (thrown d e)
  from silent_Googlecron_fetchedWorld [of w E m] thrown(4,5)
  show ?thesis by (auto simp: silent_def)
next
  case (completed d w6)
  from silent_Googlecron_fetchedWorld [of w E m] completed(4,5,7)
  show ?thesis by (auto simp: silent_def)
qed

section \<open>The registry file and its status column\<close>

lemma findIndex_None: "findIndex P xs = None \<longleftrightarrow> filter P xs = []"
  by (induction xs) auto

lemma findIndex_Some:
  "findIndex P xs = Some k \<Longrightarrow> k < length xs \<and> P (xs ! k) \<and> hd (filter P xs) = xs ! k"
proof (induction xs arbitrary: k)
  case Nil
  then show ?case by simp
next
  case (Cons x xs)
  show ?case
  proof (cases "P x")
    case True
    with Cons.prems show ?thesis by simp
  next
    case False
    with Cons.prems obtain j where j: "findIndex P xs = Some j" and k: "k = Suc j"
      by auto
    from Cons.IH [OF j] False k show ?thesis by simp
  qed
qed

lemma findIndex_map:
  "findIndex (\<lambda>m. f m = i) xs = findIndex (\<lambda>x. x = i) (map f xs)"
  by (induction xs) auto

lemma findIndex_ids:
  "map lawmaticsID xs = map lawmaticsID ys \<Longrightarrow>
   findIndex (\<lambda>m. lawmaticsID m = i) xs = findIndex (\<lambda>m. lawmaticsID m = i) ys"
  by (simp add: findIndex_map [of lawmaticsID])

lemma updateMatterStatus_missing:
  "findIndex (\<lambda>m. lawmaticsID m = i) (mapFile w) = None \<Longrightarrow> updateMatterStatus E i s w = (False, w)"
  by (simp add: updateMatterStatus_def)

lemma updateMatterStatus_found:
  "findIndex (\<lambda>m. lawmaticsID m = i) (mapFile w) = Some k \<Longrightarrow> \<not> mapWriteFails E (trace w) \<Longrightarrow>
   updateMatterStatus E i s w =
     (True, emit (StatusWrite i s)
              (w\<lparr>mapFile := (mapFile w)[k := (mapFile w ! k)\<lparr>status := Some s\<rparr>]\<rparr>))"
  by (simp add: updateMatterStatus_def Let_def)

lemma updateMatterStatus_failed:
  "findIndex (\<lambda>m. lawmaticsID m = i) (mapFile w) = Some k \<Longrightarrow> mapWriteFails E (trace w) \<Longrightarrow>
   updateMatterStatus E i s w = (False, emit (StatusWriteFailed i s) w)"
  by (simp add: updateMatterStatus_def Let_def)

lemma updateMatterStatus_frame:
  "currentlyProcessing (snd (updateMatterStatus E i s w)) = currentlyProcessing w"
  "stateFile (snd (updateMatterStatus E i s w)) = stateFile w"
  "confirmations (trace (snd (updateMatterStatus E i s w))) = confirmations (trace w)"
  "pipelineStarts (trace (snd (updateMatterStatus E i s w))) = pipelineStarts (trace w)"
  "registryRequests (trace (snd (updateMatterStatus E i s w))) = registryRequests (trace w)"
  "stateWrites (trace (snd (updateMatterStatus E i s w))) = stateWrites (trace w)"
  by (simp_all add: updateMatterStatus_def Let_def split: option.splits)

lemma updateMatterStatus_events:
  "\<exists>es. trace (snd (updateMatterStatus E i s w)) = trace w @ es
     \<and> stateWrites es = [] \<and> pipelineStarts es = []"
  by (simp add: updateMatterStatus_def Let_def split: option.splits)

lemma updateMatterStatus_ids:
  "map lawmaticsID (mapFile (snd (updateMatterStatus E i s w))) = map lawmaticsID (mapFile w)"
proof (cases "findIndex (\<lambda>m. lawmaticsID m = i) (mapFile w)")
  case None
  then show ?thesis by (simp add: updateMatterStatus_missing)
next
  case (Some k)
  from findIndex_Some [OF Some] have "k < length (mapFile w)" by simp
  then have "map lawmaticsID ((mapFile w)[k := (mapFile w ! k)\<lparr>status := Some s\<rparr>])
      = map lawmaticsID (mapFile w)"
    by (simp add: map_update list_update_same_conv)
  with Some show ?thesis
    by (cases "mapWriteFails E (trace w)")
       (simp_all add: updateMatterStatus_found updateMatterStatus_failed)
qed

lemma updateMatterStatus_status:
  assumes "findIndex (\<lambda>m. lawmaticsID m = i) (mapFile w) = Some k"
    and "\<not> mapWriteFails E (trace w)"
  shows "status (mapFile (snd (updateMatterStatus E i s w)) ! k) = Some s"
    and "lawmaticsID (mapFile (snd (updateMatterStatus E i s w)) ! k) = i"
    and "statusWrites (trace (snd (updateMatterStatus E i s w))) = statusWrites (trace w) @ [(i, s)]"
proof -
  from findIndex_Some [OF assms(1)] have k: "k < length (mapFile w)" "lawmaticsID (mapFile w ! k) = i"
    by simp_all
  then show "status (mapFile (snd (updateMatterStatus E i s w)) ! k) = Some s"
    and "lawmaticsID (mapFile (snd (updateMatterStatus E i s w)) ! k) = i"
    by (simp_all add: updateMatterStatus_found [OF assms])
  show "statusWrites (trace (snd (updateMatterStatus E i s w))) = statusWrites (trace w) @ [(i, s)]"
    by (simp add: updateMatterStatus_found [OF assms])
qed

section \<open>One targeted attempt\<close>

lemma getMattersByIds_single:
  "getMattersByIds [i] w = filter (\<lambda>m. lawmaticsID m = i) (mapFile w)"
  by (simp add: getMattersByIds_def)

text \<open>An attempt on an identifier that is in flight is turned away and changes nothing.\<close>

lemma processSingleMatter_rejected:
  "i \<in> currentlyProcessing w \<Longrightarrow> processSingleMatter E i w = (alreadyProcessing, w)"
  by (simp add: processSingleMatter_def alreadyProcessing_def)

text \<open>An attempt on an identifier that no registered matter has.\<close>

lemma processSingleMatter_unregistered:
  assumes free: "i \<notin> currentlyProcessing w"
    and none: "findIndex (\<lambda>m. lawmaticsID m = i) (mapFile w) = None"
  shows "processSingleMatter E i w = (matterNotFound, w)"
proof -
  let ?w0 = "w\<lparr>currentlyProcessing := insert i (currentlyProcessing w)\<rparr>"
  from none have n0: "findIndex (\<lambda>m. lawmaticsID m = i) (mapFile ?w0) = None" by simp
  then have u: "\<And>s. updateMatterStatus E i s ?w0 = (False, ?w0)"
    by (rule updateMatterStatus_missing)
  from n0 have e: "getMattersByIds [i] ?w0 = []"
    by (simp add: getMattersByIds_single findIndex_None)
  have t: "processSingleMatter_try E i ?w0 = (Inr matterNotFound, ?w0)"
    by (simp add: processSingleMatter_try_def u e matterNotFound_def)
  from free have "insert i (currentlyProcessing w) - {i} = currentlyProcessing w" by auto
  with free t show ?thesis by (simp add: processSingleMatter_def)
qed

text \<open>The \<open>try\<close> block leaves the in-flight set alone; the \<open>finally\<close> block restores it.\<close>

lemma processSingleMatter_try_inflight:
  "currentlyProcessing (snd (processSingleMatter_try E i w)) = currentlyProcessing w"
proof -
  let ?w1 = "snd (updateMatterStatus E i ''Processing...'' w)"
  have c1: "currentlyProcessing ?w1 = currentlyProcessing w"
    by (simp add: updateMatterStatus_frame)
  show ?thesis
  proof (cases "getMattersByIds [i] ?w1 = []")
    case True
    then have "snd (processSingleMatter_try E i w)
        = snd (updateMatterStatus E i ''Failed - Not Found'' ?w1)"
      by (simp add: processSingleMatter_try_def split_def)
    then show ?thesis by (simp add: updateMatterStatus_frame)
  next
    case False
    obtain r st1 w2 where pm:
      "Googlecron_processMatter E (hd (getMattersByIds [i] ?w1)) (stateFile ?w1) (getTodayDateKey E) ?w1
         = (r, st1, w2)"
      by (cases "Googlecron_processMatter E (hd (getMattersByIds [i] ?w1)) (stateFile ?w1)
                   (getTodayDateKey E) ?w1")
    from Googlecron_processMatter_quiet [OF pm] have c2: "currentlyProcessing w2 = currentlyProcessing ?w1"
      by (simp add: quiet_def)
    show ?thesis
    proof (cases r)
      case (Inl e)
      with False pm have "snd (processSingleMatter_try E i w) = w2"
        by (simp add: processSingleMatter_try_def split_def Let_def)
      with c1 c2 show ?thesis by simp
    next
      case (Inr result)
      with False pm have "snd (processSingleMatter_try E i w)
          = snd (updateMatterStatus E i
                   (if processed result then ''Automation Completed'' else ''No Updates Found'')
                   (w2\<lparr>stateFile := st1\<rparr>))"
        by (simp add: processSingleMatter_try_def split_def Let_def)
      with c1 c2 show ?thesis by (simp add: updateMatterStatus_frame)
    qed
  qed
qed

lemma processSingleMatter_inflight:
  assumes free: "i \<notin> currentlyProcessing w"
  shows "currentlyProcessing (snd (processSingleMatter E i w)) = currentlyProcessing w"
proof -
  let ?w0 = "w\<lparr>currentlyProcessing := insert i (currentlyProcessing w)\<rparr>"
  obtain t w1 where tr: "processSingleMatter_try E i ?w0 = (t, w1)"
    by (cases "processSingleMatter_try E i ?w0")
  from processSingleMatter_try_inflight [of E i ?w0] tr
  have c1: "currentlyProcessing w1 = insert i (currentlyProcessing w)" by simp
  show ?thesis
  proof (cases t)
    case (Inr r)
    with free tr c1 show ?thesis by (auto simp: processSingleMatter_def)
  next
    case (Inl e)
    obtain msg where e: "e = Error msg" by (cases e)
    have "currentlyProcessing (snd (updateMatterStatus E i ''Failed'' w1)) = insert i (currentlyProcessing w)"
      by (simp add: updateMatterStatus_frame c1)
    with free tr Inl e show ?thesis by (auto simp: processSingleMatter_def split_def)
  qed
qed

text \<open>
  What \<open>processMatter\<close> of \<open>Googlecron.js\<close> reports, read off the history: it reports a
  processed document exactly when it assigned the processed state, and it reports that
  nothing was processed exactly when no document entered the chain.
\<close>

lemma Googlecron_processMatter_report:
  assumes run: "Googlecron_processMatter E m st today w = (r, st', w')"
  shows "(\<exists>res. r = Inr res \<and> processed res) = (stateWrites (trace w') \<noteq> stateWrites (trace w))"
    and "(\<exists>res. r = Inr res \<and> \<not> processed res) = (pipelineStarts (trace w') = pipelineStarts (trace w))"
proof -
  from Googlecron_processMatter_events [OF run] obtain es where
    tr: "trace w' = trace w @ es"
    and sw: "length (stateWrites es) = (case r of Inl e \<Rightarrow> 0 | Inr res \<Rightarrow> if processed res then 1 else 0)"
    and ps: "length (pipelineStarts es) = (case r of Inl e \<Rightarrow> 1 | Inr res \<Rightarrow> if processed res then 1 else 0)"
    by blast
  from sw show "(\<exists>res. r = Inr res \<and> processed res) = (stateWrites (trace w') \<noteq> stateWrites (trace w))"
    by (cases r) (auto simp: tr split: if_splits)
  from ps show "(\<exists>res. r = Inr res \<and> \<not> processed res) = (pipelineStarts (trace w') = pipelineStarts (trace w))"
    by (cases r) (auto simp: tr split: if_splits)
qed

text \<open>
  An attempt on a registered identifier that is not in flight, with a \<open>map.json\<close> that
  can be written: two status writes, the second one decided by how the call of
  \<open>processMatter\<close> ended, and the matter carries it when the attempt ends.
\<close>

lemma processSingleMatter_status:
  assumes free: "i \<notin> currentlyProcessing w"
    and some: "findIndex (\<lambda>m. lawmaticsID m = i) (mapFile w) = Some k"
    and writable: "\<forall>h. \<not> mapWriteFails E h"
    and po: "pipelineOutcome E i w = (r, st1, w2)"
    and run: "processSingleMatter E i w = (res, w')"
  shows "status (mapFile (markedWorld E i w) ! k) = Some ''Processing...''
    \<and> statusWrites (trace (markedWorld E i w)) = statusWrites (trace w) @ [(i, ''Processing...'')]
    \<and> statusWrites (trace w2) = statusWrites (trace (markedWorld E i w))
    \<and> statusWrites (trace w')
        = statusWrites (trace w)
          @ [(i, ''Processing...''),
             (i, case r of Inl e \<Rightarrow> ''Failed''
                 | Inr result \<Rightarrow> if processed result then ''Automation Completed'' else ''No Updates Found'')]
    \<and> lawmaticsID (mapFile w' ! k) = i
    \<and> status (mapFile w' ! k)
        = Some (case r of Inl e \<Rightarrow> ''Failed''
                | Inr result \<Rightarrow> if processed result then ''Automation Completed'' else ''No Updates Found'')
    \<and> res = (case r of
               Inl e \<Rightarrow> \<lparr>success = False, message = (case e of Error msg \<Rightarrow> msg), processedFlag = None\<rparr>
             | Inr result \<Rightarrow>
                 \<lparr>success = True,
                  message = (if processed result then ''New document processed''
                             else ''No new documents found''),
                  processedFlag = Some (processed result)\<rparr>)"
proof -
  let ?w0 = "w\<lparr>currentlyProcessing := insert i (currentlyProcessing w)\<rparr>"
  let ?P = "\<lambda>m. lawmaticsID m = i"
  let ?w1 = "markedWorld E i w"
  from writable have wr: "\<And>h. \<not> mapWriteFails E h" by simp
  from some have s0: "findIndex ?P (mapFile ?w0) = Some k" by simp
  have w1: "?w1 = snd (updateMatterStatus E i ''Processing...'' ?w0)"
    by (simp add: markedWorld_def)
  then have up1: "updateMatterStatus E i ''Processing...'' ?w0
      = (fst (updateMatterStatus E i ''Processing...'' ?w0), ?w1)"
    by simp
  have ids1: "map lawmaticsID (mapFile ?w1) = map lawmaticsID (mapFile w)"
    unfolding w1 by (simp add: updateMatterStatus_ids)
  then have s1: "findIndex ?P (mapFile ?w1) = Some k"
    using findIndex_ids [OF ids1, of i] some by simp
  have st1: "status (mapFile ?w1 ! k) = Some ''Processing...''"
    unfolding w1 using updateMatterStatus_status(1) [OF s0 wr] by simp
  have sw1: "statusWrites (trace ?w1) = statusWrites (trace w) @ [(i, ''Processing...'')]"
    unfolding w1 using updateMatterStatus_status(3) [OF s0 wr] by simp
  from findIndex_Some [OF s1] have ne: "getMattersByIds [i] ?w1 \<noteq> []"
    using s1 by (auto simp: getMattersByIds_single findIndex_None [symmetric])
  from po have pm:
    "Googlecron_processMatter E (hd (getMattersByIds [i] ?w1)) (stateFile ?w1) (getTodayDateKey E) ?w1
       = (r, st1, w2)"
    by (simp add: pipelineOutcome_def Let_def)
  from Googlecron_processMatter_quiet [OF pm]
  have q: "mapFile w2 = mapFile ?w1" "statusWrites (trace w2) = statusWrites (trace ?w1)"
    by (simp_all add: quiet_def)
  show ?thesis
  proof (cases r)
    case (Inl e)
    obtain msg where e: "e = Error msg" by (cases e)
    let ?wf = "snd (updateMatterStatus E i ''Failed'' w2)"
    from s1 q have s2: "findIndex ?P (mapFile w2) = Some k" by simp
    have t: "processSingleMatter_try E i ?w0 = (Inl (Error msg), w2)"
      using up1 ne pm Inl e
      by (simp add: processSingleMatter_try_def Let_def split_def w1 [symmetric])
    have res: "res = \<lparr>success = False, message = msg, processedFlag = None\<rparr>"
      and w': "w' = ?wf\<lparr>currentlyProcessing := currentlyProcessing ?wf - {i}\<rparr>"
      using run free t by (simp_all add: processSingleMatter_def split_def)
    from updateMatterStatus_status [OF s2 wr, of "''Failed''"] st1 sw1 q res Inl e
    show ?thesis by (simp add: w')
  next
    case (Inr result)
    let ?fs = "if processed result then ''Automation Completed'' else ''No Updates Found''"
    let ?w3 = "w2\<lparr>stateFile := st1\<rparr>"
    let ?wf = "snd (updateMatterStatus E i ?fs ?w3)"
    from s1 q have s3: "findIndex ?P (mapFile ?w3) = Some k" by simp
    have t: "processSingleMatter_try E i ?w0 =
        (Inr \<lparr>success = True,
              message = (if processed result then ''New document processed''
                         else ''No new documents found''),
              processedFlag = Some (processed result)\<rparr>, ?wf)"
      using up1 ne pm Inr
      by (simp add: processSingleMatter_try_def Let_def split_def w1 [symmetric])
    have res: "res = \<lparr>success = True,
              message = (if processed result then ''New document processed''
                         else ''No new documents found''),
              processedFlag = Some (processed result)\<rparr>"
      and w': "w' = ?wf\<lparr>currentlyProcessing := currentlyProcessing ?wf - {i}\<rparr>"
      using run free t by (simp_all add: processSingleMatter_def split_def)
    have wr3: "\<not> mapWriteFails E (trace ?w3)" by (simp add: wr)
    from updateMatterStatus_status [OF s3 wr3, of ?fs] st1 sw1 q res Inr
    show ?thesis by (simp add: w')
  qed
qed

section \<open>A targeted batch\<close>

lemma batchStep_rejected:
  "lawmaticsID m \<in> currentlyProcessing w \<Longrightarrow>
   batchStep E m st today rs n w = (rs @ [(lawmaticsID m, alreadyProcessingInBatch)], n, st, w)"
  by (simp add: batchStep_def alreadyProcessingInBatch_def)

lemma batchStep_started:
  assumes free: "lawmaticsID m \<notin> currentlyProcessing w"
    and step: "batchStep E m st today rs n w = (rs', n', st', w')"
  shows "\<exists>res. rs' = rs @ [(lawmaticsID m, res)]
      \<and> n' = (if processedFlag res = Some True then n + 1 else n)
      \<and> currentlyProcessing w' = currentlyProcessing w
      \<and> confirmations (trace w') = confirmations (trace w)
      \<and> map lawmaticsID (mapFile w') = map lawmaticsID (mapFile w)
      \<and> registryRequests (trace w')
          = registryRequests (trace (snd (snd (Googlecron_processMatter E m st today
               (w\<lparr>currentlyProcessing := insert (lawmaticsID m) (currentlyProcessing w)\<rparr>)))))"
proof -
  let ?i = "lawmaticsID m"
  let ?w0 = "w\<lparr>currentlyProcessing := insert ?i (currentlyProcessing w)\<rparr>"
  obtain r st1 w1 where pm: "Googlecron_processMatter E m st today ?w0 = (r, st1, w1)"
    by (cases "Googlecron_processMatter E m st today ?w0")
  from Googlecron_processMatter_quiet [OF pm]
  have q: "mapFile w1 = mapFile w" "currentlyProcessing w1 = insert ?i (currentlyProcessing w)"
    "confirmations (trace w1) = confirmations (trace w)"
    by (simp_all add: quiet_def)
  have cp: "\<And>s. currentlyProcessing (snd (updateMatterStatus E ?i s w1)) - {?i} = currentlyProcessing w"
    using free by (auto simp: updateMatterStatus_frame q)
  show ?thesis
  proof (cases r)
    case (Inl e)
    obtain msg where e: "e = Error msg" by (cases e)
    let ?wf = "snd (updateMatterStatus E ?i ''Failed'' w1)"
    from step free pm Inl e
    have "rs' = rs @ [(?i, \<lparr>success = False, message = msg, processedFlag = None\<rparr>)]"
      and "n' = n"
      and "w' = ?wf\<lparr>currentlyProcessing := currentlyProcessing ?wf - {?i}\<rparr>"
      by (simp_all add: batchStep_def Let_def split_def)
    then show ?thesis
      using cp [of "''Failed''"] updateMatterStatus_ids [of E ?i "''Failed''" w1] pm
      by (simp add: updateMatterStatus_frame q)
  next
    case (Inr result)
    let ?fs = "if processed result then ''Automation Completed'' else ''No Updates Found''"
    let ?wf = "snd (updateMatterStatus E ?i ?fs w1)"
    from step free pm Inr
    have "rs' = rs @ [(?i, \<lparr>success = True,
                          message = (if processed result then ''New document processed''
                                     else ''No new documents''),
                          processedFlag = Some (processed result)\<rparr>)]"
      and "n' = (if processed result then n + 1 else n)"
      and "w' = ?wf\<lparr>currentlyProcessing := currentlyProcessing ?wf - {?i}\<rparr>"
      by (simp_all add: batchStep_def Let_def split_def)
    then show ?thesis
      using cp [of ?fs] updateMatterStatus_ids [of E ?i ?fs w1] pm
      by (simp add: updateMatterStatus_frame q)
  qed
qed

text \<open>Both cases of a step together.\<close>

lemma batchStep_result:
  assumes step: "batchStep E m st today rs n w = (rs', n', st', w')"
  shows "\<exists>res. rs' = rs @ [(lawmaticsID m, res)]
      \<and> (lawmaticsID m \<in> currentlyProcessing w \<longrightarrow> res = alreadyProcessingInBatch)
      \<and> n' = (if processedFlag res = Some True then n + 1 else n)
      \<and> currentlyProcessing w' = currentlyProcessing w
      \<and> confirmations (trace w') = confirmations (trace w)
      \<and> map lawmaticsID (mapFile w') = map lawmaticsID (mapFile w)"
proof (cases "lawmaticsID m \<in> currentlyProcessing w")
  case True
  with step batchStep_rejected [OF True, of E st today rs n]
  show ?thesis by (auto simp: alreadyProcessingInBatch_def)
next
  case False
  from batchStep_started [OF False step] False show ?thesis by blast
qed

lemma processedResults_snoc:
  "processedResults (rs @ [(i, res)])
     = (if processedFlag res = Some True then processedResults rs + 1 else processedResults rs)"
  by (simp add: processedResults_def)

lemma batchLoop_result:
  "batchLoop E ms st today rs n w = (rs', n', st', w') \<Longrightarrow>
   \<exists>new. rs' = rs @ new
      \<and> list_all2 (\<lambda>m r. fst r = lawmaticsID m
            \<and> (lawmaticsID m \<in> currentlyProcessing w \<longrightarrow> snd r = alreadyProcessingInBatch)) ms new
      \<and> (n = processedResults rs \<longrightarrow> n' = processedResults rs')
      \<and> currentlyProcessing w' = currentlyProcessing w
      \<and> confirmations (trace w') = confirmations (trace w)
      \<and> map lawmaticsID (mapFile w') = map lawmaticsID (mapFile w)"
proof (induction ms arbitrary: st rs n w)
  case Nil
  then show ?case by simp
next
  case (Cons m ms)
  obtain rs1 n1 st1 w1 where step: "batchStep E m st today rs n w = (rs1, n1, st1, w1)"
    by (cases "batchStep E m st today rs n w") auto
  with Cons.prems have rest: "batchLoop E ms st1 today rs1 n1 w1 = (rs', n', st', w')"
    by simp
  from batchStep_result [OF step] obtain res where
    rs1: "rs1 = rs @ [(lawmaticsID m, res)]"
    and rej: "lawmaticsID m \<in> currentlyProcessing w \<longrightarrow> res = alreadyProcessingInBatch"
    and n1: "n1 = (if processedFlag res = Some True then n + 1 else n)"
    and cp1: "currentlyProcessing w1 = currentlyProcessing w"
    and cf1: "confirmations (trace w1) = confirmations (trace w)"
    and id1: "map lawmaticsID (mapFile w1) = map lawmaticsID (mapFile w)"
    by blast
  from Cons.IH [OF rest] obtain new where
    rs': "rs' = rs1 @ new"
    and all: "list_all2 (\<lambda>m r. fst r = lawmaticsID m
            \<and> (lawmaticsID m \<in> currentlyProcessing w1 \<longrightarrow> snd r = alreadyProcessingInBatch)) ms new"
    and cnt: "n1 = processedResults rs1 \<longrightarrow> n' = processedResults rs'"
    and cp: "currentlyProcessing w' = currentlyProcessing w1"
    and cf: "confirmations (trace w') = confirmations (trace w1)"
    and ids: "map lawmaticsID (mapFile w') = map lawmaticsID (mapFile w1)"
    by blast
  have "rs' = rs @ ((lawmaticsID m, res) # new)" by (simp add: rs' rs1)
  moreover have "list_all2 (\<lambda>m r. fst r = lawmaticsID m
            \<and> (lawmaticsID m \<in> currentlyProcessing w \<longrightarrow> snd r = alreadyProcessingInBatch))
        (m # ms) ((lawmaticsID m, res) # new)"
    using all rej by (simp add: cp1)
  moreover have "n = processedResults rs \<longrightarrow> n' = processedResults rs'"
    using cnt n1 by (simp add: rs1 processedResults_snoc)
  ultimately show ?case using cp cf ids cp1 cf1 id1 by auto
qed

lemma markProcessing_frame:
  "currentlyProcessing (markProcessing E ms w) = currentlyProcessing w
   \<and> confirmations (trace (markProcessing E ms w)) = confirmations (trace w)
   \<and> stateFile (markProcessing E ms w) = stateFile w
   \<and> map lawmaticsID (mapFile (markProcessing E ms w)) = map lawmaticsID (mapFile w)"
  by (induction ms arbitrary: w) (simp_all add: updateMatterStatus_frame updateMatterStatus_ids)

text \<open>The two ways \<open>processMultipleMatters\<close> can go.\<close>

lemma processMultipleMatters_none:
  "getMattersByIds ids w = [] \<Longrightarrow>
   processMultipleMatters E ids w =
     (\<lparr>batchSuccess = False, batchMessage = Some ''No valid matters found'', total = 0,
       successful = 0, processedTotal = 0, results = []\<rparr>, w)"
  by (simp add: processMultipleMatters_def)

lemma processMultipleMatters_some:
  assumes ne: "getMattersByIds ids w \<noteq> []"
    and run: "processMultipleMatters E ids w = (res, w')"
  shows "list_all2 (\<lambda>m r. fst r = lawmaticsID m
            \<and> (lawmaticsID m \<in> currentlyProcessing w \<longrightarrow> snd r = alreadyProcessingInBatch))
          (getMattersByIds ids w) (results res)
     \<and> processedTotal res = processedResults (results res)
     \<and> total res = length (getMattersByIds ids w)
     \<and> batchSuccess res
     \<and> currentlyProcessing w' = currentlyProcessing w
     \<and> confirmations (trace w')
         = confirmations (trace w)
           @ (if processedTotal res = 0 then [(0, length (getMattersByIds ids w))] else [])"
proof -
  let ?ms = "getMattersByIds ids w"
  let ?w1 = "markProcessing E ?ms w"
  obtain rs n st1 w2 where loop:
    "batchLoop E ?ms (stateFile w) (getTodayDateKey E) [] 0 ?w1 = (rs, n, st1, w2)"
    by (cases "batchLoop E ?ms (stateFile w) (getTodayDateKey E) [] 0 ?w1") auto
  from batchLoop_result [OF loop] markProcessing_frame [of E ?ms w]
  have all: "list_all2 (\<lambda>m r. fst r = lawmaticsID m
            \<and> (lawmaticsID m \<in> currentlyProcessing w \<longrightarrow> snd r = alreadyProcessingInBatch)) ?ms rs"
    and cnt: "n = processedResults rs"
    and cp: "currentlyProcessing w2 = currentlyProcessing w"
    and cf: "confirmations (trace w2) = confirmations (trace w)"
    by (auto simp: processedResults_def)
  let ?w3 = "w2\<lparr>stateFile := st1\<rparr>"
  from run ne loop have res: "res = \<lparr>batchSuccess = True, batchMessage = None, total = length ?ms,
        successful = length (filter (\<lambda>r. success (snd r)) rs), processedTotal = n, results = rs\<rparr>"
    and w': "w' = (if n = 0 then sendConfirmationEmail E n (length ?ms) ?w3 else ?w3)"
    by (simp_all add: processMultipleMatters_def Let_def)
  from all cnt cp cf show ?thesis
    by (simp add: res w' sendConfirmationEmail_def)
qed

text \<open>
  The processed count against the history. Each step of the loop extends the history;
  the count grows by the number of assignments to the processed state that the step
  made, and a step makes no more assignments than it starts documents.
\<close>

lemma batchStep_events:
  assumes step: "batchStep E m st today rs n w = (rs', n', st', w')"
  shows "\<exists>es. trace w' = trace w @ es \<and> n' = n + length (stateWrites es)
      \<and> length (stateWrites es) \<le> length (pipelineStarts es)"
proof (cases "lawmaticsID m \<in> currentlyProcessing w")
  case True
  from step batchStep_rejected [OF True, of E st today rs n] show ?thesis by simp
next
  case free: False
  let ?i = "lawmaticsID m"
  let ?w0 = "w\<lparr>currentlyProcessing := insert ?i (currentlyProcessing w)\<rparr>"
  obtain r st1 w1 where pm: "Googlecron_processMatter E m st today ?w0 = (r, st1, w1)"
    by (cases "Googlecron_processMatter E m st today ?w0")
  from Googlecron_processMatter_events [OF pm] obtain es1 where
    tr1: "trace w1 = trace w @ es1"
    and sw: "length (stateWrites es1) = (case r of Inl e \<Rightarrow> 0 | Inr res \<Rightarrow> if processed res then 1 else 0)"
    and ps: "length (pipelineStarts es1) = (case r of Inl e \<Rightarrow> 1 | Inr res \<Rightarrow> if processed res then 1 else 0)"
    by auto
  show ?thesis
  proof (cases r)
    case (Inl e)
    obtain msg where e: "e = Error msg" by (cases e)
    let ?wf = "snd (updateMatterStatus E ?i ''Failed'' w1)"
    from step free pm Inl e
    have n': "n' = n" and w': "trace w' = trace ?wf"
      by (auto simp: batchStep_def Let_def split_def)
    from updateMatterStatus_events [of E ?i "''Failed''" w1] obtain es2 where
      "trace ?wf = trace w1 @ es2" "stateWrites es2 = []" "pipelineStarts es2 = []"
      by blast
    with tr1 sw ps Inl n' w'
    have "trace w' = trace w @ (es1 @ es2) \<and> n' = n + length (stateWrites (es1 @ es2))
      \<and> length (stateWrites (es1 @ es2)) \<le> length (pipelineStarts (es1 @ es2))"
      by simp
    then show ?thesis by blast
  next
    case (Inr result)
    let ?fs = "if processed result then ''Automation Completed'' else ''No Updates Found''"
    let ?wf = "snd (updateMatterStatus E ?i ?fs w1)"
    from step free pm Inr
    have n': "n' = (if processed result then n + 1 else n)" and w': "trace w' = trace ?wf"
      by (auto simp: batchStep_def Let_def split_def)
    from updateMatterStatus_events [of E ?i ?fs w1] obtain es2 where
      "trace ?wf = trace w1 @ es2" "stateWrites es2 = []" "pipelineStarts es2 = []"
      by blast
    with tr1 sw ps Inr n' w'
    have "trace w' = trace w @ (es1 @ es2) \<and> n' = n + length (stateWrites (es1 @ es2))
      \<and> length (stateWrites (es1 @ es2)) \<le> length (pipelineStarts (es1 @ es2))"
      by simp
    then show ?thesis by blast
  qed
qed

lemma batchLoop_events:
  "batchLoop E ms st today rs n w = (rs', n', st', w') \<Longrightarrow>
   \<exists>es. trace w' = trace w @ es \<and> n' = n + length (stateWrites es)
      \<and> length (stateWrites es) \<le> length (pipelineStarts es)"
proof (induction ms arbitrary: st rs n w)
  case Nil
  then show ?case by simp
next
  case (Cons m ms)
  obtain rs1 n1 st1 w1 where step: "batchStep E m st today rs n w = (rs1, n1, st1, w1)"
    by (cases "batchStep E m st today rs n w") auto
  with Cons.prems have rest: "batchLoop E ms st1 today rs1 n1 w1 = (rs', n', st', w')"
    by simp
  from batchStep_events [OF step] obtain es1 where
    a: "trace w1 = trace w @ es1" "n1 = n + length (stateWrites es1)"
      "length (stateWrites es1) \<le> length (pipelineStarts es1)"
    by blast
  from Cons.IH [OF rest] obtain es2 where
    b: "trace w' = trace w1 @ es2" "n' = n1 + length (stateWrites es2)"
      "length (stateWrites es2) \<le> length (pipelineStarts es2)"
    by blast
  from a b have "trace w' = trace w @ (es1 @ es2) \<and> n' = n + length (stateWrites (es1 @ es2))
      \<and> length (stateWrites (es1 @ es2)) \<le> length (pipelineStarts (es1 @ es2))"
    by simp
  then show ?case by blast
qed

lemma markProcessing_events:
  "\<exists>es. trace (markProcessing E ms w) = trace w @ es \<and> stateWrites es = [] \<and> pipelineStarts es = []"
proof (induction ms arbitrary: w)
  case Nil
  then show ?case by simp
next
  case (Cons m ms)
  let ?w1 = "snd (updateMatterStatus E (lawmaticsID m) ''Processing...'' w)"
  from updateMatterStatus_events [of E "lawmaticsID m" "''Processing...''" w] obtain es1 where
    a: "trace ?w1 = trace w @ es1" "stateWrites es1 = []" "pipelineStarts es1 = []"
    by blast
  from Cons.IH [of ?w1] obtain es2 where
    b: "trace (markProcessing E ms ?w1) = trace ?w1 @ es2" "stateWrites es2 = []" "pipelineStarts es2 = []"
    by blast
  from a b have "trace (markProcessing E (m # ms) w) = trace w @ (es1 @ es2)
      \<and> stateWrites (es1 @ es2) = [] \<and> pipelineStarts (es1 @ es2) = []"
    by simp
  then show ?case by blast
qed

text \<open>
  The count that \<open>processMultipleMatters\<close> tests before it sends the confirmation is the
  number of assignments to the processed state that the batch made.
\<close>

lemma processMultipleMatters_events:
  assumes ne: "getMattersByIds ids w \<noteq> []"
    and run: "processMultipleMatters E ids w = (res, w')"
  shows "\<exists>es. trace w' = trace w @ es \<and> processedTotal res = length (stateWrites es)
      \<and> length (stateWrites es) \<le> length (pipelineStarts es)"
proof -
  let ?ms = "getMattersByIds ids w"
  let ?w1 = "markProcessing E ?ms w"
  obtain rs n st1 w2 where loop:
    "batchLoop E ?ms (stateFile w) (getTodayDateKey E) [] 0 ?w1 = (rs, n, st1, w2)"
    by (cases "batchLoop E ?ms (stateFile w) (getTodayDateKey E) [] 0 ?w1") auto
  from markProcessing_events [of E ?ms w] obtain es1 where
    a: "trace ?w1 = trace w @ es1" "stateWrites es1 = []" "pipelineStarts es1 = []"
    by blast
  from batchLoop_events [OF loop] obtain es2 where
    b: "trace w2 = trace ?w1 @ es2" "n = 0 + length (stateWrites es2)"
      "length (stateWrites es2) \<le> length (pipelineStarts es2)"
    by blast
  let ?w3 = "w2\<lparr>stateFile := st1\<rparr>"
  from run ne loop have res: "processedTotal res = n"
    and w': "w' = (if n = 0 then sendConfirmationEmail E n (length ?ms) ?w3 else ?w3)"
    by (auto simp: processMultipleMatters_def Let_def)
  let ?es3 = "if n = 0 then [ConfirmationMail n (length ?ms)] else []"
  from w' have c: "trace w' = trace w2 @ ?es3"
    by (simp add: sendConfirmationEmail_def)
  from a b c res
  have "trace w' = trace w @ (es1 @ es2 @ ?es3)
      \<and> processedTotal res = length (stateWrites (es1 @ es2 @ ?es3))
      \<and> length (stateWrites (es1 @ es2 @ ?es3)) \<le> length (pipelineStarts (es1 @ es2 @ ?es3))"
    by simp
  then show ?thesis by blast
qed

section \<open>The in-flight guard\<close>

lemmas world_defs = busyWorld_def upToDateWorld_def twoMatters_def emptyWorld_def

text \<open>
  C5. An attempt on an identifier that is in the in-flight set returns the
  already-being-processed result at once: nothing is called and the world is unchanged
  (\<open>processSingleMatter\<close>), or the result is appended and the batch goes on with the
  world unchanged (the loop body of \<open>processMultipleMatters\<close>). An attempt on an
  identifier that is not in the set leaves the set as it found it, so the identifier is
  out of the set when the attempt ends, whatever the environment did: success, no new
  document, unknown matter, exception. A whole batch leaves the set as it found it and
  returns one result per matter, in order, the rejection for each matter in flight.
\<close>

theorem inflight_guard:
  "(i \<in> currentlyProcessing w \<longrightarrow> processSingleMatter E i w = (alreadyProcessing, w))
   \<and> (i \<notin> currentlyProcessing w \<longrightarrow>
        currentlyProcessing (snd (processSingleMatter E i w)) = currentlyProcessing w
        \<and> i \<notin> currentlyProcessing (snd (processSingleMatter E i w)))
   \<and> (lawmaticsID m \<in> currentlyProcessing w \<longrightarrow>
        batchStep E m st today rs n w = (rs @ [(lawmaticsID m, alreadyProcessingInBatch)], n, st, w))
   \<and> (lawmaticsID m \<notin> currentlyProcessing w \<longrightarrow>
        currentlyProcessing (snd (snd (snd (batchStep E m st today rs n w)))) = currentlyProcessing w
        \<and> lawmaticsID m \<notin> currentlyProcessing (snd (snd (snd (batchStep E m st today rs n w)))))
   \<and> currentlyProcessing (snd (processMultipleMatters E ids w)) = currentlyProcessing w
   \<and> list_all2 (\<lambda>m r. fst r = lawmaticsID m
          \<and> (lawmaticsID m \<in> currentlyProcessing w \<longrightarrow> snd r = alreadyProcessingInBatch))
        (getMattersByIds ids w) (results (fst (processMultipleMatters E ids w)))"
proof (intro conjI impI)
  assume "i \<in> currentlyProcessing w"
  then show "processSingleMatter E i w = (alreadyProcessing, w)"
    by (rule processSingleMatter_rejected)
next
  assume free: "i \<notin> currentlyProcessing w"
  obtain res w' where run: "processSingleMatter E i w = (res, w')"
    by (cases "processSingleMatter E i w")
  from processSingleMatter_inflight [OF free, of E] run
  have "currentlyProcessing w' = currentlyProcessing w" by simp
  with run free show "currentlyProcessing (snd (processSingleMatter E i w)) = currentlyProcessing w"
    and "i \<notin> currentlyProcessing (snd (processSingleMatter E i w))"
    by simp_all
next
  assume "lawmaticsID m \<in> currentlyProcessing w"
  then show "batchStep E m st today rs n w
      = (rs @ [(lawmaticsID m, alreadyProcessingInBatch)], n, st, w)"
    by (rule batchStep_rejected)
next
  assume free: "lawmaticsID m \<notin> currentlyProcessing w"
  obtain rs' n' st' w' where step: "batchStep E m st today rs n w = (rs', n', st', w')"
    by (cases "batchStep E m st today rs n w") auto
  from batchStep_started [OF free step] have "currentlyProcessing w' = currentlyProcessing w"
    by blast
  with step free
  show "currentlyProcessing (snd (snd (snd (batchStep E m st today rs n w)))) = currentlyProcessing w"
    and "lawmaticsID m \<notin> currentlyProcessing (snd (snd (snd (batchStep E m st today rs n w))))"
    by simp_all
next
  obtain res w' where run: "processMultipleMatters E ids w = (res, w')"
    by (cases "processMultipleMatters E ids w")
  have "currentlyProcessing w' = currentlyProcessing w
      \<and> list_all2 (\<lambda>m r. fst r = lawmaticsID m
          \<and> (lawmaticsID m \<in> currentlyProcessing w \<longrightarrow> snd r = alreadyProcessingInBatch))
        (getMattersByIds ids w) (results res)"
  proof (cases "getMattersByIds ids w = []")
    case True
    from processMultipleMatters_none [OF True, of E] run True show ?thesis by auto
  next
    case False
    from processMultipleMatters_some [OF False run] show ?thesis by blast
  qed
  with run show "currentlyProcessing (snd (processMultipleMatters E ids w)) = currentlyProcessing w"
    and "list_all2 (\<lambda>m r. fst r = lawmaticsID m
          \<and> (lawmaticsID m \<in> currentlyProcessing w \<longrightarrow> snd r = alreadyProcessingInBatch))
        (getMattersByIds ids w) (results (fst (processMultipleMatters E ids w)))"
    by simp_all
qed

theorem inflight_guard_witness:
  "processSingleMatter calmEnv ''L1'' busyWorld = (alreadyProcessing, busyWorld)
   \<and> success (fst (processSingleMatter noBrowserEnv ''L1'' twoMatters)) = False
   \<and> message (fst (processSingleMatter noBrowserEnv ''L1'' twoMatters))
       = ''Cannot read properties of null (reading close)''
   \<and> ''L1'' \<notin> currentlyProcessing (snd (processSingleMatter noBrowserEnv ''L1'' twoMatters))
   \<and> ''L1'' \<notin> currentlyProcessing (snd (processSingleMatter calmEnv ''L1'' twoMatters))
   \<and> batchStep calmEnv trademarkA Map.empty ''2024-03-01'' [] 0 busyWorld
       = ([(''L1'', alreadyProcessingInBatch)], 0, Map.empty, busyWorld)
   \<and> ''L2'' \<notin> currentlyProcessing
        (snd (snd (snd (batchStep noBrowserEnv patentB Map.empty ''2024-03-01'' [] 0 busyWorld))))
   \<and> currentlyProcessing (snd (processMultipleMatters noBrowserEnv [''L1'', ''L2''] busyWorld)) = {''L1''}
   \<and> map fst (results (fst (processMultipleMatters noBrowserEnv [''L1'', ''L2''] busyWorld)))
       = [''L1'', ''L2'']
   \<and> snd (hd (results (fst (processMultipleMatters noBrowserEnv [''L1'', ''L2''] busyWorld))))
       = alreadyProcessingInBatch"
proof -
  have busy: "''L1'' \<in> currentlyProcessing busyWorld"
    "lawmaticsID trademarkA \<in> currentlyProcessing busyWorld"
    "lawmaticsID patentB \<notin> currentlyProcessing busyWorld"
    by (simp_all add: world_defs trademarkA_def patentB_def)
  have cpb: "currentlyProcessing busyWorld = {''L1''}"
    by (simp add: world_defs)
  have free: "''L1'' \<notin> currentlyProcessing twoMatters"
    by (simp add: world_defs)
  have ids: "lawmaticsID trademarkA = ''L1''" "lawmaticsID patentB = ''L2''"
    by (simp_all add: trademarkA_def patentB_def)
  have ms: "getMattersByIds [''L1'', ''L2''] busyWorld = [trademarkA, patentB]"
    by (simp add: getMattersByIds_def world_defs trademarkA_def patentB_def)
  have ex: "fst (processSingleMatter noBrowserEnv ''L1'' twoMatters)
      = \<lparr>success = False, message = ''Cannot read properties of null (reading close)'',
         processedFlag = None\<rparr>"
    by (simp add: run_defs model_defs example_defs example_dates)
  note g1 = inflight_guard [where i = "''L1''" and w = busyWorld and E = calmEnv
      and m = trademarkA and st = Map.empty and today = "''2024-03-01''" and rs = "[]" and n = 0
      and ids = "[''L1'', ''L2'']"]
  note g2 = inflight_guard [where i = "''L1''" and w = twoMatters and E = noBrowserEnv
      and m = trademarkA and st = Map.empty and today = "''2024-03-01''" and rs = "[]" and n = 0
      and ids = "[''L1'', ''L2'']"]
  note g3 = inflight_guard [where i = "''L1''" and w = twoMatters and E = calmEnv
      and m = trademarkA and st = Map.empty and today = "''2024-03-01''" and rs = "[]" and n = 0
      and ids = "[''L1'', ''L2'']"]
  note g4 = inflight_guard [where i = "''L1''" and w = busyWorld and E = noBrowserEnv
      and m = patentB and st = Map.empty and today = "''2024-03-01''" and rs = "[]" and n = 0
      and ids = "[''L1'', ''L2'']"]
  from g1 busy(1)
  have a: "processSingleMatter calmEnv ''L1'' busyWorld = (alreadyProcessing, busyWorld)"
    by blast
  from g2 free
  have b: "''L1'' \<notin> currentlyProcessing (snd (processSingleMatter noBrowserEnv ''L1'' twoMatters))"
    by blast
  from g3 free
  have c: "''L1'' \<notin> currentlyProcessing (snd (processSingleMatter calmEnv ''L1'' twoMatters))"
    by blast
  from g1 busy(2)
  have "batchStep calmEnv trademarkA Map.empty ''2024-03-01'' [] 0 busyWorld
       = ([] @ [(lawmaticsID trademarkA, alreadyProcessingInBatch)], 0, Map.empty, busyWorld)"
    by blast
  then have d: "batchStep calmEnv trademarkA Map.empty ''2024-03-01'' [] 0 busyWorld
       = ([(''L1'', alreadyProcessingInBatch)], 0, Map.empty, busyWorld)"
    by (simp add: ids)
  from g4 busy(3)
  have "lawmaticsID patentB \<notin> currentlyProcessing
        (snd (snd (snd (batchStep noBrowserEnv patentB Map.empty ''2024-03-01'' [] 0 busyWorld))))"
    by blast
  then have e: "''L2'' \<notin> currentlyProcessing
        (snd (snd (snd (batchStep noBrowserEnv patentB Map.empty ''2024-03-01'' [] 0 busyWorld))))"
    by (simp add: ids)
  from g4
  have "currentlyProcessing (snd (processMultipleMatters noBrowserEnv [''L1'', ''L2''] busyWorld))
      = currentlyProcessing busyWorld"
    by blast
  then have f: "currentlyProcessing (snd (processMultipleMatters noBrowserEnv [''L1'', ''L2''] busyWorld)) = {''L1''}"
    by (simp add: cpb)
  from g4
  have "list_all2 (\<lambda>m r. fst r = lawmaticsID m
          \<and> (lawmaticsID m \<in> currentlyProcessing busyWorld \<longrightarrow> snd r = alreadyProcessingInBatch))
        (getMattersByIds [''L1'', ''L2''] busyWorld)
        (results (fst (processMultipleMatters noBrowserEnv [''L1'', ''L2''] busyWorld)))"
    by blast
  then obtain r1 r2 where rs: "results (fst (processMultipleMatters noBrowserEnv [''L1'', ''L2''] busyWorld)) = [r1, r2]"
    and r1: "fst r1 = lawmaticsID trademarkA" "lawmaticsID trademarkA \<in> currentlyProcessing busyWorld \<longrightarrow> snd r1 = alreadyProcessingInBatch"
    and r2: "fst r2 = lawmaticsID patentB"
    unfolding ms by (auto simp: list_all2_Cons1)
  from rs r1 r2 busy(2) have h: "map fst (results (fst (processMultipleMatters noBrowserEnv [''L1'', ''L2''] busyWorld)))
       = [''L1'', ''L2'']"
    and k: "snd (hd (results (fst (processMultipleMatters noBrowserEnv [''L1'', ''L2''] busyWorld))))
       = alreadyProcessingInBatch"
    by (simp_all add: ids)
  have x: "success (fst (processSingleMatter noBrowserEnv ''L1'' twoMatters)) = False"
    and y: "message (fst (processSingleMatter noBrowserEnv ''L1'' twoMatters))
       = ''Cannot read properties of null (reading close)''"
    by (simp_all add: ex)
  from a x y b c d e f h k show ?thesis by blast
qed

section \<open>The display status of a targeted attempt\<close>

text \<open>
  C7, as stated, on the path where the matter is not found. The registry holds the
  matters L1 and L2 and the attempt is for L9. The attempt ends with the result
  \<open>Matter not found\<close>; no status was written and the registry is as before, since both
  calls of \<open>updateMatterStatus\<close> look the identifier up and find no matter to write to.
\<close>

theorem not_found_writes_no_status_counterexample:
  "message (fst (processSingleMatter calmEnv ''L9'' twoMatters)) = ''Matter not found''
   \<and> statusWrites (trace (snd (processSingleMatter calmEnv ''L9'' twoMatters))) = []
   \<and> mapFile (snd (processSingleMatter calmEnv ''L9'' twoMatters)) = mapFile twoMatters"
proof -
  have "''L9'' \<notin> currentlyProcessing twoMatters"
    and "findIndex (\<lambda>m. lawmaticsID m = ''L9'') (mapFile twoMatters) = None"
    by (simp_all add: world_defs trademarkA_def patentB_def)
  then have "processSingleMatter calmEnv ''L9'' twoMatters = (matterNotFound, twoMatters)"
    by (rule processSingleMatter_unregistered)
  then show ?thesis by (simp add: matterNotFound_def world_defs)
qed

text \<open>
  C7, amended. Take an attempt of \<open>processSingleMatter\<close> that starts (the identifier is
  not in flight) on a registered identifier, with a \<open>map.json\<close> that can be read and
  written throughout, and
  let \<open>r\<close> be what the call of \<open>processMatter\<close> inside the attempt comes to and \<open>w2\<close> the
  world it leaves. When that call is made the matter carries the status
  \<open>Processing...\<close>. The attempt writes two statuses, \<open>Processing...\<close> and then a terminal
  one, which the matter carries when the attempt ends: \<open>Failed\<close> when the call threw,
  \<open>Automation Completed\<close> when it returned with a processed document, \<open>No Updates Found\<close>
  when it returned without one. The call returned with a processed document exactly
  when it assigned the processed state, and without one exactly when no document
  entered the chain; the attempt reports success exactly when the call returned.
  For an attempt that starts on an identifier that no registered matter has, the result
  is \<open>Matter not found\<close> and the world is unchanged: no status is written.
\<close>

theorem status_protocol:
  "(i \<notin> currentlyProcessing w \<and> findIndex (\<lambda>m. lawmaticsID m = i) (mapFile w) = Some k
      \<and> (\<forall>h. \<not> mapWriteFails E h)
      \<and> pipelineOutcome E i w = (r, st1, w2) \<and> processSingleMatter E i w = (res, w') \<longrightarrow>
        status (mapFile (markedWorld E i w) ! k) = Some ''Processing...''
      \<and> statusWrites (trace w')
          = statusWrites (trace w)
            @ [(i, ''Processing...''),
               (i, case r of Inl e \<Rightarrow> ''Failed''
                   | Inr result \<Rightarrow> if processed result then ''Automation Completed''
                                   else ''No Updates Found'')]
      \<and> lawmaticsID (mapFile w' ! k) = i
      \<and> status (mapFile w' ! k)
          = Some (case r of Inl e \<Rightarrow> ''Failed''
                  | Inr result \<Rightarrow> if processed result then ''Automation Completed''
                                  else ''No Updates Found'')
      \<and> (\<exists>result. r = Inr result \<and> processed result)
          = (stateWrites (trace w2) \<noteq> stateWrites (trace (markedWorld E i w)))
      \<and> (\<exists>result. r = Inr result \<and> \<not> processed result)
          = (pipelineStarts (trace w2) = pipelineStarts (trace (markedWorld E i w)))
      \<and> success res = (\<exists>result. r = Inr result))
   \<and> (i \<notin> currentlyProcessing w \<and> findIndex (\<lambda>m. lawmaticsID m = i) (mapFile w) = None \<longrightarrow>
        processSingleMatter E i w = (matterNotFound, w))"
proof (intro conjI impI)
  assume "i \<notin> currentlyProcessing w \<and> findIndex (\<lambda>m. lawmaticsID m = i) (mapFile w) = None"
  then show "processSingleMatter E i w = (matterNotFound, w)"
    by (simp add: processSingleMatter_unregistered)
next
  assume h: "i \<notin> currentlyProcessing w \<and> findIndex (\<lambda>m. lawmaticsID m = i) (mapFile w) = Some k
      \<and> (\<forall>h. \<not> mapWriteFails E h)
      \<and> pipelineOutcome E i w = (r, st1, w2) \<and> processSingleMatter E i w = (res, w')"
  then have free: "i \<notin> currentlyProcessing w"
    and some: "findIndex (\<lambda>m. lawmaticsID m = i) (mapFile w) = Some k"
    and writable: "\<forall>h. \<not> mapWriteFails E h"
    and po: "pipelineOutcome E i w = (r, st1, w2)"
    and run: "processSingleMatter E i w = (res, w')"
    by simp_all
  note st = processSingleMatter_status [OF free some writable po run]
  from po have pm:
    "Googlecron_processMatter E (hd (getMattersByIds [i] (markedWorld E i w)))
       (stateFile (markedWorld E i w)) (getTodayDateKey E) (markedWorld E i w) = (r, st1, w2)"
    by (simp add: pipelineOutcome_def Let_def)
  note rep = Googlecron_processMatter_report [OF pm]
  from st show "status (mapFile (markedWorld E i w) ! k) = Some ''Processing...''"
    by blast
  from st show "statusWrites (trace w')
          = statusWrites (trace w)
            @ [(i, ''Processing...''),
               (i, case r of Inl e \<Rightarrow> ''Failed''
                   | Inr result \<Rightarrow> if processed result then ''Automation Completed''
                                   else ''No Updates Found'')]"
    by blast
  from st show "lawmaticsID (mapFile w' ! k) = i"
    by blast
  from st show "status (mapFile w' ! k)
          = Some (case r of Inl e \<Rightarrow> ''Failed''
                  | Inr result \<Rightarrow> if processed result then ''Automation Completed''
                                  else ''No Updates Found'')"
    by blast
  from rep(1) show "(\<exists>result. r = Inr result \<and> processed result)
          = (stateWrites (trace w2) \<noteq> stateWrites (trace (markedWorld E i w)))" .
  from rep(2) show "(\<exists>result. r = Inr result \<and> \<not> processed result)
          = (pipelineStarts (trace w2) = pipelineStarts (trace (markedWorld E i w)))" .
  from st have "res = (case r of
               Inl e \<Rightarrow> \<lparr>success = False, message = (case e of Error msg \<Rightarrow> msg), processedFlag = None\<rparr>
             | Inr result \<Rightarrow>
                 \<lparr>success = True,
                  message = (if processed result then ''New document processed''
                             else ''No new documents found''),
                  processedFlag = Some (processed result)\<rparr>)"
    by blast
  then show "success res = (\<exists>result. r = Inr result)"
    by (cases r) simp_all
qed

theorem status_protocol_witness:
  "status (mapFile (snd (processSingleMatter calmEnv ''L1'' twoMatters)) ! 0)
     = Some ''Automation Completed''
   \<and> statusWrites (trace (snd (processSingleMatter calmEnv ''L1'' twoMatters)))
     = [(''L1'', ''Processing...''), (''L1'', ''Automation Completed'')]
   \<and> status (mapFile (markedWorld calmEnv ''L1'' twoMatters) ! 0) = Some ''Processing...''
   \<and> status (mapFile (snd (processSingleMatter calmEnv ''L1'' upToDateWorld)) ! 0)
     = Some ''No Updates Found''
   \<and> status (mapFile (snd (processSingleMatter noBrowserEnv ''L1'' twoMatters)) ! 0)
     = Some ''Failed''
   \<and> statusWrites (trace (snd (processSingleMatter noBrowserEnv ''L1'' twoMatters)))
     = [(''L1'', ''Processing...''), (''L1'', ''Failed'')]
   \<and> processSingleMatter calmEnv ''L9'' twoMatters = (matterNotFound, twoMatters)"
proof -
  have free: "''L1'' \<notin> currentlyProcessing twoMatters" "''L1'' \<notin> currentlyProcessing upToDateWorld"
    "''L9'' \<notin> currentlyProcessing twoMatters"
    by (simp_all add: world_defs)
  have found: "findIndex (\<lambda>m. lawmaticsID m = ''L1'') (mapFile twoMatters) = Some 0"
    "findIndex (\<lambda>m. lawmaticsID m = ''L1'') (mapFile upToDateWorld) = Some 0"
    and missing: "findIndex (\<lambda>m. lawmaticsID m = ''L9'') (mapFile twoMatters) = None"
    by (simp_all add: world_defs trademarkA_def patentB_def)
  have writable: "\<forall>h. \<not> mapWriteFails calmEnv h" "\<forall>h. \<not> mapWriteFails noBrowserEnv h"
    by (simp_all add: calmEnv_def noBrowserEnv_def)
  have t0: "statusWrites (trace twoMatters) = []"
    by (simp add: world_defs)
  have r1: "fst (pipelineOutcome calmEnv ''L1'' twoMatters)
      = Inr \<lparr>processed = True, reason = None, docCount = 1, latestDocDate = Some ''2024-03-01'',
              multiDoc = False\<rparr>"
    by (simp add: pipelineOutcome_def markedWorld_def run_defs model_defs example_defs example_dates)
  have r2: "fst (pipelineOutcome calmEnv ''L1'' upToDateWorld)
      = Inr \<lparr>processed = False, reason = Some ''not_new'', docCount = 0,
              latestDocDate = Some ''2024-03-01'', multiDoc = False\<rparr>"
    by (simp add: pipelineOutcome_def markedWorld_def run_defs model_defs example_defs world_defs
        example_dates)
  have r3: "fst (pipelineOutcome noBrowserEnv ''L1'' twoMatters)
      = Inl (Error ''Cannot read properties of null (reading close)'')"
    by (simp add: pipelineOutcome_def markedWorld_def run_defs model_defs example_defs example_dates)
  have split: "\<And>x :: (exn + matter_result) \<times> (string \<rightharpoonup> string) \<times> world.
      x = (fst x, fst (snd x), snd (snd x))"
    "\<And>y :: attempt_result \<times> world. y = (fst y, snd y)"
    by simp_all
  note p1 = status_protocol [where i = "''L1''" and w = twoMatters and k = 0 and E = calmEnv
      and r = "fst (pipelineOutcome calmEnv ''L1'' twoMatters)"
      and ?st1.0 = "fst (snd (pipelineOutcome calmEnv ''L1'' twoMatters))"
      and ?w2.0 = "snd (snd (pipelineOutcome calmEnv ''L1'' twoMatters))"
      and res = "fst (processSingleMatter calmEnv ''L1'' twoMatters)"
      and w' = "snd (processSingleMatter calmEnv ''L1'' twoMatters)"]
  note p2 = status_protocol [where i = "''L1''" and w = upToDateWorld and k = 0 and E = calmEnv
      and r = "fst (pipelineOutcome calmEnv ''L1'' upToDateWorld)"
      and ?st1.0 = "fst (snd (pipelineOutcome calmEnv ''L1'' upToDateWorld))"
      and ?w2.0 = "snd (snd (pipelineOutcome calmEnv ''L1'' upToDateWorld))"
      and res = "fst (processSingleMatter calmEnv ''L1'' upToDateWorld)"
      and w' = "snd (processSingleMatter calmEnv ''L1'' upToDateWorld)"]
  note p3 = status_protocol [where i = "''L1''" and w = twoMatters and k = 0 and E = noBrowserEnv
      and r = "fst (pipelineOutcome noBrowserEnv ''L1'' twoMatters)"
      and ?st1.0 = "fst (snd (pipelineOutcome noBrowserEnv ''L1'' twoMatters))"
      and ?w2.0 = "snd (snd (pipelineOutcome noBrowserEnv ''L1'' twoMatters))"
      and res = "fst (processSingleMatter noBrowserEnv ''L1'' twoMatters)"
      and w' = "snd (processSingleMatter noBrowserEnv ''L1'' twoMatters)"]
  note p4 = status_protocol [where i = "''L9''" and w = twoMatters and k = 0 and E = calmEnv
      and r = "fst (pipelineOutcome calmEnv ''L9'' twoMatters)"
      and ?st1.0 = "fst (snd (pipelineOutcome calmEnv ''L9'' twoMatters))"
      and ?w2.0 = "snd (snd (pipelineOutcome calmEnv ''L9'' twoMatters))"
      and res = "fst (processSingleMatter calmEnv ''L9'' twoMatters)"
      and w' = "snd (processSingleMatter calmEnv ''L9'' twoMatters)"]
  from p1 free(1) found(1) writable(1)
    split(1) [of "pipelineOutcome calmEnv ''L1'' twoMatters"]
    split(2) [of "processSingleMatter calmEnv ''L1'' twoMatters"]
  have a0: "status (mapFile (snd (processSingleMatter calmEnv ''L1'' twoMatters)) ! 0)
      = Some (case fst (pipelineOutcome calmEnv ''L1'' twoMatters) of Inl e \<Rightarrow> ''Failed''
              | Inr result \<Rightarrow> if processed result then ''Automation Completed''
                              else ''No Updates Found'')"
    and a1: "statusWrites (trace (snd (processSingleMatter calmEnv ''L1'' twoMatters)))
      = statusWrites (trace twoMatters)
        @ [(''L1'', ''Processing...''),
           (''L1'', case fst (pipelineOutcome calmEnv ''L1'' twoMatters) of Inl e \<Rightarrow> ''Failed''
              | Inr result \<Rightarrow> if processed result then ''Automation Completed''
                              else ''No Updates Found'')]"
    and a2: "status (mapFile (markedWorld calmEnv ''L1'' twoMatters) ! 0) = Some ''Processing...''"
    by blast+
  from a0 have a: "status (mapFile (snd (processSingleMatter calmEnv ''L1'' twoMatters)) ! 0)
     = Some ''Automation Completed''"
    by (simp add: r1)
  from a1 have a': "statusWrites (trace (snd (processSingleMatter calmEnv ''L1'' twoMatters)))
     = [(''L1'', ''Processing...''), (''L1'', ''Automation Completed'')]"
    by (simp add: r1 t0)
  from p2 free(2) found(2) writable(1)
    split(1) [of "pipelineOutcome calmEnv ''L1'' upToDateWorld"]
    split(2) [of "processSingleMatter calmEnv ''L1'' upToDateWorld"]
  have "status (mapFile (snd (processSingleMatter calmEnv ''L1'' upToDateWorld)) ! 0)
      = Some (case fst (pipelineOutcome calmEnv ''L1'' upToDateWorld) of Inl e \<Rightarrow> ''Failed''
              | Inr result \<Rightarrow> if processed result then ''Automation Completed''
                              else ''No Updates Found'')"
    by blast
  then have b: "status (mapFile (snd (processSingleMatter calmEnv ''L1'' upToDateWorld)) ! 0)
     = Some ''No Updates Found''"
    by (simp add: r2)
  from p3 free(1) found(1) writable(2)
    split(1) [of "pipelineOutcome noBrowserEnv ''L1'' twoMatters"]
    split(2) [of "processSingleMatter noBrowserEnv ''L1'' twoMatters"]
  have c0: "status (mapFile (snd (processSingleMatter noBrowserEnv ''L1'' twoMatters)) ! 0)
      = Some (case fst (pipelineOutcome noBrowserEnv ''L1'' twoMatters) of Inl e \<Rightarrow> ''Failed''
              | Inr result \<Rightarrow> if processed result then ''Automation Completed''
                              else ''No Updates Found'')"
    and c1: "statusWrites (trace (snd (processSingleMatter noBrowserEnv ''L1'' twoMatters)))
      = statusWrites (trace twoMatters)
        @ [(''L1'', ''Processing...''),
           (''L1'', case fst (pipelineOutcome noBrowserEnv ''L1'' twoMatters) of Inl e \<Rightarrow> ''Failed''
              | Inr result \<Rightarrow> if processed result then ''Automation Completed''
                              else ''No Updates Found'')]"
    by blast+
  from c0 have c: "status (mapFile (snd (processSingleMatter noBrowserEnv ''L1'' twoMatters)) ! 0)
     = Some ''Failed''"
    by (simp add: r3)
  from c1 have c': "statusWrites (trace (snd (processSingleMatter noBrowserEnv ''L1'' twoMatters)))
     = [(''L1'', ''Processing...''), (''L1'', ''Failed'')]"
    by (simp add: r3 t0)
  from p4 free(3) missing
  have e: "processSingleMatter calmEnv ''L9'' twoMatters = (matterNotFound, twoMatters)"
    by blast
  from a a' a2 b c c' e show ?thesis by blast
qed

text \<open>
  Why the amended claim asks for a \<open>map.json\<close> that can be written: when every write
  throws, \<open>updateMatterStatus\<close> catches the exception and returns \<open>false\<close>, the attempt
  goes on and reports its processed document, and the matter never gets a status.
\<close>

lemma read_only_map_keeps_status:
  "success (fst (processSingleMatter readOnlyMapEnv ''L1'' twoMatters))
   \<and> processedFlag (fst (processSingleMatter readOnlyMapEnv ''L1'' twoMatters)) = Some True
   \<and> statusWrites (trace (snd (processSingleMatter readOnlyMapEnv ''L1'' twoMatters))) = []
   \<and> mapFile (snd (processSingleMatter readOnlyMapEnv ''L1'' twoMatters)) = mapFile twoMatters"
  by (simp add: readOnlyMapEnv_def run_defs model_defs example_defs example_dates)

section \<open>The consolidated confirmation of a targeted batch\<close>

text \<open>
  C8, as stated, on a batch whose identifiers match no registered matter. No matter had
  a document processed, and no confirmation is sent: the guard
  \<open>if (matters.length === 0)\<close> returns \<open>No valid matters found\<close> before anything else.
\<close>

theorem no_valid_matters_counterexample:
  "results (fst (processMultipleMatters calmEnv [''L9''] twoMatters)) = []
   \<and> batchMessage (fst (processMultipleMatters calmEnv [''L9''] twoMatters))
       = Some ''No valid matters found''
   \<and> confirmations (trace (snd (processMultipleMatters calmEnv [''L9''] twoMatters))) = []"
proof -
  have "getMattersByIds [''L9''] twoMatters = []"
    by (simp add: getMattersByIds_def world_defs trademarkA_def patentB_def)
  from processMultipleMatters_none [OF this, of calmEnv]
  show ?thesis by (simp add: world_defs)
qed

text \<open>
  C8, amended. Take a targeted batch in which at least one identifier matches a
  registered matter. When no document entered the chain during the batch, the batch
  sends exactly one confirmation mail, with the count 0 and the number of matters.
  When the processed state was assigned during the batch, that is, when the chain of at
  least one matter ran to its end, the batch sends none. A batch in which no identifier
  matches is turned away with \<open>No valid matters found\<close> and the world is unchanged.
  Nothing is said here of a batch in which documents entered the chain and every such
  chain threw before its end. A confirmation mail in the history is one call of
  \<open>sendConfirmationEmail\<close>, which hands the message to the mail service and catches a
  rejected send.
\<close>

theorem consolidated_confirmation:
  "(getMattersByIds ids w \<noteq> [] \<and> processMultipleMatters E ids w = (res, w') \<longrightarrow>
      (pipelineStarts (trace w') = pipelineStarts (trace w) \<longrightarrow>
         confirmations (trace w') = confirmations (trace w) @ [(0, length (getMattersByIds ids w))])
      \<and> (stateWrites (trace w') \<noteq> stateWrites (trace w) \<longrightarrow>
           confirmations (trace w') = confirmations (trace w)))
   \<and> (getMattersByIds ids w = [] \<longrightarrow>
        processMultipleMatters E ids w =
          (\<lparr>batchSuccess = False, batchMessage = Some ''No valid matters found'', total = 0,
            successful = 0, processedTotal = 0, results = []\<rparr>, w))"
proof (intro conjI impI)
  assume "getMattersByIds ids w = []"
  then show "processMultipleMatters E ids w =
          (\<lparr>batchSuccess = False, batchMessage = Some ''No valid matters found'', total = 0,
            successful = 0, processedTotal = 0, results = []\<rparr>, w)"
    by (rule processMultipleMatters_none)
next
  assume h: "getMattersByIds ids w \<noteq> [] \<and> processMultipleMatters E ids w = (res, w')"
  then have ne: "getMattersByIds ids w \<noteq> []" and run: "processMultipleMatters E ids w = (res, w')"
    by simp_all
  from processMultipleMatters_some [OF ne run]
  have cf: "confirmations (trace w')
         = confirmations (trace w)
           @ (if processedTotal res = 0 then [(0, length (getMattersByIds ids w))] else [])"
    by blast
  from processMultipleMatters_events [OF ne run] obtain es where
    tr: "trace w' = trace w @ es"
    and cnt: "processedTotal res = length (stateWrites es)"
    and le: "length (stateWrites es) \<le> length (pipelineStarts es)"
    by blast
  {
    assume "pipelineStarts (trace w') = pipelineStarts (trace w)"
    with tr have "pipelineStarts es = []" by simp
    with le cnt have "processedTotal res = 0" by simp
    with cf show "confirmations (trace w') = confirmations (trace w) @ [(0, length (getMattersByIds ids w))]"
      by simp
  }
  {
    assume "stateWrites (trace w') \<noteq> stateWrites (trace w)"
    with tr have "stateWrites es \<noteq> []" by simp
    with cnt have "processedTotal res \<noteq> 0" by simp
    with cf show "confirmations (trace w') = confirmations (trace w)"
      by simp
  }
qed

theorem consolidated_confirmation_witness:
  "confirmations (trace (snd (processMultipleMatters calmEnv [''L1'', ''L2''] upToDateWorld))) = [(0, 2)]
   \<and> pipelineStarts (trace (snd (processMultipleMatters calmEnv [''L1'', ''L2''] upToDateWorld))) = []
   \<and> confirmations (trace (snd (processMultipleMatters calmEnv [''L1'', ''L2''] twoMatters))) = []
   \<and> stateWrites (trace (snd (processMultipleMatters calmEnv [''L1'', ''L2''] twoMatters)))
       = [(''12345'', ''2024-03-01''), (''67890'', ''2024-03-01'')]
   \<and> processMultipleMatters calmEnv [''L9''] twoMatters =
          (\<lparr>batchSuccess = False, batchMessage = Some ''No valid matters found'', total = 0,
            successful = 0, processedTotal = 0, results = []\<rparr>, twoMatters)"
proof -
  have ms: "getMattersByIds [''L1'', ''L2''] upToDateWorld = [trademarkA, patentB]"
    "getMattersByIds [''L1'', ''L2''] twoMatters = [trademarkA, patentB]"
    and none: "getMattersByIds [''L9''] twoMatters = []"
    by (simp_all add: getMattersByIds_def world_defs trademarkA_def patentB_def)
  have t0: "trace twoMatters = []" "trace upToDateWorld = []" by (simp_all add: world_defs)
  have ps: "pipelineStarts (trace (snd (processMultipleMatters calmEnv [''L1'', ''L2''] upToDateWorld))) = []"
    by (simp add: run_defs model_defs example_defs world_defs example_dates)
  have sw: "stateWrites (trace (snd (processMultipleMatters calmEnv [''L1'', ''L2''] twoMatters)))
       = [(''12345'', ''2024-03-01''), (''67890'', ''2024-03-01'')]"
    by (simp add: run_defs model_defs example_defs world_defs example_dates)
  have split: "\<And>y :: batch_result \<times> world. y = (fst y, snd y)" by simp
  note c1 = consolidated_confirmation [where E = calmEnv and ids = "[''L1'', ''L2'']" and w = upToDateWorld
      and res = "fst (processMultipleMatters calmEnv [''L1'', ''L2''] upToDateWorld)"
      and w' = "snd (processMultipleMatters calmEnv [''L1'', ''L2''] upToDateWorld)"]
  note c2 = consolidated_confirmation [where E = calmEnv and ids = "[''L1'', ''L2'']" and w = twoMatters
      and res = "fst (processMultipleMatters calmEnv [''L1'', ''L2''] twoMatters)"
      and w' = "snd (processMultipleMatters calmEnv [''L1'', ''L2''] twoMatters)"]
  note c4 = consolidated_confirmation [where E = calmEnv and ids = "[''L9'']" and w = twoMatters
      and res = "fst (processMultipleMatters calmEnv [''L9''] twoMatters)"
      and w' = "snd (processMultipleMatters calmEnv [''L9''] twoMatters)"]
  have ne1: "getMattersByIds [''L1'', ''L2''] upToDateWorld \<noteq> []"
    and ne2: "getMattersByIds [''L1'', ''L2''] twoMatters \<noteq> []"
    by (simp_all add: ms)
  have h1: "pipelineStarts (trace (snd (processMultipleMatters calmEnv [''L1'', ''L2''] upToDateWorld)))
      = pipelineStarts (trace upToDateWorld)"
    by (simp add: ps t0)
  have h2: "stateWrites (trace (snd (processMultipleMatters calmEnv [''L1'', ''L2''] twoMatters)))
      \<noteq> stateWrites (trace twoMatters)"
    by (simp add: sw t0)
  from c1 ne1 h1 split [of "processMultipleMatters calmEnv [''L1'', ''L2''] upToDateWorld"]
  have "confirmations (trace (snd (processMultipleMatters calmEnv [''L1'', ''L2''] upToDateWorld)))
      = confirmations (trace upToDateWorld) @ [(0, length (getMattersByIds [''L1'', ''L2''] upToDateWorld))]"
    by blast
  then have a: "confirmations (trace (snd (processMultipleMatters calmEnv [''L1'', ''L2''] upToDateWorld))) = [(0, 2)]"
    by (simp add: ms t0)
  from c2 ne2 h2 split [of "processMultipleMatters calmEnv [''L1'', ''L2''] twoMatters"]
  have "confirmations (trace (snd (processMultipleMatters calmEnv [''L1'', ''L2''] twoMatters)))
      = confirmations (trace twoMatters)"
    by blast
  then have b: "confirmations (trace (snd (processMultipleMatters calmEnv [''L1'', ''L2''] twoMatters))) = []"
    by (simp add: t0)
  from c4 none have d: "processMultipleMatters calmEnv [''L9''] twoMatters =
          (\<lparr>batchSuccess = False, batchMessage = Some ''No valid matters found'', total = 0,
            successful = 0, processedTotal = 0, results = []\<rparr>, twoMatters)"
    by blast
  from a ps b sw d show ?thesis by blast
qed

text \<open>
  The batch that the amended claim leaves open. The browser cannot be launched: for each
  of the two matters the document enters the chain, the mail is sent and the prospect
  is updated, then the form submission throws and the matter is marked \<open>Failed\<close>. The
  processed count is still 0, and the batch sends the confirmation that reports all
  matters up to date.
\<close>

lemma confirmation_after_thrown_chains:
  "map fst (pipelineStarts (trace (snd (processMultipleMatters noBrowserEnv [''L1'', ''L2''] twoMatters))))
     = [''12345'', ''67890'']
   \<and> stateWrites (trace (snd (processMultipleMatters noBrowserEnv [''L1'', ''L2''] twoMatters))) = []
   \<and> map (\<lambda>r. success (snd r)) (results (fst (processMultipleMatters noBrowserEnv [''L1'', ''L2''] twoMatters)))
     = [False, False]
   \<and> map (status) (mapFile (snd (processMultipleMatters noBrowserEnv [''L1'', ''L2''] twoMatters)))
     = [Some ''Failed'', Some ''Failed'']
   \<and> confirmations (trace (snd (processMultipleMatters noBrowserEnv [''L1'', ''L2''] twoMatters)))
     = [(0, 2)]"
  by (simp add: run_defs model_defs example_defs world_defs example_dates)

end
